theory Spec2Isabelle
  imports Complex_Main "HOL-Library.AList"
begin

section \<open>Numbers and arrays of the numerical library\<close>

text \<open>
  The program computes with numpy float64 arrays. A float is modelled by \<open>flt\<close>: a finite
  value carried as a real number, or one of the three IEEE special values. Finite
  arithmetic is taken as exact (no rounding, no overflow, one zero of positive sign); the
  special values follow IEEE 754 as numpy applies it: \<open>1/0 = inf\<close>, \<open>0/0 = nan\<close>,
  \<open>inf - inf = nan\<close>, \<open>0 * inf = nan\<close>, every comparison with \<open>nan\<close> is false
  except \<open>!=\<close>.
\<close>

datatype flt = Fin real | PInf | NInf | NaN

datatype error = ValueError | IndexError | AttributeError | LinAlgError | OverflowError | SolverError

fun isfinite :: "flt \<Rightarrow> bool" where
  "isfinite (Fin a) = True"
| "isfinite PInf = False"
| "isfinite NInf = False"
| "isfinite NaN = False"

fun fneg :: "flt \<Rightarrow> flt" where
  "fneg (Fin a) = Fin (- a)"
| "fneg PInf = NInf"
| "fneg NInf = PInf"
| "fneg NaN = NaN"

fun fadd :: "flt \<Rightarrow> flt \<Rightarrow> flt" where
  "fadd (Fin a) (Fin b) = Fin (a + b)"
| "fadd NaN y = NaN"
| "fadd x NaN = NaN"
| "fadd PInf NInf = NaN"
| "fadd NInf PInf = NaN"
| "fadd PInf y = PInf"
| "fadd x PInf = PInf"
| "fadd NInf y = NInf"
| "fadd x NInf = NInf"

definition fsub :: "flt \<Rightarrow> flt \<Rightarrow> flt" where
  "fsub x y = fadd x (fneg y)"

text \<open>The infinity of the sign of a nonzero real.\<close>

definition inf_of :: "real \<Rightarrow> flt" where
  "inf_of s = (if 0 < s then PInf else NInf)"

fun fmul :: "flt \<Rightarrow> flt \<Rightarrow> flt" where
  "fmul (Fin a) (Fin b) = Fin (a * b)"
| "fmul NaN y = NaN"
| "fmul x NaN = NaN"
| "fmul PInf PInf = PInf"
| "fmul PInf NInf = NInf"
| "fmul NInf PInf = NInf"
| "fmul NInf NInf = PInf"
| "fmul PInf (Fin b) = (if b = 0 then NaN else inf_of b)"
| "fmul NInf (Fin b) = (if b = 0 then NaN else inf_of (- b))"
| "fmul (Fin a) PInf = (if a = 0 then NaN else inf_of a)"
| "fmul (Fin a) NInf = (if a = 0 then NaN else inf_of (- a))"

fun fdiv :: "flt \<Rightarrow> flt \<Rightarrow> flt" where
  "fdiv (Fin a) (Fin b) =
     (if b \<noteq> 0 then Fin (a / b) else if a = 0 then NaN else inf_of a)"
| "fdiv NaN y = NaN"
| "fdiv x NaN = NaN"
| "fdiv (Fin a) PInf = Fin 0"
| "fdiv (Fin a) NInf = Fin 0"
| "fdiv PInf (Fin b) = (if 0 \<le> b then PInf else NInf)"
| "fdiv NInf (Fin b) = (if 0 \<le> b then NInf else PInf)"
| "fdiv PInf PInf = NaN"
| "fdiv PInf NInf = NaN"
| "fdiv NInf PInf = NaN"
| "fdiv NInf NInf = NaN"

fun fsqrt :: "flt \<Rightarrow> flt" where
  "fsqrt (Fin a) = (if 0 \<le> a then Fin (sqrt a) else NaN)"
| "fsqrt PInf = PInf"
| "fsqrt NInf = NaN"
| "fsqrt NaN = NaN"

fun fexp :: "flt \<Rightarrow> flt" where
  "fexp (Fin a) = Fin (exp a)"
| "fexp PInf = PInf"
| "fexp NInf = Fin 0"
| "fexp NaN = NaN"

fun fabs :: "flt \<Rightarrow> flt" where
  "fabs (Fin a) = Fin \<bar>a\<bar>"
| "fabs PInf = PInf"
| "fabs NInf = PInf"
| "fabs NaN = NaN"

text \<open>\<open>x > y\<close>, \<open>x == y\<close> and \<open>x != y\<close> on floats.\<close>

fun fgt :: "flt \<Rightarrow> flt \<Rightarrow> bool" where
  "fgt (Fin a) (Fin b) = (b < a)"
| "fgt NaN y = False"
| "fgt x NaN = False"
| "fgt PInf PInf = False"
| "fgt PInf y = True"
| "fgt x PInf = False"
| "fgt NInf y = False"
| "fgt x NInf = True"

definition flt_lt :: "flt \<Rightarrow> flt \<Rightarrow> bool" where
  "flt_lt x y = fgt y x"

definition feq :: "flt \<Rightarrow> flt \<Rightarrow> bool" where
  "feq x y = (x \<noteq> NaN \<and> x = y)"

definition fne :: "flt \<Rightarrow> flt \<Rightarrow> bool" where
  "fne x y = (\<not> feq x y)"

text \<open>A boolean used as a number: \<open>True\<close> is 1 and \<open>False\<close> is 0.\<close>

definition of_bool_flt :: "bool \<Rightarrow> flt" where
  "of_bool_flt b = (if b then Fin 1 else Fin 0)"

text \<open>\<open>np.sum\<close> of a one-dimensional array.\<close>

definition fsum :: "flt list \<Rightarrow> flt" where
  "fsum xs = foldl fadd (Fin 0) xs"

text \<open>
  \<open>a.max()\<close> and \<open>a.min()\<close>: a \<open>nan\<close> in the array is the result; the empty array
  raises \<open>ValueError\<close>.
\<close>

definition fmax2 :: "flt \<Rightarrow> flt \<Rightarrow> flt" where
  "fmax2 x y = (if x = NaN \<or> y = NaN then NaN else if fgt y x then y else x)"

definition fmin2 :: "flt \<Rightarrow> flt \<Rightarrow> flt" where
  "fmin2 x y = (if x = NaN \<or> y = NaN then NaN else if fgt x y then y else x)"

definition amax :: "flt list \<Rightarrow> error + flt" where
  "amax xs = (case xs of [] \<Rightarrow> Inl ValueError | x # r \<Rightarrow> Inr (foldl fmax2 x r))"

definition amin :: "flt list \<Rightarrow> error + flt" where
  "amin xs = (case xs of [] \<Rightarrow> Inl ValueError | x # r \<Rightarrow> Inr (foldl fmin2 x r))"

text \<open>Sequencing of computations that may raise.\<close>

definition ebind :: "error + 'a \<Rightarrow> ('a \<Rightarrow> error + 'b) \<Rightarrow> error + 'b" where
  "ebind m f = (case m of Inl e \<Rightarrow> Inl e | Inr x \<Rightarrow> f x)"

text \<open>
  Boolean-mask indexing \<open>a[mask]\<close>: the entries of \<open>a\<close> where the mask is true, in
  order.
\<close>

definition select :: "bool list \<Rightarrow> 'a list \<Rightarrow> 'a list" where
  "select msk xs = map fst (filter snd (zip xs msk))"

definition count_true :: "bool list \<Rightarrow> nat" where
  "count_true msk = length (filter id msk)"

fun efold :: "('a \<Rightarrow> 's \<Rightarrow> error + 's) \<Rightarrow> 'a list \<Rightarrow> 's \<Rightarrow> error + 's" where
  "efold f [] s = Inr s"
| "efold f (x # xs) s = ebind (f x s) (efold f xs)"

text \<open>
  Python indexing and slicing with a possibly negative position: \<open>a[j]\<close> raises outside
  \<open>-n \<le> j < n\<close>; a slice \<open>a[start:stop]\<close> clips its bounds to the array and is empty
  when they cross. \<open>None\<close> is an omitted bound.
\<close>

definition py_index :: "nat \<Rightarrow> int \<Rightarrow> error + nat" where
  "py_index n j =
     (if 0 \<le> j \<and> j < int n then Inr (nat j)
      else if - int n \<le> j \<and> j < 0 then Inr (nat (j + int n))
      else Inl IndexError)"

definition norm_index :: "nat \<Rightarrow> int \<Rightarrow> nat" where
  "norm_index n s = (if s < 0 then nat (max 0 (s + int n)) else min (nat s) n)"

definition slice_bounds :: "nat \<Rightarrow> int option \<Rightarrow> int option \<Rightarrow> nat \<times> nat" where
  "slice_bounds n start stop =
     ((case start of None \<Rightarrow> 0 | Some s \<Rightarrow> norm_index n s),
      (case stop of None \<Rightarrow> n | Some s \<Rightarrow> norm_index n s))"

definition getslice :: "'a list \<Rightarrow> int option \<Rightarrow> int option \<Rightarrow> 'a list" where
  "getslice xs start stop =
     (case slice_bounds (length xs) start stop of (lo, hi) \<Rightarrow> take (hi - lo) (drop lo xs))"

text \<open>\<open>range(a, b)\<close> as the list of its integers.\<close>

definition py_range :: "int \<Rightarrow> int \<Rightarrow> int list" where
  "py_range a b = [a..b - 1]"

text \<open>
  Two-dimensional arrays are lists of rows. \<open>a.reshape(ny, nx)\<close> raises when the size
  differs from \<open>ny * nx\<close>; \<open>a.sum(axis=0)\<close> adds the rows; \<open>np.dot(v, M)\<close> of a
  vector and a matrix of \<open>n\<close> columns raises when the vector's length is not the number
  of rows.
\<close>

definition reshape :: "nat \<times> nat \<Rightarrow> 'a list \<Rightarrow> error + 'a list list" where
  "reshape shp xs =
     (case shp of (ny, nx) \<Rightarrow>
        if length xs = ny * nx
        then Inr (map (\<lambda>r. take nx (drop (r * nx) xs)) [0..<ny])
        else Inl ValueError)"

definition sum_axis0 :: "nat \<Rightarrow> flt list list \<Rightarrow> flt list" where
  "sum_axis0 nx rows = foldl (\<lambda>acc row. map2 fadd acc row) (replicate nx (Fin 0)) rows"

definition dot_rows :: "flt list \<Rightarrow> flt list list \<Rightarrow> nat \<Rightarrow> flt list" where
  "dot_rows v M n =
     foldl (\<lambda>acc (c, row). map2 fadd acc (map (fmul c) row)) (replicate n (Fin 0)) (zip v M)"

definition np_dot :: "flt list \<Rightarrow> flt list list \<Rightarrow> nat \<Rightarrow> error + flt list" where
  "np_dot v M n = (if length v = length M then Inr (dot_rows v M n) else Inl ValueError)"

text \<open>
  Broadcasting a block of shape \<open>(length blk, kw)\<close> to the shape \<open>(ny, w)\<close> of the
  target of an in-place operation: each dimension is equal or is 1 in the block.
\<close>

definition broadcast_to :: "nat \<Rightarrow> nat \<Rightarrow> nat \<Rightarrow> 'a list list \<Rightarrow> error + 'a list list" where
  "broadcast_to ny w kw blk =
     (if (length blk = ny \<or> length blk = 1) \<and> (kw = w \<or> kw = 1)
      then Inr (map (\<lambda>row. if kw = w then row else replicate w (hd row))
                  (if length blk = ny then blk else replicate ny (hd blk)))
      else Inl ValueError)"

text \<open>\<open>img[:, a:b] += blk\<close> on an image of \<open>nx\<close> columns, for a block of \<open>kw\<close> columns.\<close>

definition iadd_slice ::
  "flt list list \<Rightarrow> nat \<Rightarrow> int option \<Rightarrow> int option \<Rightarrow> flt list list \<Rightarrow> nat \<Rightarrow> error + flt list list" where
  "iadd_slice img nx a b blk kw =
     (case slice_bounds nx a b of (lo, hi) \<Rightarrow>
        ebind (broadcast_to (length img) (hi - lo) kw blk) (\<lambda>blk'.
          Inr (map2 (\<lambda>row brow.
                 take lo row @ map2 fadd (take (hi - lo) (drop lo row)) brow @ drop (lo + (hi - lo)) row)
               img blk')))"

section \<open>StackedSpectrum\<close>

text \<open>
  What the constructor reads from the stack file for one extension: the header keywords,
  the \<open>SCI\<close>, \<open>WHT\<close> and \<open>KERNEL\<close> images, the \<open>CONTAM\<close> image when the file has one,
  and \<open>SENS\<close>, the array that lines 727-731 obtain from the instrument configuration and
  the interpolation routine (both outside this repository's sources) for an exposure that
  is not flux-calibrated. The images of one extension have the shape of the header.
\<close>

record stack_ext =
  NAXIS1 :: nat
  NAXIS2 :: nat
  CRPIX1 :: flt
  CD1_1 :: flt
  CRVAL1 :: flt
  ISFLAM :: bool
  SCI :: "flt list list"
  WHT :: "flt list list"
  CONTAM :: "flt list list option"
  KERNEL :: "flt list list"
  SENS :: "flt list"

text \<open>The attributes of a \<open>StackedSpectrum\<close>; the prefix keeps them apart from the fitter's.\<close>

record StackedSpectrum =
  sp_sys_err :: flt
  sp_mask_min :: flt
  sp_sh :: "nat \<times> nat"
  sp_wave :: "flt list"
  sp_is_flambda :: bool
  sp_size :: nat
  sp_scif :: "flt list"
  sp_ivarf0 :: "flt list"
  sp_ivarf :: "flt list"
  sp_ivar :: "flt list list"
  sp_sivarf :: "flt list"
  sp_fit_mask :: "bool list"
  sp_contamf :: "flt list"
  sp_weightf :: "flt list"
  sp_kernel :: "flt list list"
  sp_sens :: "flt list"
  sp_fit_data :: "flt list list"
  sp_flat :: "flt list"
  sp_DoF :: nat

definition get_wavelength_from_header :: "stack_ext \<Rightarrow> flt list" where
  "get_wavelength_from_header h =
     map (\<lambda>i. fadd (fmul (fsub (fadd (Fin (real i)) (Fin 1)) (CRPIX1 h)) (CD1_1 h)) (CRVAL1 h))
       [0..<NAXIS1 h]"

text \<open>
  \<open>_build_model\<close>: \<open>data[j]\<close> is the image that a unit flux in wavelength column \<open>j\<close>
  produces: the kernel placed around column \<open>j\<close>, cut at the edges of the array. The three
  loops run in the order of the source. \<open>kx\<close> is the width of the kernel.
\<close>

definition add_kernel ::
  "flt list list \<Rightarrow> nat \<Rightarrow> nat \<Rightarrow> int \<Rightarrow> int option \<times> int option \<Rightarrow> int option \<times> int option \<Rightarrow>
   flt list list list \<Rightarrow> error + flt list list list" where
  "add_kernel kern kx nx j dst src data =
     ebind (py_index (length data) j) (\<lambda>jj.
       case slice_bounds kx (fst src) (snd src) of (klo, khi) \<Rightarrow>
       ebind (iadd_slice (data ! jj) nx (fst dst) (snd dst)
                (map (\<lambda>row. getslice row (fst src) (snd src)) kern) (khi - klo)) (\<lambda>img.
         Inr (data[jj := img])))"

definition build_data :: "flt list list \<Rightarrow> nat \<Rightarrow> nat \<Rightarrow> error + flt list list list" where
  "build_data kern ny nx =
     (let NY = int ny; NX = int nx; kx = (case kern of [] \<Rightarrow> 0 | row # _ \<Rightarrow> length row);
          data0 = replicate nx (replicate ny (replicate nx (Fin 0)))
      in ebind (efold (\<lambda>j. add_kernel kern kx nx j
                   (None, Some (j + NY div 2)) (Some ((- NY) div 2 - j), None))
                 (py_range 0 (NY div 2)) data0) (\<lambda>data1.
         ebind (efold (\<lambda>j. add_kernel kern kx nx j
                   (Some ((- NY) div 2 + j), None) (None, Some (NX - j + NY div 2)))
                 (py_range (NX - NY div 2) NX) data1) (\<lambda>data2.
         efold (\<lambda>j. add_kernel kern kx nx j
                   (Some (j - NY div 2), Some (j + NY div 2)) (None, None))
                 (py_range (NY div 2) (NX - NY div 2)) data2)))"

text \<open>
  \<open>fit_data = data.reshape(NX, -1)\<close>, and for an exposure that is not flux-calibrated
  every row \<open>j\<close> times \<open>sens[j]\<close>.
\<close>

definition build_model :: "flt list list \<Rightarrow> nat \<times> nat \<Rightarrow> bool \<Rightarrow> flt list \<Rightarrow> error + flt list list" where
  "build_model kern shp is_flam sens =
     (case shp of (ny, nx) \<Rightarrow>
        ebind (build_data kern ny nx) (\<lambda>data.
          let fit_data = map concat data
          in if \<not> is_flam
             then if length sens = nx \<or> length sens = 1
                  then Inr (map2 (\<lambda>row s. map (\<lambda>v. fmul v s) row) fit_data
                              (if length sens = nx then sens else replicate nx (hd sens)))
                  else Inl ValueError
             else Inr fit_data))"

text \<open>
  The routines of other packages that the fitting code calls: the flux-conserving
  interpolation \<open>interp_conserve_c(target_wave, source_wave, source_flux)\<close>, the two
  least-squares solvers and the matrix inverse. They are parameters of the embedding. A
  solver receives the whitened design with one row per basis vector (the transpose of
  the source's \<open>AxT\<close>) and the whitened data; each may raise.
\<close>

record externals =
  interp_conserve_c :: "flt list \<Rightarrow> flt list \<Rightarrow> flt list \<Rightarrow> flt list"
  nnls :: "flt list list \<Rightarrow> flt list \<Rightarrow> error + flt list"
  lstsq :: "flt list list \<Rightarrow> flt list \<Rightarrow> error + flt list"
  matrix_inv :: "flt list list \<Rightarrow> error + flt list list"

text \<open>
  \<open>compute_model\<close>: the template resampled on the exposure's wavelengths (a flat
  spectrum of ones when none is given), times the dispersion operator.
\<close>

definition compute_model ::
  "externals \<Rightarrow> StackedSpectrum \<Rightarrow> (flt list \<times> flt list) option \<Rightarrow> error + flt list" where
  "compute_model X E spectrum_1d =
     (let fl = (case spectrum_1d of
                  None \<Rightarrow> map (\<lambda>w. fadd (fmul w (Fin 0)) (Fin 1)) (sp_wave E)
                | Some s \<Rightarrow> interp_conserve_c X (sp_wave E) (fst s) (snd s))
      in np_dot fl (sp_fit_data E) (fst (sp_sh E) * snd (sp_sh E)))"

text \<open>The three statements of the constructor that set and narrow \<open>fit_mask\<close>.\<close>

definition mask_positive :: "flt list \<Rightarrow> bool list" where
  "mask_positive ivarf = map (\<lambda>v. fgt v (Fin 0)) ivarf"

definition mask_finite :: "bool list \<Rightarrow> flt list \<Rightarrow> flt list \<Rightarrow> bool list" where
  "mask_finite fit_mask scif ivarf =
     map2 (\<and>) fit_mask (map2 (\<and>) (map isfinite scif) (map isfinite ivarf))"

definition mask_amplitude :: "bool list \<Rightarrow> flt list \<Rightarrow> flt \<Rightarrow> flt \<Rightarrow> bool list" where
  "mask_amplitude fit_mask elec mask_min elec_max =
     map2 (\<and>) fit_mask (map (\<lambda>e. fgt e (fmul mask_min elec_max)) elec)"

text \<open>
  The constructor, without the reading of the file. The class of the source defines no
  method \<open>drizzle_mask\<close>, so a positive \<open>mask_threshold\<close> ends in \<open>AttributeError\<close>; the
  fitter passes \<open>-1\<close>.
\<close>

definition StackedSpectrum_init ::
  "externals \<Rightarrow> stack_ext \<Rightarrow> flt \<Rightarrow> flt \<Rightarrow> flt \<Rightarrow> flt \<Rightarrow> error + StackedSpectrum" where
  "StackedSpectrum_init X h sys_err mask_min mask_threshold fcontam =
     (let sh = (NAXIS2 h, NAXIS1 h);
          wave = get_wavelength_from_header h;
          scif = concat (SCI h);
          ivarf0 = concat (WHT h);
          ivarf = map2 (\<lambda>iv s. fdiv (Fin 1)
                     (fadd (fdiv (Fin 1) iv) (fmul (fmul sys_err s) (fmul sys_err s)))) ivarf0 scif
      in ebind (reshape sh ivarf) (\<lambda>ivar.
         let sivarf = concat (map (map fsqrt) ivar);
             fit_mask1 = mask_positive ivarf;
             fit_mask2 = mask_finite fit_mask1 scif ivarf;
             contamf = (case CONTAM h of
                          Some c \<Rightarrow> map fabs (concat c)
                        | None \<Rightarrow> map (\<lambda>s. fmul s (Fin 0)) scif);
             weightf = (case CONTAM h of
                          Some c \<Rightarrow> map2 (\<lambda>c iv. fexp (fmul (fmul (fneg fcontam) c) (fsqrt iv)))
                                      contamf ivarf0
                        | None \<Rightarrow> map (\<lambda>s. fadd (fmul s (Fin 0)) (Fin 1)) scif);
             ksum = fsum (concat (KERNEL h));
             kern = map (map (\<lambda>k. fdiv k ksum)) (KERNEL h)
         in ebind (build_model kern sh (ISFLAM h) (SENS h)) (\<lambda>fit_data.
            let E0 = \<lparr> sp_sys_err = sys_err, sp_mask_min = mask_min, sp_sh = sh, sp_wave = wave,
                       sp_is_flambda = ISFLAM h, sp_size = length scif, sp_scif = scif,
                       sp_ivarf0 = ivarf0, sp_ivarf = ivarf, sp_ivar = ivar, sp_sivarf = sivarf,
                       sp_fit_mask = fit_mask2, sp_contamf = contamf, sp_weightf = weightf,
                       sp_kernel = kern, sp_sens = SENS h, sp_fit_data = fit_data,
                       sp_flat = [], sp_DoF = 0 \<rparr>
            in ebind (compute_model X E0 None) (\<lambda>flat.
               ebind (if ISFLAM h
                      then ebind (amax ivarf0) (\<lambda>m.
                             Inr (map2 (\<lambda>f iv. fdiv (fmul f iv) m) flat ivarf0))
                      else Inr flat) (\<lambda>elec.
               ebind (amax elec) (\<lambda>elec_max.
                 let fit_mask3 = mask_amplitude fit_mask2 elec mask_min elec_max
                 in if fgt mask_threshold (Fin 0) then Inl AttributeError
                    else Inr (E0\<lparr> sp_flat := flat, sp_fit_mask := fit_mask3,
                                   sp_DoF := count_true fit_mask3 \<rparr>)))))))"


section \<open>StackFitter\<close>

text \<open>
  A template is a one-dimensional spectrum; the template set is the dictionary of the
  source, in its iteration order.
\<close>

record template =
  wave :: "flt list"
  flux :: "flt list"

record StackFitter =
  Next :: nat
  E :: "StackedSpectrum list"
  Ndata :: nat
  scif :: "flt list"
  ivarf :: "flt list"
  weightf :: "flt list"
  sivarf :: "flt list"
  fit_mask :: "bool list"
  DoF :: int
  slices :: "(nat \<times> nat) list"
  Abg :: "flt list list"

text \<open>\<open>int(x)\<close> of a float truncates towards zero and raises on \<open>inf\<close> and \<open>nan\<close>.\<close>

fun py_int :: "flt \<Rightarrow> error + int" where
  "py_int (Fin a) = Inr (if 0 \<le> a then \<lfloor>a\<rfloor> else \<lceil>a\<rceil>)"
| "py_int PInf = Inl OverflowError"
| "py_int NInf = Inl OverflowError"
| "py_int NaN = Inl ValueError"

fun emap :: "('a \<Rightarrow> error + 'b) \<Rightarrow> 'a list \<Rightarrow> error + 'b list" where
  "emap f [] = Inr []"
| "emap f (x # xs) = ebind (f x) (\<lambda>y. ebind (emap f xs) (\<lambda>ys. Inr (y # ys)))"

text \<open>\<open>_get_slices\<close>: the range of each exposure in the concatenated arrays.\<close>

fun get_slices :: "nat \<Rightarrow> nat list \<Rightarrow> (nat \<times> nat) list" where
  "get_slices x [] = []"
| "get_slices x (n # ns) = (x + 0, x + n) # get_slices (x + n) ns"

text \<open>\<open>_init_background\<close>: row \<open>i\<close> is one on the range of exposure \<open>i\<close>, zero elsewhere.\<close>

definition init_background :: "nat \<Rightarrow> (nat \<times> nat) list \<Rightarrow> flt list list" where
  "init_background ndata sl =
     map (\<lambda>(lo, hi). map (\<lambda>p. if lo \<le> p \<and> p < hi then Fin 1 else Fin 0) [0..<ndata]) sl"

text \<open>
  The constructor of the fitter, from the extensions listed in the header of the file, in
  their order. \<open>np.hstack\<close> of no array raises.
\<close>

definition StackFitter_init ::
  "externals \<Rightarrow> stack_ext list \<Rightarrow> flt \<Rightarrow> flt \<Rightarrow> flt \<Rightarrow> error + StackFitter" where
  "StackFitter_init X exts sys_err mask_min fcontam =
     ebind (emap (\<lambda>h. ebind (StackedSpectrum_init X h sys_err mask_min (Fin (- 1)) fcontam)
                    (\<lambda>E_i. ebind (compute_model X E_i None) (\<lambda>_. Inr E_i))) exts) (\<lambda>Es.
       if Es = [] then Inl ValueError
       else
         let ndata = sum_list (map sp_size Es);
             sci = concat (map sp_scif Es);
             wgt = concat (map sp_weightf Es);
             iv = map2 fmul (concat (map sp_ivarf Es)) wgt;
             msk = concat (map sp_fit_mask Es);
             sl = get_slices 0 (map sp_size Es)
         in ebind (py_int (fsum (map2 (\<lambda>m w. fmul (of_bool_flt m) w) msk wgt))) (\<lambda>dof.
              Inr \<lparr> Next = length exts, E = Es, Ndata = ndata, scif = sci, ivarf = iv,
                    weightf = wgt, sivarf = map fsqrt iv, fit_mask = msk, DoF = dof,
                    slices = sl, Abg = init_background ndata sl \<rparr>))"

text \<open>
  \<open>row[lo:hi] = v\<close> on a row, and \<open>target[mask] = v\<close>: the values must be as many as the
  places, or a single value that is broadcast; otherwise numpy raises \<open>ValueError\<close>.
\<close>

definition slice_assign :: "flt list \<Rightarrow> nat \<times> nat \<Rightarrow> flt list \<Rightarrow> error + flt list" where
  "slice_assign row sl v =
     (case sl of (lo, hi) \<Rightarrow>
        let lo' = min lo (length row); w = min hi (length row) - lo'
        in if length v = w then Inr (take lo' row @ v @ drop (lo' + w) row)
           else if length v = 1 then Inr (take lo' row @ replicate w (hd v) @ drop (lo' + w) row)
           else Inl ValueError)"

fun mask_put :: "'a list \<Rightarrow> bool list \<Rightarrow> 'a list \<Rightarrow> 'a list" where
  "mask_put (z # zs) (True # m) (v # vs) = v # mask_put zs m vs"
| "mask_put (z # zs) (False # m) vs = z # mask_put zs m vs"
| "mask_put zs m vs = zs"

definition mask_assign :: "flt list \<Rightarrow> bool list \<Rightarrow> flt list \<Rightarrow> error + flt list" where
  "mask_assign target m v =
     (if length v = count_true m then Inr (mask_put target m v)
      else if length v = 1 then Inr (map2 (\<lambda>t b. if b then hd v else t) target m)
      else Inl ValueError)"

text \<open>
  The row of the design matrix of one template at redshift \<open>z\<close>: for every exposure
  that the redshifted template overlaps, the model of that exposure on its range.
\<close>

definition template_row :: "externals \<Rightarrow> StackFitter \<Rightarrow> flt \<Rightarrow> template \<Rightarrow> error + flt list" where
  "template_row X S z ti =
     (let s0 = map (\<lambda>w. fmul w (fadd (Fin 1) z)) (wave ti);
          s1 = map (\<lambda>f. fdiv f (fadd (Fin 1) z)) (flux ti)
      in efold (\<lambda>(E_j, sl) row.
           if s0 = [] then Inl IndexError
           else ebind (amax (sp_wave E_j)) (\<lambda>wmax.
                ebind (amin (sp_wave E_j)) (\<lambda>wmin.
                  if fgt (hd s0) wmax \<or> flt_lt (last s0) wmin then Inr row
                  else ebind (compute_model X E_j (Some (s0, s1))) (\<lambda>m.
                         slice_assign row sl m))))
         (zip (E S) (slices S)) (replicate (Ndata S) (Fin 0)))"

definition design_matrix ::
  "externals \<Rightarrow> StackFitter \<Rightarrow> flt \<Rightarrow> (string \<times> template) list \<Rightarrow> error + flt list list" where
  "design_matrix X S z templates =
     ebind (emap (\<lambda>t. template_row X S z (snd t)) templates) (\<lambda>trows.
       Inr (map (\<lambda>row. map2 fadd (replicate (Ndata S) (Fin 0)) row) (Abg S) @ trows))"

text \<open>\<open>oktemp = (A*self.fit_mask).sum(axis=1) != 0\<close>\<close>

definition oktemp_of :: "flt list list \<Rightarrow> bool list \<Rightarrow> bool list" where
  "oktemp_of A msk =
     map (\<lambda>row. fne (fsum (map2 (\<lambda>a m. fmul a (of_bool_flt m)) row msk)) (Fin 0)) A"

text \<open>\<open>np.dot(AxT.T, AxT)\<close>, from the rows of the transpose of \<open>AxT\<close>.\<close>

definition gram :: "flt list list \<Rightarrow> flt list list" where
  "gram M = map (\<lambda>r1. map (\<lambda>r2. fsum (map2 fmul r1 r2)) M) M"

definition diagonal :: "'a list list \<Rightarrow> 'a list" where
  "diagonal C = map (\<lambda>(i, row). row ! i) (filter (\<lambda>(i, row). i < length row) (zip [0..<length C] C))"

text \<open>
  \<open>fit_at_z\<close> after the design matrix \<open>A\<close> is built: selection of the rows, whitening,
  the solver, the models, chi-squared, the uncertainties and the coefficients in the
  order of the templates. The result is the tuple that the source returns.
\<close>

definition fit_design ::
  "externals \<Rightarrow> StackFitter \<Rightarrow> nat \<Rightarrow> string \<Rightarrow> bool \<Rightarrow> flt list list \<Rightarrow>
   error + (flt \<times> flt list \<times> flt list \<times> flt list \<times> flt list)" where
  "fit_design X S NTEMP fitter get_uncertainties A =
     (let oktemp = oktemp_of A (fit_mask S);
          Ax = map (\<lambda>row. map2 fmul row (sivarf S)) (select oktemp A);
          pedestal = Fin (4 / 100);
          AxT = map (select (fit_mask S)) Ax;
          data = select (fit_mask S) (map2 fmul (map (\<lambda>s. fadd s pedestal) (scif S)) (sivarf S))
      in ebind (if fitter = ''nnls'' then nnls X AxT data else lstsq X AxT data) (\<lambda>coeffs.
         ebind (np_dot (take (Next S) coeffs) (take (Next S) A) (Ndata S)) (\<lambda>bg.
         let background = map (\<lambda>b. fsub b pedestal) bg
         in ebind (np_dot (drop (Next S) coeffs)
                     (map (\<lambda>row. map2 fdiv row (sivarf S)) (drop (Next S) Ax)) (Ndata S)) (\<lambda>full.
            let resid = map2 fsub (map2 fsub (scif S) full) background;
                chi2 = fsum (map2 fmul (map (\<lambda>r. fmul r r) (select (fit_mask S) resid))
                               (select (fit_mask S) (ivarf S)));
                covard = (if get_uncertainties
                          then (case matrix_inv X (gram AxT) of
                                  Inr covar \<Rightarrow> map fsqrt (diagonal covar)
                                | Inl e \<Rightarrow> replicate (count_true oktemp) (Fin 0))
                          else replicate (count_true oktemp) (Fin 0))
            in ebind (mask_assign (replicate NTEMP (Fin 0)) (drop (Next S) oktemp)
                        (drop (Next S) coeffs)) (\<lambda>full_coeffs.
               ebind (mask_assign (replicate NTEMP (Fin 0)) (drop (Next S) oktemp)
                        (drop (Next S) covard)) (\<lambda>full_coeffs_err.
                 Inr (chi2, background, full, full_coeffs, full_coeffs_err)))))))"

definition fit_at_z ::
  "externals \<Rightarrow> StackFitter \<Rightarrow> flt \<Rightarrow> (string \<times> template) list \<Rightarrow> string \<Rightarrow> bool \<Rightarrow>
   error + (flt \<times> flt list \<times> flt list \<times> flt list \<times> flt list)" where
  "fit_at_z X S z templates fitter get_uncertainties =
     ebind (design_matrix X S z templates)
       (fit_design X S (length templates) fitter get_uncertainties)"

section \<open>fit_at_z as a method on the state of the fitter\<close>






section \<open>The line measurements of fit_zgrid\<close>

text \<open>
  The last loop of \<open>fit_zgrid\<close> writes, for every template whose name starts with
  \<open>line\<close>, the flux, its uncertainty and the equivalent width into the metadata of the
  result table under the keys \<open>LINEnnnF\<close>, \<open>LINEnnnE\<close> and \<open>LINEnnnW\<close>, where \<open>nnn\<close>
  counts the line templates from 1. A key is kept here as the pair of its number and its
  last letter, the dictionary as an association list in insertion order, and an entry as
  the pair of its value and its comment. The integral of the equivalent width (lines
  415-424: the composite spectra of the template class and \<open>np.trapz\<close>, both outside
  these sources) is the parameter \<open>ew\<close>, a function of the template name and its
  coefficient.
\<close>

type_synonym line_meta = "((nat \<times> char) \<times> (flt \<times> string)) list"

definition startswith_line :: "string \<Rightarrow> bool" where
  "startswith_line te = (take 4 te = ''line'')"

fun line_loop ::
  "(string \<Rightarrow> flt \<Rightarrow> flt) \<Rightarrow> flt list \<Rightarrow> flt list \<Rightarrow> string list \<Rightarrow> nat \<Rightarrow> nat \<Rightarrow> line_meta \<Rightarrow>
   error + line_meta" where
  "line_loop ew coeffs err [] i il meta = Inr meta"
| "line_loop ew coeffs err (te # rest) i il meta =
     (if startswith_line te
      then if length coeffs \<le> i then Inl IndexError
           else let EW = (if feq (coeffs ! i) (Fin 0) then Fin 0
                          else let EW' = ew te (coeffs ! i)
                               in if \<not> isfinite EW' then Fin (- 1000) else EW')
                in if length err \<le> i then Inl IndexError
                   else line_loop ew coeffs err rest (i + 1) (il + 1)
                          (AList.update (il + 1, CHR ''W'') (EW, drop 5 te @ '' line rest EQW'')
                            (AList.update (il + 1, CHR ''E'')
                               (err ! i, drop 5 te @ '' line flux uncertainty'')
                              (AList.update (il + 1, CHR ''F'')
                                 (coeffs ! i, drop 5 te @ '' line flux'') meta)))
      else line_loop ew coeffs err rest (i + 1) il meta)"

definition line_measurements ::
  "(string \<Rightarrow> flt \<Rightarrow> flt) \<Rightarrow> string list \<Rightarrow> flt list \<Rightarrow> flt list \<Rightarrow> line_meta \<Rightarrow> error + line_meta" where
  "line_measurements ew t_i coeffs err meta = line_loop ew coeffs err t_i 0 0 meta"

section \<open>The redshift scan of fit_zgrid\<close>

text \<open>
  \<open>fit_zgrid\<close> uses two routines from outside these sources: \<open>grizli.utils.log_zgrid\<close>,
  called with a range \<open>zr\<close> and a step \<open>dz\<close>, and \<open>np.interp\<close>, called with the points,
  the abscissae and the ordinates. They are parameters of the scan.
\<close>

record grid_routines =
  log_zgrid :: "flt list \<Rightarrow> flt \<Rightarrow> error + flt list"
  np_interp :: "flt list \<Rightarrow> flt list \<Rightarrow> flt list \<Rightarrow> error + flt list"

text \<open>
  \<open>np.argmin\<close> of a one-dimensional float array: the first position of the least value,
  a \<open>nan\<close> counting as least; the empty array raises \<open>ValueError\<close>.
\<close>

fun argmin_loop :: "flt list \<Rightarrow> nat \<Rightarrow> nat \<Rightarrow> flt \<Rightarrow> nat" where
  "argmin_loop [] i min_ind mp = min_ind"
| "argmin_loop (x # xs) i min_ind mp =
     (if mp = NaN then min_ind
      else if x = NaN \<or> flt_lt x mp then argmin_loop xs (i + 1) i x
      else argmin_loop xs (i + 1) min_ind mp)"

definition argmin :: "flt list \<Rightarrow> error + nat" where
  "argmin xs = (case xs of [] \<Rightarrow> Inl ValueError | x # r \<Rightarrow> Inr (argmin_loop r 1 0 x))"

text \<open>\<open>a + b\<close> on one-dimensional arrays: equal lengths, or one of them of length 1.\<close>

definition np_add :: "flt list \<Rightarrow> flt list \<Rightarrow> error + flt list" where
  "np_add xs ys =
     (if length xs = length ys then Inr (map2 fadd xs ys)
      else if length ys = 1 then Inr (map (\<lambda>x. fadd x (hd ys)) xs)
      else if length xs = 1 then Inr (map (\<lambda>y. fadd (hd xs) y) ys)
      else Inl ValueError)"

text \<open>
  The loop \<open>for i in range(len(z)): chi2[i], bg, full, coeffs, err = self.fit_at_z(z=z[i],
  ...)\<close>: the chi-squared at every point of a grid, in order, without uncertainties.
\<close>

definition chi2_on_grid ::
  "externals \<Rightarrow> StackFitter \<Rightarrow> (string \<times> template) list \<Rightarrow> string \<Rightarrow> flt list \<Rightarrow> error + flt list" where
  "chi2_on_grid X S templates fitter zs =
     emap (\<lambda>z. ebind (fit_at_z X S z templates fitter False) (\<lambda>out. Inr (fst out))) zs"

text \<open>
  One pass of the loop \<open>for iter in range(1,7)\<close> (lines 328-350). The state is the pair
  of the current grid \<open>zi\<close> and its chi-squared \<open>ci\<close>, and the pair of the accumulated
  arrays \<open>z\<close> and \<open>chi2\<close>. The prior is \<open>None\<close> or a list of arrays.
\<close>

definition refine_round ::
  "grid_routines \<Rightarrow> externals \<Rightarrow> StackFitter \<Rightarrow> flt \<Rightarrow> string \<Rightarrow> flt list list option \<Rightarrow>
   (string \<times> template) list \<Rightarrow> int \<Rightarrow>
   (flt list \<times> flt list) \<times> (flt list \<times> flt list) \<Rightarrow>
   error + ((flt list \<times> flt list) \<times> (flt list \<times> flt list))" where
  "refine_round G X S dz0 fitter prior t_complex iter st =
     (case st of ((zi, ci), (z, chi2)) \<Rightarrow>
        ebind (case prior of
                 None \<Rightarrow> Inr ci
               | Some p \<Rightarrow>
                   if length p < 2 then Inl IndexError
                   else ebind (np_interp G zi (p ! 0) (p ! 1)) (\<lambda>pz. np_add ci pz)) (\<lambda>cp.
        ebind (argmin cp) (\<lambda>iz.
          if length zi \<le> iz then Inl IndexError
          else
            let z0 = zi ! iz;
                dz = fdiv dz0 (Fin ((202 / 100) ^ nat iter))
            in ebind (log_zgrid G [fsub z0 (fmul dz (Fin 4)), fadd z0 (fmul dz (Fin 4))] dz)
                 (\<lambda>zi'.
               ebind (chi2_on_grid X S t_complex fitter zi') (\<lambda>ci'.
                 Inr ((zi', ci'), (z @ zi', chi2 @ ci')))))))"

text \<open>
  The scan of \<open>fit_zgrid\<close> (lines 316-350): the coarse grid, fitted with the default
  solver, then the six passes; the result is the pair of the accumulated arrays \<open>z\<close> and
  \<open>chi2\<close> that the rest of the method sorts and writes.
\<close>

definition fit_zgrid_scan ::
  "grid_routines \<Rightarrow> externals \<Rightarrow> StackFitter \<Rightarrow> flt \<Rightarrow> flt list \<Rightarrow> string \<Rightarrow>
   flt list list option \<Rightarrow> (string \<times> template) list \<Rightarrow> error + (flt list \<times> flt list)" where
  "fit_zgrid_scan G X S dz0 zr fitter prior t_complex =
     ebind (log_zgrid G zr dz0) (\<lambda>z.
     ebind (chi2_on_grid X S t_complex ''nnls'' z) (\<lambda>chi2.
     ebind (efold (refine_round G X S dz0 fitter prior t_complex) (py_range 1 7)
              ((z, chi2), (z, chi2))) (\<lambda>st.
       Inr (snd st))))"

text \<open>
  Modelled from the spec: the grid routine. The specification describes the grid as
  redshift samples uniform in \<open>log(1+z)\<close> with step \<open>dz\<close> over the range \<open>[z_min, z_max]\<close>;
  the samples start at \<open>z_min\<close> and stay below \<open>z_max\<close>. Outside \<open>-1 < z_min < z_max\<close>
  and \<open>0 < dz\<close> the description says nothing, and the model raises.
\<close>

definition log_zgrid_spec :: "flt list \<Rightarrow> flt \<Rightarrow> error + flt list" where
  "log_zgrid_spec zr dz =
     (case zr of
        [Fin a, Fin b] \<Rightarrow>
          (case dz of
             Fin d \<Rightarrow>
               if - 1 < a \<and> a < b \<and> 0 < d
               then Inr (map (\<lambda>k. Fin (exp (ln (1 + a) + real k * d) - 1))
                           [0..<nat \<lceil>(ln (1 + b) - ln (1 + a)) / d\<rceil>])
               else Inl ValueError
           | _ \<Rightarrow> Inl ValueError)
      | _ \<Rightarrow> Inl ValueError)"

section \<open>Notions used to state the properties\<close>

text \<open>The set of pixels on which a mask is true.\<close>

definition true_set :: "bool list \<Rightarrow> nat set" where
  "true_set m = {i. i < length m \<and> m ! i}"

text \<open>
  The array \<open>elec\<close> that the constructor compares with \<open>mask_min * elec.max()\<close>, read
  from the attributes of the finished object.
\<close>

definition elec_of :: "StackedSpectrum \<Rightarrow> error + flt list" where
  "elec_of sp =
     (if sp_is_flambda sp
      then ebind (amax (sp_ivarf0 sp)) (\<lambda>m.
             Inr (map2 (\<lambda>f iv. fdiv (fmul f iv) m) (sp_flat sp) (sp_ivarf0 sp)))
      else Inr (sp_flat sp))"

text \<open>The real value of a finite float, and a column of a two-dimensional array.\<close>

definition rv :: "flt \<Rightarrow> real" where
  "rv x = (case x of Fin a \<Rightarrow> a | _ \<Rightarrow> 0)"

definition col :: "nat \<Rightarrow> 'a list list \<Rightarrow> 'a list" where
  "col c M = map (\<lambda>row. row ! c) M"

text \<open>The number \<open>il\<close> under which the template at position \<open>i\<close> is written.\<close>

definition line_number :: "string list \<Rightarrow> nat \<Rightarrow> nat" where
  "line_number t_i i = length (filter startswith_line (take (Suc i) t_i))"

text \<open>
  Parts of \<open>fit_at_z\<close> by name: the whitened rows \<open>Ax\<close> that are kept, the call of the
  solver on them, and the covariance matrix that is inverted for the uncertainties.
\<close>

definition Ax_of :: "StackFitter \<Rightarrow> flt list list \<Rightarrow> flt list list" where
  "Ax_of S A = map (\<lambda>row. map2 fmul row (sivarf S)) (select (oktemp_of A (fit_mask S)) A)"

definition solver_call :: "externals \<Rightarrow> StackFitter \<Rightarrow> string \<Rightarrow> flt list list \<Rightarrow> error + flt list" where
  "solver_call X S fitter A =
     (if fitter = ''nnls''
      then nnls X (map (select (fit_mask S)) (Ax_of S A))
             (select (fit_mask S)
                (map2 fmul (map (\<lambda>s. fadd s (Fin (4 / 100))) (scif S)) (sivarf S)))
      else lstsq X (map (select (fit_mask S)) (Ax_of S A))
             (select (fit_mask S)
                (map2 fmul (map (\<lambda>s. fadd s (Fin (4 / 100))) (scif S)) (sivarf S))))"

definition normal_matrix :: "StackFitter \<Rightarrow> flt list list \<Rightarrow> flt list list" where
  "normal_matrix S A = gram (map (select (fit_mask S)) (Ax_of S A))"

text \<open>
  The shape invariant of a fitter: every concatenated array has \<open>Ndata\<close> entries, and
  there is one exposure, one range and one background row per extension.
\<close>

definition wf_fitter :: "StackFitter \<Rightarrow> bool" where
  "wf_fitter S \<longleftrightarrow>
     length (E S) = Next S \<and> length (slices S) = Next S \<and> length (Abg S) = Next S \<and>
     (\<forall>row\<in>set (Abg S). length row = Ndata S) \<and>
     length (scif S) = Ndata S \<and> length (ivarf S) = Ndata S \<and>
     length (sivarf S) = Ndata S \<and> length (fit_mask S) = Ndata S"

text \<open>
  Per pixel of one extension: the inverse variance with the systematic floor,
  \<open>1/(1/ivar_raw + (sys_err*flux)^2)\<close>, and the contamination weight, which is
  \<open>exp(-fcontam*|contam|*sqrt(ivar_raw))\<close> when the file has a contamination image and
  \<open>flux*0 + 1\<close> otherwise.
\<close>

definition ext_ivar :: "flt \<Rightarrow> stack_ext \<Rightarrow> flt list" where
  "ext_ivar sys_err h =
     map2 (\<lambda>iv s. fdiv (Fin 1) (fadd (fdiv (Fin 1) iv) (fmul (fmul sys_err s) (fmul sys_err s))))
       (concat (WHT h)) (concat (SCI h))"

definition ext_weight :: "flt \<Rightarrow> stack_ext \<Rightarrow> flt list" where
  "ext_weight fcontam h =
     (case CONTAM h of
        Some c \<Rightarrow> map2 (\<lambda>c iv. fexp (fmul (fmul (fneg fcontam) c) (fsqrt iv)))
                    (map fabs (concat c)) (concat (WHT h))
      | None \<Rightarrow> map (\<lambda>s. fadd (fmul s (Fin 0)) (Fin 1)) (concat (SCI h)))"

text \<open>
  The sum over the mask-true pixels of \<open>(data - model - background)^2 * ivar\<close>, for a
  given inverse-variance array.
\<close>

definition chi2_sum :: "bool list \<Rightarrow> flt list \<Rightarrow> flt list \<Rightarrow> flt list \<Rightarrow> flt list \<Rightarrow> flt" where
  "chi2_sum msk sci full background ivar =
     fsum (map (\<lambda>(r, iv). fmul (fmul r r) iv)
             (select msk (zip (map2 fsub (map2 fsub sci full) background) ivar)))"

text \<open>
  The linear combination of the rows of a basis with the coefficients \<open>cs\<close>, at pixel
  \<open>p\<close>, summed in the order of the rows as \<open>np.dot\<close> does.
\<close>

definition lincomb :: "flt list \<Rightarrow> flt list list \<Rightarrow> nat \<Rightarrow> flt" where
  "lincomb cs rows p = fsum (map2 (\<lambda>c row. fmul c (row ! p)) cs rows)"

text \<open>
  The vector \<open>covard\<close> of \<open>fit_at_z\<close>: the square roots of the diagonal of the inverse
  of the normal matrix when the uncertainties are asked for and the inverse is found,
  zeros otherwise, one entry per retained row.
\<close>

definition covard_of :: "externals \<Rightarrow> StackFitter \<Rightarrow> bool \<Rightarrow> flt list list \<Rightarrow> flt list" where
  "covard_of X S gu A =
     (if gu then (case matrix_inv X (normal_matrix S A) of
                    Inr covar \<Rightarrow> map fsqrt (diagonal covar)
                  | Inl e \<Rightarrow> replicate (count_true (oktemp_of A (fit_mask S))) (Fin 0))
      else replicate (count_true (oktemp_of A (fit_mask S))) (Fin 0))"

text \<open>
  The solver that \<open>fit_at_z\<close> calls for a given name, and the two arguments of the call
  written from the design matrix: the whitened rows, restricted to the mask-true pixels,
  of those rows whose sum over the mask-true pixels is not zero, and the whitened data with
  the pedestal on the same pixels.
\<close>

definition the_solver ::
  "externals \<Rightarrow> string \<Rightarrow> flt list list \<Rightarrow> flt list \<Rightarrow> error + flt list" where
  "the_solver X fitter = (if fitter = ''nnls'' then nnls X else lstsq X)"

definition mask_total :: "bool list \<Rightarrow> flt list \<Rightarrow> real" where
  "mask_total msk row = sum_list (map rv (select msk row))"

definition solve_rows :: "StackFitter \<Rightarrow> flt list list \<Rightarrow> flt list list" where
  "solve_rows S A =
     map (\<lambda>i. select (fit_mask S) (map2 fmul (A ! i) (sivarf S)))
       (filter (\<lambda>i. mask_total (fit_mask S) (A ! i) \<noteq> 0) [0..<length A])"

definition solve_data :: "StackFitter \<Rightarrow> flt list" where
  "solve_data S =
     select (fit_mask S) (map2 fmul (map (\<lambda>s. fadd s (Fin (4 / 100))) (scif S)) (sivarf S))"




text \<open>
  The scan in the words of its description. \<open>zoom_round\<close> is round \<open>i\<close>: from the
  previous grid and its chi-squared, the grid point at the minimum of chi-squared plus
  the interpolated prior (when there is one), the grid over
  \<open>[z0 - 4*dz, z0 + 4*dz]\<close> with step \<open>dz = dz0 / 2.02^i\<close>, and the chi-squared on it.
  \<open>zoom_rounds n i\<close> is the list of the results of the rounds \<open>i, ..., i + n - 1\<close>, and
  \<open>zoom_scan\<close> is the coarse grid followed by the rounds 1 to 6, all results appended in
  order.
\<close>

definition with_prior ::
  "grid_routines \<Rightarrow> flt list list option \<Rightarrow> flt list \<times> flt list \<Rightarrow> error + flt list" where
  "with_prior G prior prev =
     (case prior of
        None \<Rightarrow> Inr (snd prev)
      | Some p \<Rightarrow>
          if length p < 2 then Inl IndexError
          else ebind (np_interp G (fst prev) (p ! 0) (p ! 1)) (np_add (snd prev)))"

definition zoom_centre ::
  "grid_routines \<Rightarrow> flt list list option \<Rightarrow> flt list \<times> flt list \<Rightarrow> error + flt" where
  "zoom_centre G prior prev =
     ebind (with_prior G prior prev) (\<lambda>cp.
     ebind (argmin cp) (\<lambda>iz.
       if iz < length (fst prev) then Inr (fst prev ! iz) else Inl IndexError))"

definition zoom_step :: "flt \<Rightarrow> nat \<Rightarrow> flt" where
  "zoom_step dz0 i = fdiv dz0 (Fin ((202 / 100) ^ i))"

definition zoom_round ::
  "grid_routines \<Rightarrow> externals \<Rightarrow> StackFitter \<Rightarrow> flt \<Rightarrow> string \<Rightarrow> flt list list option \<Rightarrow>
   (string \<times> template) list \<Rightarrow> nat \<Rightarrow> flt list \<times> flt list \<Rightarrow> error + (flt list \<times> flt list)" where
  "zoom_round G X S dz0 fitter prior ts i prev =
     ebind (zoom_centre G prior prev) (\<lambda>z0.
     ebind (log_zgrid G [fsub z0 (fmul (zoom_step dz0 i) (Fin 4)),
                         fadd z0 (fmul (zoom_step dz0 i) (Fin 4))] (zoom_step dz0 i)) (\<lambda>g.
     ebind (chi2_on_grid X S ts fitter g) (\<lambda>c. Inr (g, c))))"

fun zoom_rounds ::
  "grid_routines \<Rightarrow> externals \<Rightarrow> StackFitter \<Rightarrow> flt \<Rightarrow> string \<Rightarrow> flt list list option \<Rightarrow>
   (string \<times> template) list \<Rightarrow> nat \<Rightarrow> nat \<Rightarrow> flt list \<times> flt list \<Rightarrow>
   error + (flt list \<times> flt list) list" where
  "zoom_rounds G X S dz0 fitter prior ts 0 i prev = Inr []"
| "zoom_rounds G X S dz0 fitter prior ts (Suc n) i prev =
     ebind (zoom_round G X S dz0 fitter prior ts i prev) (\<lambda>cur.
     ebind (zoom_rounds G X S dz0 fitter prior ts n (Suc i) cur) (\<lambda>rest. Inr (cur # rest)))"

definition zoom_scan ::
  "grid_routines \<Rightarrow> externals \<Rightarrow> StackFitter \<Rightarrow> flt \<Rightarrow> flt list \<Rightarrow> string \<Rightarrow>
   flt list list option \<Rightarrow> (string \<times> template) list \<Rightarrow> error + (flt list \<times> flt list)" where
  "zoom_scan G X S dz0 zr fitter prior ts =
     ebind (log_zgrid G zr dz0) (\<lambda>g0.
     ebind (chi2_on_grid X S ts ''nnls'' g0) (\<lambda>c0.
     ebind (zoom_rounds G X S dz0 fitter prior ts 6 1 (g0, c0)) (\<lambda>rs.
       Inr (concat (map fst ((g0, c0) # rs)), concat (map snd ((g0, c0) # rs))))))"

text \<open>
  What the scan needs of its routines to run through: the grid routine returns a grid
  that is not empty, of finite values not below the start of the range, whenever the
  range is increasing and above -1 and the step is positive; the interpolation returns
  one value per point; and \<open>fit_at_z\<close> returns at every finite redshift, with the default
  solver and with the chosen one.
\<close>

definition grid_routine_ok :: "grid_routines \<Rightarrow> bool" where
  "grid_routine_ok G \<longleftrightarrow>
     (\<forall>a b d. - 1 < a \<and> a < b \<and> 0 < d \<longrightarrow>
        (\<exists>g. log_zgrid G [Fin a, Fin b] (Fin d) = Inr g \<and> g \<noteq> [] \<and>
             (\<forall>x\<in>set g. \<exists>v. x = Fin v \<and> a \<le> v)))"

definition prior_ok :: "grid_routines \<Rightarrow> flt list list option \<Rightarrow> bool" where
  "prior_ok G prior \<longleftrightarrow>
     (case prior of
        None \<Rightarrow> True
      | Some p \<Rightarrow> 2 \<le> length p \<and>
          (\<forall>zi. \<exists>pz. np_interp G zi (p ! 0) (p ! 1) = Inr pz \<and> length pz = length zi))"

definition fits_everywhere ::
  "externals \<Rightarrow> StackFitter \<Rightarrow> (string \<times> template) list \<Rightarrow> string \<Rightarrow> bool" where
  "fits_everywhere X S ts fitter \<longleftrightarrow>
     (\<forall>v. \<exists>out. fit_at_z X S (Fin v) ts fitter False = Inr out)"

section \<open>Concrete inputs\<close>

text \<open>
  External routines for the examples: a template sampled on the wavelengths of the
  exposure is resampled to itself, the non-negative solver returns the vector \<open>cs\<close> (in
  each example the least-squares solution of its system), and the inverse reports a
  singular matrix.
\<close>

definition X_ex :: "flt list \<Rightarrow> externals" where
  "X_ex cs = \<lparr> interp_conserve_c = (\<lambda>w sw sf. sf),
               nnls = (\<lambda>M d. Inr cs),
               lstsq = (\<lambda>M d. Inl SolverError),
               matrix_inv = (\<lambda>M. Inl LinAlgError) \<rparr>"

text \<open>
  An exposure of 2 rows and 4 columns that is not flux-calibrated, with unit sensitivity,
  a kernel that puts 19/20 of the flux in its first column, one pixel of zero weight and
  one of infinite weight.
\<close>

definition ext_a :: stack_ext where
  "ext_a = \<lparr> NAXIS1 = 4, NAXIS2 = 2, CRPIX1 = Fin 1, CD1_1 = Fin 1, CRVAL1 = Fin 1,
     ISFLAM = False,
     SCI = [[Fin 0, Fin 0, Fin 0, Fin 0], [Fin 0, Fin 0, Fin 0, Fin 0]],
     WHT = [[Fin 1, Fin 1, Fin 0, Fin 1], [PInf, Fin 1, Fin 1, Fin 1]],
     CONTAM = None,
     KERNEL = [[Fin 19, Fin 1], [Fin 19, Fin 1]],
     SENS = [Fin 1, Fin 1, Fin 1, Fin 1] \<rparr>"

definition sp_a :: StackedSpectrum where
  "sp_a = \<lparr> sp_sys_err = Fin (2 / 100), sp_mask_min = Fin (1 / 10), sp_sh = (2, 4),
     sp_wave = [Fin 1, Fin 2, Fin 3, Fin 4], sp_is_flambda = False, sp_size = 8,
     sp_scif = [Fin 0, Fin 0, Fin 0, Fin 0, Fin 0, Fin 0, Fin 0, Fin 0],
     sp_ivarf0 = [Fin 1, Fin 1, Fin 0, Fin 1, PInf, Fin 1, Fin 1, Fin 1],
     sp_ivarf = [Fin 1, Fin 1, Fin 0, Fin 1, PInf, Fin 1, Fin 1, Fin 1],
     sp_ivar = [[Fin 1, Fin 1, Fin 0, Fin 1], [PInf, Fin 1, Fin 1, Fin 1]],
     sp_sivarf = [Fin 1, Fin 1, Fin 0, Fin 1, PInf, Fin 1, Fin 1, Fin 1],
     sp_fit_mask = [True, True, False, False, False, True, True, False],
     sp_contamf = [Fin 0, Fin 0, Fin 0, Fin 0, Fin 0, Fin 0, Fin 0, Fin 0],
     sp_weightf = [Fin 1, Fin 1, Fin 1, Fin 1, Fin 1, Fin 1, Fin 1, Fin 1],
     sp_kernel = [[Fin (19 / 40), Fin (1 / 40)], [Fin (19 / 40), Fin (1 / 40)]],
     sp_sens = [Fin 1, Fin 1, Fin 1, Fin 1],
     sp_fit_data =
       [[Fin (1 / 40), Fin 0, Fin 0, Fin 0, Fin (1 / 40), Fin 0, Fin 0, Fin 0],
        [Fin (19 / 40), Fin (1 / 40), Fin 0, Fin 0, Fin (19 / 40), Fin (1 / 40), Fin 0, Fin 0],
        [Fin 0, Fin (19 / 40), Fin (1 / 40), Fin 0, Fin 0, Fin (19 / 40), Fin (1 / 40), Fin 0],
        [Fin 0, Fin 0, Fin (19 / 40), Fin (1 / 40), Fin 0, Fin 0, Fin (19 / 40), Fin (1 / 40)]],
     sp_flat = [Fin (1 / 2), Fin (1 / 2), Fin (1 / 2), Fin (1 / 40),
                Fin (1 / 2), Fin (1 / 2), Fin (1 / 2), Fin (1 / 40)],
     sp_DoF = 4 \<rparr>"

text \<open>
  A flux-calibrated exposure of 2 rows and 4 columns with a uniform kernel, unit weights
  and zero science flux, and the object the constructor builds from it.
\<close>

definition ext_u :: stack_ext where
  "ext_u = \<lparr> NAXIS1 = 4, NAXIS2 = 2, CRPIX1 = Fin 1, CD1_1 = Fin 1, CRVAL1 = Fin 1,
     ISFLAM = True,
     SCI = [[Fin 0, Fin 0, Fin 0, Fin 0], [Fin 0, Fin 0, Fin 0, Fin 0]],
     WHT = [[Fin 1, Fin 1, Fin 1, Fin 1], [Fin 1, Fin 1, Fin 1, Fin 1]],
     CONTAM = None,
     KERNEL = [[Fin 1, Fin 1], [Fin 1, Fin 1]],
     SENS = [] \<rparr>"

definition fit_data_u :: "flt list list" where
  "fit_data_u =
     [[Fin (1 / 4), Fin 0, Fin 0, Fin 0, Fin (1 / 4), Fin 0, Fin 0, Fin 0],
      [Fin (1 / 4), Fin (1 / 4), Fin 0, Fin 0, Fin (1 / 4), Fin (1 / 4), Fin 0, Fin 0],
      [Fin 0, Fin (1 / 4), Fin (1 / 4), Fin 0, Fin 0, Fin (1 / 4), Fin (1 / 4), Fin 0],
      [Fin 0, Fin 0, Fin (1 / 4), Fin (1 / 4), Fin 0, Fin 0, Fin (1 / 4), Fin (1 / 4)]]"

definition sp_u :: StackedSpectrum where
  "sp_u = \<lparr> sp_sys_err = Fin (2 / 100), sp_mask_min = Fin (1 / 10), sp_sh = (2, 4),
     sp_wave = [Fin 1, Fin 2, Fin 3, Fin 4], sp_is_flambda = True, sp_size = 8,
     sp_scif = [Fin 0, Fin 0, Fin 0, Fin 0, Fin 0, Fin 0, Fin 0, Fin 0],
     sp_ivarf0 = [Fin 1, Fin 1, Fin 1, Fin 1, Fin 1, Fin 1, Fin 1, Fin 1],
     sp_ivarf = [Fin 1, Fin 1, Fin 1, Fin 1, Fin 1, Fin 1, Fin 1, Fin 1],
     sp_ivar = [[Fin 1, Fin 1, Fin 1, Fin 1], [Fin 1, Fin 1, Fin 1, Fin 1]],
     sp_sivarf = [Fin 1, Fin 1, Fin 1, Fin 1, Fin 1, Fin 1, Fin 1, Fin 1],
     sp_fit_mask = [True, True, True, True, True, True, True, True],
     sp_contamf = [Fin 0, Fin 0, Fin 0, Fin 0, Fin 0, Fin 0, Fin 0, Fin 0],
     sp_weightf = [Fin 1, Fin 1, Fin 1, Fin 1, Fin 1, Fin 1, Fin 1, Fin 1],
     sp_kernel = [[Fin (1 / 4), Fin (1 / 4)], [Fin (1 / 4), Fin (1 / 4)]],
     sp_sens = [],
     sp_fit_data = fit_data_u,
     sp_flat = [Fin (1 / 2), Fin (1 / 2), Fin (1 / 2), Fin (1 / 4),
                Fin (1 / 2), Fin (1 / 2), Fin (1 / 2), Fin (1 / 4)],
     sp_DoF = 8 \<rparr>"

text \<open>
  Two templates on the wavelengths of the example exposures: a flat one, and one whose
  flux changes sign.
\<close>

definition tmpl_flat :: template where
  "tmpl_flat = \<lparr> wave = [Fin 1, Fin 2, Fin 3, Fin 4], flux = [Fin 1, Fin 1, Fin 1, Fin 1] \<rparr>"

definition tmpl_pm :: template where
  "tmpl_pm = \<lparr> wave = [Fin 1, Fin 2, Fin 3, Fin 4], flux = [Fin 2, Fin (- 1), Fin 0, Fin 0] \<rparr>"

text \<open>The fitter of the uniform exposure alone.\<close>

definition fitter_u :: StackFitter where
  "fitter_u = \<lparr> Next = 1, E = [sp_u], Ndata = 8,
     scif = [Fin 0, Fin 0, Fin 0, Fin 0, Fin 0, Fin 0, Fin 0, Fin 0],
     ivarf = [Fin 1, Fin 1, Fin 1, Fin 1, Fin 1, Fin 1, Fin 1, Fin 1],
     weightf = [Fin 1, Fin 1, Fin 1, Fin 1, Fin 1, Fin 1, Fin 1, Fin 1],
     sivarf = [Fin 1, Fin 1, Fin 1, Fin 1, Fin 1, Fin 1, Fin 1, Fin 1],
     fit_mask = [True, True, True, True, True, True, True, True],
     DoF = 8, slices = [(0, 8)],
     Abg = [[Fin 1, Fin 1, Fin 1, Fin 1, Fin 1, Fin 1, Fin 1, Fin 1]] \<rparr>"

text \<open>
  The uniform exposure with a contamination image of ones and a science image of 1 in the
  two left columns and -1 in the two right ones, its object and its fitter. The weight of
  every pixel is \<open>exp (-1)\<close>, its inverse variance 2500/2501.
\<close>

definition ext_c :: stack_ext where
  "ext_c = \<lparr> NAXIS1 = 4, NAXIS2 = 2, CRPIX1 = Fin 1, CD1_1 = Fin 1, CRVAL1 = Fin 1,
     ISFLAM = True,
     SCI = [[Fin 1, Fin 1, Fin (- 1), Fin (- 1)], [Fin 1, Fin 1, Fin (- 1), Fin (- 1)]],
     WHT = [[Fin 1, Fin 1, Fin 1, Fin 1], [Fin 1, Fin 1, Fin 1, Fin 1]],
     CONTAM = Some [[Fin 1, Fin 1, Fin 1, Fin 1], [Fin 1, Fin 1, Fin 1, Fin 1]],
     KERNEL = [[Fin 1, Fin 1], [Fin 1, Fin 1]],
     SENS = [] \<rparr>"

definition sp_c :: StackedSpectrum where
  "sp_c = sp_u \<lparr>
     sp_scif := [Fin 1, Fin 1, Fin (- 1), Fin (- 1), Fin 1, Fin 1, Fin (- 1), Fin (- 1)],
     sp_ivarf := replicate 8 (Fin (2500 / 2501)),
     sp_ivar := replicate 2 (replicate 4 (Fin (2500 / 2501))),
     sp_sivarf := replicate 8 (Fin (sqrt (2500 / 2501))),
     sp_contamf := replicate 8 (Fin 1),
     sp_weightf := replicate 8 (Fin (exp (- 1))) \<rparr>"

definition fitter_c :: StackFitter where
  "fitter_c = \<lparr> Next = 1, E = [sp_c], Ndata = 8,
     scif = [Fin 1, Fin 1, Fin (- 1), Fin (- 1), Fin 1, Fin 1, Fin (- 1), Fin (- 1)],
     ivarf = replicate 8 (Fin (2500 / 2501 * exp (- 1))),
     weightf = replicate 8 (Fin (exp (- 1))),
     sivarf = replicate 8 (Fin (sqrt (2500 / 2501 * exp (- 1)))),
     fit_mask = [True, True, True, True, True, True, True, True],
     DoF = 2, slices = [(0, 8)],
     Abg = [[Fin 1, Fin 1, Fin 1, Fin 1, Fin 1, Fin 1, Fin 1, Fin 1]] \<rparr>"

text \<open>
  An exposure with the weight 4 at every pixel but one of zero weight (row 0, column 2),
  a science image equal to twice the row of the flat template plus the row of the red
  template, its object and its fitter, with no systematic error: the square root of the
  inverse variance is 2, and 0 at the pixel of zero weight, which is outside the fit mask.
\<close>

definition ext_w :: stack_ext where
  "ext_w = ext_u \<lparr>
     SCI := [[Fin 1, Fin 1, Fin 2, Fin (3 / 2)], [Fin 1, Fin 1, Fin 2, Fin (3 / 2)]],
     WHT := [[Fin 4, Fin 4, Fin 0, Fin 4], [Fin 4, Fin 4, Fin 4, Fin 4]] \<rparr>"

definition sp_w :: StackedSpectrum where
  "sp_w = sp_u \<lparr> sp_sys_err := Fin 0,
     sp_scif := [Fin 1, Fin 1, Fin 2, Fin (3 / 2), Fin 1, Fin 1, Fin 2, Fin (3 / 2)],
     sp_ivarf0 := [Fin 4, Fin 4, Fin 0, Fin 4, Fin 4, Fin 4, Fin 4, Fin 4],
     sp_ivarf := [Fin 4, Fin 4, Fin 0, Fin 4, Fin 4, Fin 4, Fin 4, Fin 4],
     sp_ivar := [[Fin 4, Fin 4, Fin 0, Fin 4], [Fin 4, Fin 4, Fin 4, Fin 4]],
     sp_sivarf := [Fin 2, Fin 2, Fin 0, Fin 2, Fin 2, Fin 2, Fin 2, Fin 2],
     sp_fit_mask := [True, True, False, True, True, True, True, True],
     sp_DoF := 7 \<rparr>"

definition fitter_w :: StackFitter where
  "fitter_w = \<lparr> Next = 1, E = [sp_w], Ndata = 8,
     scif = [Fin 1, Fin 1, Fin 2, Fin (3 / 2), Fin 1, Fin 1, Fin 2, Fin (3 / 2)],
     ivarf = [Fin 4, Fin 4, Fin 0, Fin 4, Fin 4, Fin 4, Fin 4, Fin 4],
     weightf = [Fin 1, Fin 1, Fin 1, Fin 1, Fin 1, Fin 1, Fin 1, Fin 1],
     sivarf = [Fin 2, Fin 2, Fin 0, Fin 2, Fin 2, Fin 2, Fin 2, Fin 2],
     fit_mask = [True, True, False, True, True, True, True, True],
     DoF = 7, slices = [(0, 8)],
     Abg = [[Fin 1, Fin 1, Fin 1, Fin 1, Fin 1, Fin 1, Fin 1, Fin 1]] \<rparr>"

text \<open>
  The uniform exposure with a science image equal to twice the row of the flat template
  plus the row of the red template (flux 4 in the last wavelength bin), an exposure whose
  weights are all zero, so that none of its pixels is in the fit mask, the objects the
  constructor builds from them with no systematic error, and the fitters of the first
  exposure alone and of the two together.
\<close>

definition ext_u2 :: stack_ext where
  "ext_u2 = ext_u \<lparr> SCI := [[Fin 1, Fin 1, Fin 2, Fin (3 / 2)], [Fin 1, Fin 1, Fin 2, Fin (3 / 2)]] \<rparr>"

definition ext_m :: stack_ext where
  "ext_m = ext_u \<lparr> WHT := [[Fin 0, Fin 0, Fin 0, Fin 0], [Fin 0, Fin 0, Fin 0, Fin 0]] \<rparr>"

definition sp_u2 :: StackedSpectrum where
  "sp_u2 = sp_u \<lparr> sp_sys_err := Fin 0,
     sp_scif := [Fin 1, Fin 1, Fin 2, Fin (3 / 2), Fin 1, Fin 1, Fin 2, Fin (3 / 2)] \<rparr>"

definition sp_m :: StackedSpectrum where
  "sp_m = sp_u \<lparr> sp_sys_err := Fin 0,
     sp_ivarf0 := replicate 8 (Fin 0),
     sp_ivarf := replicate 8 (Fin 0),
     sp_ivar := replicate 2 (replicate 4 (Fin 0)),
     sp_sivarf := replicate 8 (Fin 0),
     sp_fit_mask := replicate 8 False,
     sp_DoF := 0 \<rparr>"

definition tmpl_red :: template where
  "tmpl_red = \<lparr> wave = [Fin 1, Fin 2, Fin 3, Fin 4], flux = [Fin 0, Fin 0, Fin 0, Fin 4] \<rparr>"

definition fitter_u2 :: StackFitter where
  "fitter_u2 = fitter_u \<lparr> E := [sp_u2],
     scif := [Fin 1, Fin 1, Fin 2, Fin (3 / 2), Fin 1, Fin 1, Fin 2, Fin (3 / 2)] \<rparr>"

definition fitter_um :: StackFitter where
  "fitter_um = \<lparr> Next = 2, E = [sp_u2, sp_m], Ndata = 16,
     scif = [Fin 1, Fin 1, Fin 2, Fin (3 / 2), Fin 1, Fin 1, Fin 2, Fin (3 / 2)] @ replicate 8 (Fin 0),
     ivarf = replicate 8 (Fin 1) @ replicate 8 (Fin 0),
     weightf = replicate 16 (Fin 1),
     sivarf = replicate 8 (Fin 1) @ replicate 8 (Fin 0),
     fit_mask = replicate 8 True @ replicate 8 False,
     DoF = 8, slices = [(0, 8), (8, 16)],
     Abg = [replicate 8 (Fin 1) @ replicate 8 (Fin 0), replicate 8 (Fin 0) @ replicate 8 (Fin 1)] \<rparr>"

text \<open>
  The uniform exposure with a science image that differs from twice the row of the flat
  template plus the row of the red template by 1/2 at four pixels, its object and its
  fitter, with no systematic error; and a flat template of flux 3.
\<close>

definition ext_r :: stack_ext where
  "ext_r = ext_u \<lparr>
     SCI := [[Fin (3 / 2), Fin (1 / 2), Fin 2, Fin (3 / 2)],
             [Fin (1 / 2), Fin (3 / 2), Fin 2, Fin (3 / 2)]] \<rparr>"

definition sp_r :: StackedSpectrum where
  "sp_r = sp_u \<lparr> sp_sys_err := Fin 0,
     sp_scif := [Fin (3 / 2), Fin (1 / 2), Fin 2, Fin (3 / 2),
                 Fin (1 / 2), Fin (3 / 2), Fin 2, Fin (3 / 2)] \<rparr>"

definition fitter_r :: StackFitter where
  "fitter_r = fitter_u \<lparr> E := [sp_r],
     scif := [Fin (3 / 2), Fin (1 / 2), Fin 2, Fin (3 / 2),
              Fin (1 / 2), Fin (3 / 2), Fin 2, Fin (3 / 2)] \<rparr>"



text \<open>
  Two inverses for the examples. The first is the exact inverse of a square matrix of
  finite entries, by cofactors: it raises when the determinant is zero, as
  \<open>numpy.linalg.inv\<close> does when its factorisation meets a pivot that is exactly zero, and
  gives NaN when an entry is not finite. The second returns a given matrix whatever its
  argument, as the routine does on a singular matrix whose pivots are not exactly zero
  after rounding.
\<close>

definition without :: "nat \<Rightarrow> 'a list \<Rightarrow> 'a list" where
  "without j xs = take j xs @ drop (Suc j) xs"

function det :: "real list list \<Rightarrow> real" where
  "det [] = 1"
| "det (row # rows) =
     sum_list (map (\<lambda>j. (- 1) ^ j * row ! j * det (map (without j) rows)) [0..<length row])"
  by pat_completeness auto
termination
  by (relation "measure length") simp_all

definition inv_exact :: "flt list list \<Rightarrow> error + flt list list" where
  "inv_exact M =
     (let n = length M; R = map (map rv) M
      in if \<not> list_all (\<lambda>row. length row = n) M then Inl LinAlgError
         else if \<not> list_all (list_all isfinite) M then Inr (replicate n (replicate n NaN))
         else if n \<noteq> 0 \<and> det R = 0 then Inl LinAlgError
         else Inr (map (\<lambda>i. map (\<lambda>j. Fin ((- 1) ^ (i + j) *
                                   det (map (without i) (without j R)) / det R))
                              [0..<n]) [0..<n]))"

definition X_inv :: "flt list \<Rightarrow> externals" where
  "X_inv cs = (X_ex cs) \<lparr> matrix_inv := inv_exact \<rparr>"


text \<open>
  The routines of the scan for the examples: the grid of the description, and an
  interpolation that is not called (the examples have no prior).
\<close>

definition G_spec :: grid_routines where
  "G_spec = \<lparr> log_zgrid = log_zgrid_spec, np_interp = (\<lambda>x xp fp. Inl ValueError) \<rparr>"

section \<open>Auxiliary facts\<close>

lemma ebind_Inr [simp]: "ebind (Inr x) f = f x"
  by (simp add: ebind_def)

lemma ebind_Inl [simp]: "ebind (Inl e) f = Inl e"
  by (simp add: ebind_def)

lemma ebind_eq_Inr: "ebind m f = Inr y \<longleftrightarrow> (\<exists>x. m = Inr x \<and> f x = Inr y)"
  by (cases m) simp_all

lemma replicate_numeral: "replicate (numeral k) x = x # replicate (pred_numeral k) x"
  by (simp add: numeral_eq_Suc)

lemma true_set_conj: "true_set (map2 (\<and>) m c) \<subseteq> true_set m"
  by (auto simp: true_set_def)

lemma count_true_conj: "count_true (map2 (\<and>) m c) \<le> count_true m"
proof (induction m arbitrary: c)
  case Nil
  then show ?case by (simp add: count_true_def)
next
  case (Cons b m)
  show ?case
  proof (cases c)
    case Nil
    then show ?thesis by (simp add: count_true_def)
  next
    case (Cons d c')
    with Cons.IH [of c'] show ?thesis by (simp add: count_true_def)
  qed
qed

lemma init_fit_mask:
  assumes "StackedSpectrum_init X h sys_err mask_min mask_threshold fcontam = Inr sp"
  shows "\<exists>elec elec_max. elec_of sp = Inr elec \<and> amax elec = Inr elec_max \<and>
           sp_fit_mask sp =
             mask_amplitude (mask_finite (mask_positive (sp_ivarf sp)) (sp_scif sp) (sp_ivarf sp))
               elec mask_min elec_max"
  using assms
  unfolding StackedSpectrum_init_def Let_def elec_of_def
  by (auto simp: ebind_eq_Inr split: if_splits)

subsection \<open>Sums of finite and of non-finite floats, columns of arrays\<close>

lemma isfinite_iff: "isfinite x \<longleftrightarrow> (\<exists>a. x = Fin a)"
  by (cases x) simp_all

lemma foldl_fadd_fin:
  "list_all isfinite xs \<Longrightarrow> foldl fadd (Fin a) xs = Fin (a + sum_list (map rv xs))"
proof (induction xs arbitrary: a)
  case Nil
  then show ?case by simp
next
  case (Cons x xs)
  then obtain b where "x = Fin b" by (auto simp: isfinite_iff)
  with Cons show ?case by (simp add: rv_def add.assoc)
qed

lemma fsum_fin: "list_all isfinite xs \<Longrightarrow> fsum xs = Fin (sum_list (map rv xs))"
  by (simp add: fsum_def foldl_fadd_fin)





lemma foldl_map2_fadd_nth:
  "c < length acc \<Longrightarrow> \<forall>row\<in>set rows. c < length row \<Longrightarrow>
   c < length (foldl (\<lambda>acc row. map2 fadd acc row) acc rows) \<and>
   foldl (\<lambda>acc row. map2 fadd acc row) acc rows ! c = foldl fadd (acc ! c) (map (\<lambda>row. row ! c) rows)"
proof (induction rows arbitrary: acc)
  case Nil
  then show ?case by simp
next
  case (Cons r rows)
  have "c < length (map2 fadd acc r)" using Cons.prems by simp
  moreover have "\<forall>row\<in>set rows. c < length row" using Cons.prems by simp
  ultimately have "c < length (foldl (\<lambda>acc row. map2 fadd acc row) (map2 fadd acc r) rows) \<and>
     foldl (\<lambda>acc row. map2 fadd acc row) (map2 fadd acc r) rows ! c =
     foldl fadd (map2 fadd acc r ! c) (map (\<lambda>row. row ! c) rows)"
    by (rule Cons.IH)
  then show ?case using Cons.prems by simp
qed


lemma sum_axis0_length:
  "\<forall>row\<in>set rows. length row = nx \<Longrightarrow> length (sum_axis0 nx rows) = nx"
  unfolding sum_axis0_def
proof (induction rows rule: rev_induct)
  case Nil
  then show ?case by simp
next
  case (snoc r rows)
  then show ?case by simp
qed














lemma nth_clip:
  "c < length clip \<Longrightarrow> c < length xs \<Longrightarrow>
   map2 (\<lambda>b x. if b then Fin 0 else x) clip xs ! c = (if clip ! c then Fin 0 else xs ! c)"
  by simp

lemma col_finite:
  "\<forall>r\<in>set M. c < length r \<and> list_all isfinite r \<Longrightarrow> list_all isfinite (col c M)"
  by (induction M) (auto simp: col_def list_all_iff)

subsection \<open>The loop of the line measurements\<close>

lemma line_loop_keeps:
  "line_loop ew coeffs err rest i il meta = Inr m \<Longrightarrow> k \<le> il \<Longrightarrow>
   map_of m (k, c) = map_of meta (k, c)"
proof (induction rest arbitrary: i il meta)
  case Nil
  then show ?case by simp
next
  case (Cons te rest)
  show ?case
  proof (cases "startswith_line te")
    case False
    with Cons.prems have "line_loop ew coeffs err rest (i + 1) il meta = Inr m" by simp
    from Cons.IH [OF this Cons.prems(2)] show ?thesis .
  next
    case True
    with Cons.prems(1) obtain meta' where
      r: "line_loop ew coeffs err rest (i + 1) (il + 1) meta' = Inr m" and
      m': "map_of meta' (k, c) = map_of meta (k, c)"
      using Cons.prems(2)
      by (auto simp: Let_def update_conv' split: if_splits)
    from Cons.IH [OF r] Cons.prems(2) m' show ?thesis by simp
  qed
qed

lemma line_loop_zero:
  "line_loop ew coeffs err rest i il meta = Inr m \<Longrightarrow> j < length rest \<Longrightarrow>
   startswith_line (rest ! j) \<Longrightarrow> feq (coeffs ! (i + j)) (Fin 0) \<Longrightarrow>
   map_of m (il + line_number rest j, CHR ''W'') =
     Some (Fin 0, drop 5 (rest ! j) @ '' line rest EQW'')"
proof (induction rest arbitrary: i il meta j)
  case Nil
  then show ?case by simp
next
  case (Cons te rest)
  show ?case
  proof (cases j)
    case 0
    with Cons.prems have l: "startswith_line te" and z: "feq (coeffs ! i) (Fin 0)" by simp_all
    from Cons.prems(1) l z obtain meta' where
      r: "line_loop ew coeffs err rest (i + 1) (il + 1) meta' = Inr m" and
      m': "map_of meta' (il + 1, CHR ''W'') = Some (Fin 0, drop 5 te @ '' line rest EQW'')"
      by (auto simp: Let_def update_conv' split: if_splits)
    from line_loop_keeps [OF r, of "il + 1" "CHR ''W''"] m' 0 l show ?thesis
      by (simp add: line_number_def)
  next
    case (Suc j')
    with Cons.prems have j': "j' < length rest" "startswith_line (rest ! j')"
      "feq (coeffs ! ((i + 1) + j')) (Fin 0)" by simp_all
    show ?thesis
    proof (cases "startswith_line te")
      case False
      with Cons.prems(1) have "line_loop ew coeffs err rest (i + 1) il meta = Inr m" by simp
      from Cons.IH [OF this j'] False Suc show ?thesis by (simp add: line_number_def)
    next
      case True
      with Cons.prems(1) obtain meta' where
        r: "line_loop ew coeffs err rest (i + 1) (il + 1) meta' = Inr m"
        by (auto simp: Let_def split: if_splits)
      from Cons.IH [OF r j'] True Suc show ?thesis by (simp add: line_number_def)
    qed
  qed
qed

subsection \<open>The masked sum of a row\<close>

lemma select_finite: "list_all isfinite row \<Longrightarrow> list_all isfinite (select msk row)"
  by (auto simp: select_def list_all_iff dest: set_zip_leftD)

lemma masked_sum_real:
  "list_all isfinite row \<Longrightarrow>
   sum_list (map rv (map2 (\<lambda>a m. fmul a (of_bool_flt m)) row msk)) =
   sum_list (map rv (select msk row))"
proof (induction row arbitrary: msk)
  case Nil
  then show ?case by (simp add: select_def)
next
  case (Cons a row)
  then obtain x where x: "a = Fin x" by (auto simp: isfinite_iff)
  show ?case
  proof (cases msk)
    case Nil
    then show ?thesis by (simp add: select_def)
  next
    case (Cons m msk')
    with Cons.IH [of msk'] Cons.prems x show ?thesis
      by (simp add: select_def of_bool_flt_def rv_def)
  qed
qed

lemma masked_finite:
  "list_all isfinite row \<Longrightarrow> list_all isfinite (map2 (\<lambda>a m. fmul a (of_bool_flt m)) row msk)"
proof (induction row arbitrary: msk)
  case Nil
  then show ?case by simp
next
  case (Cons a row)
  then obtain x where x: "a = Fin x" by (auto simp: isfinite_iff)
  show ?case
  proof (cases msk)
    case Nil
    then show ?thesis by simp
  next
    case (Cons m msk')
    with Cons.IH [of msk'] Cons.prems x show ?thesis
      by (simp add: of_bool_flt_def)
  qed
qed

lemma masked_sum:
  "list_all isfinite row \<Longrightarrow>
   fsum (map2 (\<lambda>a m. fmul a (of_bool_flt m)) row msk) = Fin (sum_list (map rv (select msk row)))"
  using fsum_fin [OF masked_finite, of row msk] masked_sum_real [of row msk] by simp

lemma sum_list_all_zero: "\<forall>x\<in>set xs. f x = (0::real) \<Longrightarrow> sum_list (map f xs) = 0"
  by (induction xs) simp_all

subsection \<open>The steps of the fit\<close>

lemma fit_design_Inr:
  assumes "fit_design X S NTEMP fitter gu A = Inr (chi2, background, full, full_coeffs, full_coeffs_err)"
  shows "\<exists>coeffs bg covard.
     solver_call X S fitter A = Inr coeffs \<and>
     np_dot (take (Next S) coeffs) (take (Next S) A) (Ndata S) = Inr bg \<and>
     background = map (\<lambda>b. fsub b (Fin (4 / 100))) bg \<and>
     np_dot (drop (Next S) coeffs)
        (map (\<lambda>row. map2 fdiv row (sivarf S)) (drop (Next S) (Ax_of S A))) (Ndata S) = Inr full \<and>
     chi2 = fsum (map2 fmul
              (map (\<lambda>r. fmul r r)
                 (select (fit_mask S) (map2 fsub (map2 fsub (scif S) full) background)))
              (select (fit_mask S) (ivarf S))) \<and>
     covard = (if gu then (case matrix_inv X (normal_matrix S A) of
                             Inr covar \<Rightarrow> map fsqrt (diagonal covar)
                           | Inl e \<Rightarrow> replicate (count_true (oktemp_of A (fit_mask S))) (Fin 0))
               else replicate (count_true (oktemp_of A (fit_mask S))) (Fin 0)) \<and>
     mask_assign (replicate NTEMP (Fin 0)) (drop (Next S) (oktemp_of A (fit_mask S)))
        (drop (Next S) coeffs) = Inr full_coeffs \<and>
     mask_assign (replicate NTEMP (Fin 0)) (drop (Next S) (oktemp_of A (fit_mask S)))
        (drop (Next S) covard) = Inr full_coeffs_err"
  using assms
  unfolding fit_design_def solver_call_def normal_matrix_def Ax_of_def Let_def
  by (auto simp: ebind_eq_Inr)

lemma design_matrix_length:
  "design_matrix X S z templates = Inr A \<Longrightarrow> length A = length (Abg S) + length templates"
proof -
  have e: "emap f xs = Inr ys \<Longrightarrow> length ys = length xs" for f :: "'a \<Rightarrow> error + 'b" and xs ys
    by (induction xs arbitrary: ys) (auto simp: ebind_eq_Inr)
  assume "design_matrix X S z templates = Inr A"
  then show ?thesis
    unfolding design_matrix_def by (auto simp: ebind_eq_Inr dest: e)
qed

lemma mask_put_zeros:
  "\<forall>v\<in>set vs. v = z \<Longrightarrow> mask_put (replicate n z) m vs = replicate n z"
proof (induction "replicate n z" m vs arbitrary: n rule: mask_put.induct)
  case (1 z' zs m v vs)
  then obtain n' where n: "n = Suc n'" by (cases n) auto
  with 1 show ?case by simp
next
  case (2 z' zs m vs)
  then obtain n' where n: "n = Suc n'" by (cases n) auto
  with 2 show ?case by simp
qed simp_all

lemma mask_assign_zeros:
  assumes "mask_assign (replicate n (Fin 0)) m (drop k (replicate r (Fin 0))) = Inr err"
    and "n \<le> length m"
  shows "err = replicate n (Fin 0)"
proof -
  let ?v = "drop k (replicate r (Fin 0))"
  have v: "?v = replicate (r - k) (Fin 0)" by simp
  show ?thesis
  proof (cases "length ?v = count_true m")
    case True
    with assms(1) have "err = mask_put (replicate n (Fin 0)) m ?v"
      by (simp add: mask_assign_def)
    then show ?thesis using mask_put_zeros [of ?v "Fin 0" n m] by simp
  next
    case False
    with assms(1) have l: "length ?v = 1" and
      e: "err = map2 (\<lambda>t b. if b then hd ?v else t) (replicate n (Fin 0)) m"
      by (auto simp: mask_assign_def split: if_splits)
    from l have "r - k = 1" by simp
    then have h: "hd (drop k (replicate r (Fin 0))) = Fin 0" by simp
    have z: "map2 (\<lambda>t b. if b then Fin 0 else t) (replicate n (Fin 0)) m = replicate n (Fin 0)"
      using assms(2)
      by (intro nth_equalityI) simp_all
    from e show ?thesis by (simp only: h z)
  qed
qed

subsection \<open>The methods on the state and the functions of the state\<close>

lemma fitter_E_id: "S\<lparr>E := (E S)[j := E S ! j]\<rparr> = S"
  by simp






subsection \<open>The arrays of a constructed fitter, and the sum of chi-squared\<close>

lemma emap_list_all2: "emap f xs = Inr ys \<Longrightarrow> list_all2 (\<lambda>x y. f x = Inr y) xs ys"
  by (induction xs arbitrary: ys) (auto simp: ebind_eq_Inr)

lemma init_fields:
  assumes "StackedSpectrum_init X h sys_err mask_min mask_threshold fcontam = Inr sp"
  shows "sp_ivarf sp = ext_ivar sys_err h \<and> sp_weightf sp = ext_weight fcontam h \<and>
         sp_scif sp = concat (SCI h)"
  using assms
  unfolding StackedSpectrum_init_def Let_def ext_ivar_def ext_weight_def
  by (auto simp: ebind_eq_Inr split: if_splits option.splits)

lemma StackFitter_init_fields:
  assumes "StackFitter_init X exts sys_err mask_min fcontam = Inr S"
  shows "ivarf S = map2 fmul (concat (map (ext_ivar sys_err) exts))
                     (concat (map (ext_weight fcontam) exts)) \<and>
         scif S = concat (map (\<lambda>h. concat (SCI h)) exts)"
proof -
  from assms obtain Es where
    em: "emap (\<lambda>h. ebind (StackedSpectrum_init X h sys_err mask_min (Fin (- 1)) fcontam)
                    (\<lambda>E_i. ebind (compute_model X E_i None) (\<lambda>_. Inr E_i))) exts = Inr Es" and
    iv: "ivarf S = map2 fmul (concat (map sp_ivarf Es)) (concat (map sp_weightf Es))" and
    sc: "scif S = concat (map sp_scif Es)"
    unfolding StackFitter_init_def Let_def
    by (auto simp: ebind_eq_Inr split: if_splits)
  have "list_all2 (\<lambda>h sp. StackedSpectrum_init X h sys_err mask_min (Fin (- 1)) fcontam = Inr sp)
          exts Es"
    using emap_list_all2 [OF em]
    by (rule list_all2_mono) (auto simp: ebind_eq_Inr)
  then have "map sp_ivarf Es = map (ext_ivar sys_err) exts \<and>
             map sp_weightf Es = map (ext_weight fcontam) exts \<and>
             map sp_scif Es = map (\<lambda>h. concat (SCI h)) exts"
    by (induction rule: list_all2_induct) (auto dest: init_fields)
  with iv sc show ?thesis by simp
qed

lemma select_zip: "zip (select m xs) (select m ys) = select m (zip xs ys)"
proof (induction m arbitrary: xs ys)
  case Nil
  then show ?case by (simp add: select_def)
next
  case (Cons b m)
  show ?case
  proof (cases xs)
    case Nil
    then show ?thesis by (simp add: select_def)
  next
    case xs: (Cons x xs')
    show ?thesis
    proof (cases ys)
      case Nil
      then show ?thesis by (simp add: select_def)
    next
      case (Cons y ys')
      with xs Cons.IH [of xs' ys'] show ?thesis by (simp add: select_def)
    qed
  qed
qed

lemma chi2_sum_code:
  "fsum (map2 fmul (map (\<lambda>r. fmul r r) (select m resid)) (select m iv)) =
   fsum (map (\<lambda>(r, iv). fmul (fmul r r) iv) (select m (zip resid iv)))"
proof -
  have "map2 fmul (map (\<lambda>r. fmul r r) (select m resid)) (select m iv) =
        map (\<lambda>(r, iv). fmul (fmul r r) iv) (zip (select m resid) (select m iv))"
    by (simp add: zip_map1 case_prod_unfold)
  then show ?thesis by (simp only: select_zip)
qed

subsection \<open>The example exposures, evaluated\<close>

lemma build_data_a:
  "build_data [[Fin (19 / 40), Fin (1 / 40)], [Fin (19 / 40), Fin (1 / 40)]] 2 4 = Inr
     [[[Fin (1 / 40), Fin 0, Fin 0, Fin 0], [Fin (1 / 40), Fin 0, Fin 0, Fin 0]],
      [[Fin (19 / 40), Fin (1 / 40), Fin 0, Fin 0], [Fin (19 / 40), Fin (1 / 40), Fin 0, Fin 0]],
      [[Fin 0, Fin (19 / 40), Fin (1 / 40), Fin 0], [Fin 0, Fin (19 / 40), Fin (1 / 40), Fin 0]],
      [[Fin 0, Fin 0, Fin (19 / 40), Fin (1 / 40)], [Fin 0, Fin 0, Fin (19 / 40), Fin (1 / 40)]]]"
  by code_simp

lemma init_a:
  "StackedSpectrum_init (X_ex cs) ext_a (Fin (2 / 100)) (Fin (1 / 10)) (Fin (- 1)) (Fin 1) = Inr sp_a"
  by (simp add: StackedSpectrum_init_def ext_a_def sp_a_def get_wavelength_from_header_def
      fsub_def reshape_def mask_positive_def mask_finite_def mask_amplitude_def fsum_def
      build_model_def build_data_a compute_model_def np_dot_def dot_rows_def amax_def fmax2_def
      count_true_def replicate_numeral upt_conv_Cons Let_def inf_of_def)

lemma build_data_u:
  "build_data [[Fin (1 / 4), Fin (1 / 4)], [Fin (1 / 4), Fin (1 / 4)]] 2 4 = Inr
     [[[Fin (1 / 4), Fin 0, Fin 0, Fin 0], [Fin (1 / 4), Fin 0, Fin 0, Fin 0]],
      [[Fin (1 / 4), Fin (1 / 4), Fin 0, Fin 0], [Fin (1 / 4), Fin (1 / 4), Fin 0, Fin 0]],
      [[Fin 0, Fin (1 / 4), Fin (1 / 4), Fin 0], [Fin 0, Fin (1 / 4), Fin (1 / 4), Fin 0]],
      [[Fin 0, Fin 0, Fin (1 / 4), Fin (1 / 4)], [Fin 0, Fin 0, Fin (1 / 4), Fin (1 / 4)]]]"
  by code_simp

lemma init_u:
  "StackedSpectrum_init (X_ex cs) ext_u (Fin (2 / 100)) (Fin (1 / 10)) (Fin (- 1)) (Fin 1) = Inr sp_u"
  by (simp add: StackedSpectrum_init_def ext_u_def sp_u_def fit_data_u_def
      get_wavelength_from_header_def
      fsub_def reshape_def mask_positive_def mask_finite_def mask_amplitude_def fsum_def
      build_model_def build_data_u compute_model_def np_dot_def dot_rows_def amax_def fmax2_def
      count_true_def replicate_numeral upt_conv_Cons Let_def inf_of_def)

lemma compute_model_u_flat: "compute_model X sp_u None = Inr (sp_flat sp_u)"
  by (simp add: compute_model_def sp_u_def fit_data_u_def np_dot_def dot_rows_def replicate_numeral)

lemma fitter_u_init:
  "StackFitter_init (X_ex cs) [ext_u] (Fin (2 / 100)) (Fin (1 / 10)) (Fin 1) = Inr fitter_u"
  unfolding StackFitter_init_def
  apply (simp only: emap.simps init_u compute_model_u_flat ebind_Inr)
  apply (simp add: sp_u_def fitter_u_def fsum_def of_bool_flt_def init_background_def
      upt_conv_Cons Let_def)
  done

lemmas design_eval = design_matrix_def template_row_def amax_def amin_def fmax2_def fmin2_def
  flt_lt_def compute_model_def np_dot_def dot_rows_def slice_assign_def replicate_numeral Let_def

lemma design_u_pm:
  "design_matrix (X_ex cs) fitter_u (Fin 0) [(''pm'', tmpl_pm)] =
     Inr [[Fin 1, Fin 1, Fin 1, Fin 1, Fin 1, Fin 1, Fin 1, Fin 1],
          [Fin (1 / 4), Fin (- (1 / 4)), Fin 0, Fin 0, Fin (1 / 4), Fin (- (1 / 4)), Fin 0, Fin 0]]"
  by (simp add: design_eval fitter_u_def tmpl_pm_def sp_u_def fit_data_u_def X_ex_def)

lemma design_u_flat:
  "design_matrix (X_ex cs) fitter_u (Fin 0) [(''flat'', tmpl_flat)] =
     Inr [[Fin 1, Fin 1, Fin 1, Fin 1, Fin 1, Fin 1, Fin 1, Fin 1],
          [Fin (1 / 2), Fin (1 / 2), Fin (1 / 2), Fin (1 / 4),
           Fin (1 / 2), Fin (1 / 2), Fin (1 / 2), Fin (1 / 4)]]"
  by (simp add: design_eval fitter_u_def tmpl_flat_def sp_u_def fit_data_u_def X_ex_def)


lemmas fit_eval = fit_design_def oktemp_of_def select_def fsum_def of_bool_flt_def fne_def feq_def
  np_dot_def dot_rows_def mask_assign_def count_true_def fsub_def gram_def replicate_numeral Let_def

lemma wf_fitter_u: "wf_fitter fitter_u"
  by (simp add: wf_fitter_def fitter_u_def)


lemma init_c:
  "StackedSpectrum_init (X_ex cs) ext_c (Fin (2 / 100)) (Fin (1 / 10)) (Fin (- 1)) (Fin 1) = Inr sp_c"
  by (simp add: StackedSpectrum_init_def ext_c_def sp_c_def sp_u_def fit_data_u_def
      get_wavelength_from_header_def
      fsub_def reshape_def mask_positive_def mask_finite_def mask_amplitude_def fsum_def
      build_model_def build_data_u compute_model_def np_dot_def dot_rows_def amax_def fmax2_def
      count_true_def replicate_numeral upt_conv_Cons Let_def inf_of_def)

lemma floor_8_over_e: "\<lfloor>8 * exp (- 1 :: real)\<rfloor> = 2"
proof -
  have up: "exp (1::real) \<le> 3" by (rule exp_le)
  have "(1 + 1 / real 32) ^ 32 \<le> exp (1::real)"
    by (rule exp_ge_one_plus_x_over_n_power_n) simp_all
  moreover have "(8 / 3 :: real) < (1 + 1 / real 32) ^ 32" by (simp add: power_divide)
  ultimately have lo: "8 / 3 < exp (1::real)" by linarith
  have e: "exp (- 1 :: real) = 1 / exp 1" by (simp add: exp_minus inverse_eq_divide)
  have pos: "0 < exp (1::real)" by simp
  have "2 \<le> 8 / exp (1::real)" using up pos by (simp add: field_simps)
  moreover have "8 / exp (1::real) < 3" using lo pos by (simp add: field_simps)
  ultimately show ?thesis unfolding e by (simp add: floor_eq_iff)
qed

lemma compute_model_c_flat: "compute_model X sp_c None = Inr (sp_flat sp_c)"
  by (simp add: compute_model_def sp_c_def sp_u_def fit_data_u_def np_dot_def dot_rows_def replicate_numeral)

lemma fitter_c_init:
  "StackFitter_init (X_ex cs) [ext_c] (Fin (2 / 100)) (Fin (1 / 10)) (Fin 1) = Inr fitter_c"
  unfolding StackFitter_init_def
  apply (simp only: emap.simps init_c compute_model_c_flat ebind_Inr)
  apply (simp add: sp_c_def sp_u_def fitter_c_def fsum_def of_bool_flt_def init_background_def
      upt_conv_Cons Let_def replicate_numeral floor_8_over_e)
  done


lemma fit_c:
  "fit_at_z (X_ex [Fin (4 / 100)]) fitter_c (Fin 0) [] ''nnls'' False =
     Inr (Fin (20000 * exp (- 1) / 2501),
          [Fin 0, Fin 0, Fin 0, Fin 0, Fin 0, Fin 0, Fin 0, Fin 0],
          [Fin 0, Fin 0, Fin 0, Fin 0, Fin 0, Fin 0, Fin 0, Fin 0], [], [])"
  unfolding fit_at_z_def
  by (simp add: design_eval fit_eval fitter_c_def X_ex_def)

subsection \<open>Rows of the design matrix and the products of \<open>fit_at_z\<close>\<close>

lemma dot_rows_nth:
  assumes "p < n" and "\<forall>row\<in>set M. p < length row"
  shows "p < length (dot_rows v M n) \<and>
         dot_rows v M n ! p = fsum (map2 (\<lambda>c row. fmul c (row ! p)) v M)"
proof -
  let ?rows = "map (\<lambda>(c, row). map (fmul c) row) (zip v M)"
  have d: "dot_rows v M n = foldl (\<lambda>acc row. map2 fadd acc row) (replicate n (Fin 0)) ?rows"
    by (simp add: dot_rows_def foldl_map case_prod_unfold)
  have r: "\<forall>row\<in>set ?rows. p < length row"
    using assms(2) by (auto dest: set_zip_rightD)
  have c: "map (\<lambda>row. row ! p) ?rows = map2 (\<lambda>c row. fmul c (row ! p)) v M"
    using assms(2) by (auto dest: set_zip_rightD)
  from foldl_map2_fadd_nth [of p "replicate n (Fin 0)" ?rows] assms(1) r
  show ?thesis unfolding d c [symmetric] by (simp add: fsum_def)
qed

lemma whiten_cancel: "x \<noteq> 0 \<Longrightarrow> fdiv (fmul a (Fin x)) (Fin x) = a"
  by (cases a) (auto simp: inf_of_def)

lemma fadd_zero_left: "fadd (Fin 0) x = x"
  by (cases x) simp_all

lemma select_append:
  "length m1 = length xs1 \<Longrightarrow> select (m1 @ m2) (xs1 @ xs2) = select m1 xs1 @ select m2 xs2"
  by (simp add: select_def)

lemma select_all_true:
  "length m = length xs \<Longrightarrow> \<forall>b\<in>set m. b \<Longrightarrow> select m xs = xs"
  by (induction m xs rule: list_induct2) (auto simp: select_def)

lemma select_kept_prefix:
  assumes "length ok = length A" and "k \<le> length A" and "\<forall>j<k. ok ! j"
  shows "select ok A = take k A @ select (drop k ok) (drop k A)"
proof -
  have t: "\<forall>b\<in>set (take k ok). b"
    using assms by (auto simp: in_set_conv_nth)
  have "select ok A = select (take k ok @ drop k ok) (take k A @ drop k A)" by simp
  also have "\<dots> = select (take k ok) (take k A) @ select (drop k ok) (drop k A)"
    using assms by (intro select_append) simp
  also have "select (take k ok) (take k A) = take k A"
    using assms by (intro select_all_true [OF _ t]) simp
  finally show ?thesis .
qed

lemma efold_invariant:
  assumes "efold f xs s = Inr s'" and "P s"
    and "\<And>x s s'. P s \<Longrightarrow> f x s = Inr s' \<Longrightarrow> P s'"
  shows "P s'"
  using assms(1,2)
proof (induction xs arbitrary: s)
  case Nil
  then show ?case by simp
next
  case (Cons x xs)
  from Cons.prems(1) obtain s1 where 1: "f x s = Inr s1" and 2: "efold f xs s1 = Inr s'"
    by (auto simp: ebind_eq_Inr)
  from assms(3) [OF Cons.prems(2) 1] have "P s1" .
  with 2 show ?case by (rule Cons.IH)
qed

lemma slice_assign_length: "slice_assign row sl v = Inr r \<Longrightarrow> length r = length row"
  unfolding slice_assign_def Let_def
  by (cases sl) (auto split: if_splits)

lemma template_row_length:
  assumes "template_row X S z ti = Inr r"
  shows "length r = Ndata S"
proof -
  have "length r = Ndata S"
    using assms unfolding template_row_def Let_def
  proof (rule efold_invariant [where P = "\<lambda>row. length row = Ndata S"])
    show "length (replicate (Ndata S) (Fin 0)) = Ndata S" by simp
  next
    fix x :: "StackedSpectrum \<times> nat \<times> nat" and s s' :: "flt list"
    assume l: "length s = Ndata S"
    assume "(case x of (E_j, sl) \<Rightarrow> \<lambda>row.
              if map (\<lambda>w. fmul w (fadd (Fin 1) z)) (wave ti) = [] then Inl IndexError
              else ebind (amax (sp_wave E_j)) (\<lambda>wmax.
                   ebind (amin (sp_wave E_j)) (\<lambda>wmin.
                     if fgt (hd (map (\<lambda>w. fmul w (fadd (Fin 1) z)) (wave ti))) wmax \<or>
                        flt_lt (last (map (\<lambda>w. fmul w (fadd (Fin 1) z)) (wave ti))) wmin
                     then Inr row
                     else ebind (compute_model X E_j
                                   (Some (map (\<lambda>w. fmul w (fadd (Fin 1) z)) (wave ti),
                                          map (\<lambda>f. fdiv f (fadd (Fin 1) z)) (flux ti))))
                            (\<lambda>m. slice_assign row sl m)))) s = Inr s'"
    with l show "length s' = Ndata S"
      by (cases x) (auto simp: ebind_eq_Inr split: if_splits dest: slice_assign_length)
  qed
  then show ?thesis .
qed

lemma add_zeros: "length row = n \<Longrightarrow> map2 fadd (replicate n (Fin 0)) row = row"
  by (rule nth_equalityI) (simp_all add: fadd_zero_left)

lemma design_matrix_rows:
  assumes "design_matrix X S z templates = Inr A" and "wf_fitter S"
  shows "take (Next S) A = Abg S"
    and "emap (\<lambda>t. template_row X S z (snd t)) templates = Inr (drop (Next S) A)"
    and "\<forall>row\<in>set A. length row = Ndata S"
proof -
  from assms(1) obtain trows where
    em: "emap (\<lambda>t. template_row X S z (snd t)) templates = Inr trows" and
    A: "A = map (\<lambda>row. map2 fadd (replicate (Ndata S) (Fin 0)) row) (Abg S) @ trows"
    unfolding design_matrix_def by (auto simp: ebind_eq_Inr)
  from assms(2) have len: "length (Abg S) = Next S" and
    rows: "\<forall>row\<in>set (Abg S). length row = Ndata S"
    by (simp_all add: wf_fitter_def)
  from rows have bg: "map (\<lambda>row. map2 fadd (replicate (Ndata S) (Fin 0)) row) (Abg S) = Abg S"
    by (intro map_idI) (simp add: add_zeros)
  from A bg have A': "A = Abg S @ trows" by simp
  from A' len show "take (Next S) A = Abg S" by simp
  from A' len em show "emap (\<lambda>t. template_row X S z (snd t)) templates = Inr (drop (Next S) A)"
    by simp
  have "\<forall>row\<in>set trows. length row = Ndata S"
    using emap_list_all2 [OF em]
    by (induction rule: list_all2_induct) (auto dest: template_row_length)
  with rows A' show "\<forall>row\<in>set A. length row = Ndata S" by auto
qed

lemma set_select: "set (select m xs) \<subseteq> set xs"
  by (auto simp: select_def dest: set_zip_leftD)

lemma lincomb_cong:
  "\<forall>row\<in>set rows. f row ! p = row ! p \<Longrightarrow> lincomb cs (map f rows) p = lincomb cs rows p"
proof -
  assume a: "\<forall>row\<in>set rows. f row ! p = row ! p"
  have "map2 (\<lambda>c row. fmul c (row ! p)) cs (map f rows) =
        map (\<lambda>(c, row). fmul c (f row ! p)) (zip cs rows)"
    by (simp add: zip_map2 case_prod_unfold)
  also have "\<dots> = map (\<lambda>(c, row). fmul c (row ! p)) (zip cs rows)"
    using a by (auto dest: set_zip_rightD)
  finally show ?thesis by (simp add: lincomb_def)
qed

subsection \<open>Assignment through a mask\<close>

lemma mask_put_length: "length (mask_put zs m vs) = length zs"
  by (induction zs m vs rule: mask_put.induct) simp_all

lemma count_true_Cons: "count_true (b # m) = (if b then Suc (count_true m) else count_true m)"
  by (simp add: count_true_def)

lemma count_true_append: "count_true (m1 @ m2) = count_true m1 + count_true m2"
  by (simp add: count_true_def)

lemma count_true_all: "\<forall>j<length m. m ! j \<Longrightarrow> count_true m = length m"
proof -
  assume "\<forall>j<length m. m ! j"
  then have "\<forall>b\<in>set m. id b" by (auto simp: in_set_conv_nth)
  then have "filter id m = m" by (auto simp: filter_id_conv)
  then show ?thesis by (simp add: count_true_def)
qed

lemma count_true_take_less:
  assumes "i < length m" and "m ! i"
  shows "count_true (take i m) < count_true m"
proof -
  from id_take_nth_drop [OF assms(1)] have "count_true m =
      count_true (take i m) + count_true (m ! i # drop (Suc i) m)"
    by (metis count_true_append)
  with assms(2) show ?thesis by (simp add: count_true_Cons)
qed

lemma mask_put_nth:
  "length m = length zs \<Longrightarrow> count_true m \<le> length vs \<Longrightarrow> i < length zs \<Longrightarrow>
   mask_put zs m vs ! i = (if m ! i then vs ! count_true (take i m) else zs ! i)"
proof (induction zs arbitrary: m vs i)
  case Nil
  then show ?case by simp
next
  case (Cons z zs)
  from Cons.prems(1) obtain b m' where m: "m = b # m'" by (cases m) auto
  show ?case
  proof (cases b)
    case False
    show ?thesis
    proof (cases i)
      case 0
      with m False show ?thesis by simp
    next
      case (Suc i')
      with Cons.prems m False Cons.IH [of m' vs i'] show ?thesis
        by (simp add: count_true_Cons)
    qed
  next
    case True
    with Cons.prems(2) m obtain v vs' where vs: "vs = v # vs'"
      by (cases vs) (auto simp: count_true_Cons)
    show ?thesis
    proof (cases i)
      case 0
      with m True vs show ?thesis by (simp add: count_true_def)
    next
      case (Suc i')
      with Cons.prems m True vs Cons.IH [of m' vs' i'] show ?thesis
        by (simp add: count_true_Cons)
    qed
  qed
qed

lemma mask_assign_shape:
  assumes "mask_assign (replicate n (Fin 0)) m v = Inr r" and "length m = n"
  shows "length r = n" and "i < n \<Longrightarrow> \<not> m ! i \<Longrightarrow> r ! i = Fin 0"
proof -
  show "length r = n"
    using assms by (auto simp: mask_assign_def mask_put_length split: if_splits)
  assume i: "i < n" and d: "\<not> m ! i"
  show "r ! i = Fin 0"
  proof (cases "length v = count_true m")
    case True
    with assms(1) have "r = mask_put (replicate n (Fin 0)) m v" by (simp add: mask_assign_def)
    with mask_put_nth [of m "replicate n (Fin 0)" v i] True assms(2) i d show ?thesis by simp
  next
    case False
    with assms(1) have "r = map2 (\<lambda>t b. if b then hd v else t) (replicate n (Fin 0)) m"
      by (auto simp: mask_assign_def split: if_splits)
    with assms(2) i d show ?thesis by simp
  qed
qed

lemma mask_assign_kept:
  assumes "mask_assign zs m v = Inr r" and "length m = length zs"
    and "length v = count_true m" and "i < length zs" and "m ! i"
  shows "r ! i = v ! count_true (take i m)"
proof -
  from assms(1,3) have "r = mask_put zs m v" by (simp add: mask_assign_def)
  with mask_put_nth [of m zs v i] assms show ?thesis by simp
qed

lemma kept_prefix_count:
  assumes "\<forall>j<k. ok ! j" and "k \<le> length ok"
  shows "count_true (take (k + i) ok) = k + count_true (take i (drop k ok))"
    and "count_true ok = k + count_true (drop k ok)"
proof -
  have t: "count_true (take k ok) = k"
    using count_true_all [of "take k ok"] assms by simp
  have "take (k + i) ok = take k ok @ take i (drop k ok)" by (simp add: take_add)
  with t show "count_true (take (k + i) ok) = k + count_true (take i (drop k ok))"
    by (simp add: count_true_append)
  have "count_true ok = count_true (take k ok @ drop k ok)" by simp
  also have "\<dots> = k + count_true (drop k ok)" unfolding count_true_append t ..
  finally show "count_true ok = k + count_true (drop k ok)" .
qed

subsection \<open>The fitters with the red template, evaluated\<close>

lemma init_u2:
  "StackedSpectrum_init (X_ex cs) ext_u2 (Fin 0) (Fin (1 / 10)) (Fin (- 1)) (Fin 1) = Inr sp_u2"
  by (simp add: StackedSpectrum_init_def ext_u2_def ext_u_def sp_u2_def sp_u_def fit_data_u_def
      get_wavelength_from_header_def
      fsub_def reshape_def mask_positive_def mask_finite_def mask_amplitude_def fsum_def
      build_model_def build_data_u compute_model_def np_dot_def dot_rows_def amax_def fmax2_def
      count_true_def replicate_numeral upt_conv_Cons Let_def inf_of_def)

lemma init_m:
  "StackedSpectrum_init (X_ex cs) ext_m (Fin 0) (Fin (1 / 10)) (Fin (- 1)) (Fin 1) = Inr sp_m"
  by (simp add: StackedSpectrum_init_def ext_m_def ext_u_def sp_m_def sp_u_def fit_data_u_def
      get_wavelength_from_header_def
      fsub_def reshape_def mask_positive_def mask_finite_def mask_amplitude_def fsum_def
      build_model_def build_data_u compute_model_def np_dot_def dot_rows_def amax_def fmax2_def
      count_true_def replicate_numeral upt_conv_Cons Let_def inf_of_def)

lemma compute_model_u2_flat: "compute_model X sp_u2 None = Inr (sp_flat sp_u2)"
  by (simp add: compute_model_def sp_u2_def sp_u_def fit_data_u_def np_dot_def dot_rows_def replicate_numeral)

lemma compute_model_m_flat: "compute_model X sp_m None = Inr (sp_flat sp_m)"
  by (simp add: compute_model_def sp_m_def sp_u_def fit_data_u_def np_dot_def dot_rows_def replicate_numeral)

lemma fitter_um_init:
  "StackFitter_init (X_ex cs) [ext_u2, ext_m] (Fin 0) (Fin (1 / 10)) (Fin 1) = Inr fitter_um"
  unfolding StackFitter_init_def
  apply (simp only: emap.simps init_u2 init_m compute_model_u2_flat compute_model_m_flat ebind_Inr)
  apply (simp add: sp_u2_def sp_m_def sp_u_def fitter_um_def fsum_def of_bool_flt_def init_background_def
      upt_conv_Cons Let_def replicate_numeral)
  done

lemma wf_fitter_um: "wf_fitter fitter_um"
  by (simp add: wf_fitter_def fitter_um_def)

lemma design_um:
  "design_matrix (X_ex cs) fitter_um (Fin 0) [(''flat'', tmpl_flat), (''red'', tmpl_red)] =
     Inr [[Fin 1, Fin 1, Fin 1, Fin 1, Fin 1, Fin 1, Fin 1, Fin 1,
           Fin 0, Fin 0, Fin 0, Fin 0, Fin 0, Fin 0, Fin 0, Fin 0],
          [Fin 0, Fin 0, Fin 0, Fin 0, Fin 0, Fin 0, Fin 0, Fin 0,
           Fin 1, Fin 1, Fin 1, Fin 1, Fin 1, Fin 1, Fin 1, Fin 1],
          [Fin (1 / 2), Fin (1 / 2), Fin (1 / 2), Fin (1 / 4),
           Fin (1 / 2), Fin (1 / 2), Fin (1 / 2), Fin (1 / 4),
           Fin (1 / 2), Fin (1 / 2), Fin (1 / 2), Fin (1 / 4),
           Fin (1 / 2), Fin (1 / 2), Fin (1 / 2), Fin (1 / 4)],
          [Fin 0, Fin 0, Fin 1, Fin 1, Fin 0, Fin 0, Fin 1, Fin 1,
           Fin 0, Fin 0, Fin 1, Fin 1, Fin 0, Fin 0, Fin 1, Fin 1]]"
  by (simp add: design_eval fitter_um_def tmpl_flat_def tmpl_red_def sp_u2_def sp_m_def sp_u_def
      fit_data_u_def X_ex_def)

lemma fit_um:
  "fit_at_z (X_ex [Fin (4 / 100), Fin 2, Fin 1]) fitter_um (Fin 0)
     [(''flat'', tmpl_flat), (''red'', tmpl_red)] ''nnls'' False =
   Inr (Fin (13 / 2),
        [Fin 0, Fin 0, Fin 0, Fin 0, Fin 0, Fin 0, Fin 0, Fin 0,
         Fin (49 / 25), Fin (49 / 25), Fin (49 / 25), Fin (49 / 25),
         Fin (49 / 25), Fin (49 / 25), Fin (49 / 25), Fin (49 / 25)],
        [Fin 0, Fin 0, Fin 1, Fin 1, Fin 0, Fin 0, Fin 1, Fin 1,
         NaN, NaN, NaN, NaN, NaN, NaN, NaN, NaN],
        [Fin 1, Fin 1], [Fin 0, Fin 0])"
  unfolding fit_at_z_def
  by (simp only: design_um ebind_Inr) (simp add: fit_eval fitter_um_def X_ex_def)

lemma fitter_u2_init:
  "StackFitter_init (X_ex cs) [ext_u2] (Fin 0) (Fin (1 / 10)) (Fin 1) = Inr fitter_u2"
  unfolding StackFitter_init_def
  apply (simp only: emap.simps init_u2 compute_model_u2_flat ebind_Inr)
  apply (simp add: sp_u2_def sp_u_def fitter_u2_def fitter_u_def fsum_def of_bool_flt_def
      init_background_def upt_conv_Cons Let_def)
  done

lemma wf_fitter_u2: "wf_fitter fitter_u2"
  by (simp add: wf_fitter_def fitter_u2_def fitter_u_def)

lemma design_u2:
  "design_matrix (X_ex cs) fitter_u2 (Fin 0)
     [(''flat'', tmpl_flat), (''pm'', tmpl_pm), (''red'', tmpl_red)] =
     Inr [[Fin 1, Fin 1, Fin 1, Fin 1, Fin 1, Fin 1, Fin 1, Fin 1],
          [Fin (1 / 2), Fin (1 / 2), Fin (1 / 2), Fin (1 / 4),
           Fin (1 / 2), Fin (1 / 2), Fin (1 / 2), Fin (1 / 4)],
          [Fin (1 / 4), Fin (- (1 / 4)), Fin 0, Fin 0, Fin (1 / 4), Fin (- (1 / 4)), Fin 0, Fin 0],
          [Fin 0, Fin 0, Fin 1, Fin 1, Fin 0, Fin 0, Fin 1, Fin 1]]"
  by (simp add: design_eval fitter_u2_def fitter_u_def tmpl_flat_def tmpl_pm_def tmpl_red_def
      sp_u2_def sp_u_def fit_data_u_def X_ex_def)

lemma oktemp_u2:
  "oktemp_of [[Fin 1, Fin 1, Fin 1, Fin 1, Fin 1, Fin 1, Fin 1, Fin 1],
          [Fin (1 / 2), Fin (1 / 2), Fin (1 / 2), Fin (1 / 4),
           Fin (1 / 2), Fin (1 / 2), Fin (1 / 2), Fin (1 / 4)],
          [Fin (1 / 4), Fin (- (1 / 4)), Fin 0, Fin 0, Fin (1 / 4), Fin (- (1 / 4)), Fin 0, Fin 0],
          [Fin 0, Fin 0, Fin 1, Fin 1, Fin 0, Fin 0, Fin 1, Fin 1]] (fit_mask fitter_u2) =
   [True, True, False, True]"
  by (simp add: oktemp_of_def fitter_u2_def fitter_u_def fsum_def of_bool_flt_def fne_def feq_def)

lemma oktemp_um:
  "oktemp_of [[Fin 1, Fin 1, Fin 1, Fin 1, Fin 1, Fin 1, Fin 1, Fin 1,
           Fin 0, Fin 0, Fin 0, Fin 0, Fin 0, Fin 0, Fin 0, Fin 0],
          [Fin 0, Fin 0, Fin 0, Fin 0, Fin 0, Fin 0, Fin 0, Fin 0,
           Fin 1, Fin 1, Fin 1, Fin 1, Fin 1, Fin 1, Fin 1, Fin 1],
          [Fin (1 / 2), Fin (1 / 2), Fin (1 / 2), Fin (1 / 4),
           Fin (1 / 2), Fin (1 / 2), Fin (1 / 2), Fin (1 / 4),
           Fin (1 / 2), Fin (1 / 2), Fin (1 / 2), Fin (1 / 4),
           Fin (1 / 2), Fin (1 / 2), Fin (1 / 2), Fin (1 / 4)],
          [Fin 0, Fin 0, Fin 1, Fin 1, Fin 0, Fin 0, Fin 1, Fin 1,
           Fin 0, Fin 0, Fin 1, Fin 1, Fin 0, Fin 0, Fin 1, Fin 1]] (fit_mask fitter_um) =
   [True, False, True, True]"
  by (simp add: oktemp_of_def fitter_um_def fsum_def of_bool_flt_def fne_def feq_def replicate_numeral)

lemma fit_u2:
  "fit_at_z (X_ex [Fin (4 / 100), Fin 2, Fin 1]) fitter_u2 (Fin 0)
     [(''flat'', tmpl_flat), (''pm'', tmpl_pm), (''red'', tmpl_red)] ''nnls'' False =
   Inr (Fin 0,
        [Fin 0, Fin 0, Fin 0, Fin 0, Fin 0, Fin 0, Fin 0, Fin 0],
        [Fin 1, Fin 1, Fin 2, Fin (3 / 2), Fin 1, Fin 1, Fin 2, Fin (3 / 2)],
        [Fin 2, Fin 0, Fin 1], [Fin 0, Fin 0, Fin 0])"
  unfolding fit_at_z_def
  by (simp only: design_u2 ebind_Inr) (simp add: fit_eval fitter_u2_def fitter_u_def X_ex_def)

lemma solver_u2:
  "solver_call (X_ex [Fin (4 / 100), Fin 2, Fin 1]) fitter_u2 ''nnls'' A =
     Inr [Fin (4 / 100), Fin 2, Fin 1]"
  by (simp add: solver_call_def X_ex_def)

lemma fit_um_one:
  "fit_at_z (X_ex [a, b]) fitter_um (Fin 0) [(''flat'', tmpl_flat)] ''nnls'' False =
     Inl ValueError"
  unfolding fit_at_z_def
  by (simp add: design_eval fit_eval fitter_um_def tmpl_flat_def sp_u2_def sp_m_def sp_u_def
      fit_data_u_def X_ex_def)

subsection \<open>The scan: the minimum, the rounds, and when they return\<close>

lemma flt_lt_trans: "flt_lt x y \<Longrightarrow> flt_lt y z \<Longrightarrow> flt_lt x z"
  by (cases x; cases y; cases z) (simp_all add: flt_lt_def)

lemma flt_lt_irrefl: "\<not> flt_lt x x"
  by (cases x) (simp_all add: flt_lt_def)

lemma flt_lt_nan: "\<not> flt_lt x NaN"
  by (cases x) (simp_all add: flt_lt_def)

lemma argmin_loop_min:
  "length pre = i \<Longrightarrow> bi < i \<Longrightarrow> pre ! bi = mp \<Longrightarrow> \<forall>j<i. \<not> flt_lt (pre ! j) mp \<Longrightarrow>
   argmin_loop xs i bi mp < i + length xs \<and>
   (\<forall>j<i + length xs. \<not> flt_lt ((pre @ xs) ! j) ((pre @ xs) ! argmin_loop xs i bi mp))"
proof (induction xs arbitrary: pre i bi mp)
  case Nil
  then show ?case by simp
next
  case (Cons x xs)
  have app: "(pre @ x # xs) = (pre @ [x]) @ xs" by simp
  show ?case
  proof (cases "mp = NaN")
    case True
    with Cons.prems show ?thesis by (simp add: nth_append flt_lt_nan)
  next
    case mp: False
    show ?thesis
    proof (cases "x = NaN \<or> flt_lt x mp")
      case True
      have inv: "\<forall>j<Suc i. \<not> flt_lt ((pre @ [x]) ! j) x"
      proof (intro allI impI)
        fix j assume j: "j < Suc i"
        show "\<not> flt_lt ((pre @ [x]) ! j) x"
        proof (cases "j < i")
          case True
          with Cons.prems have n: "\<not> flt_lt (pre ! j) mp" by simp
          from \<open>x = NaN \<or> flt_lt x mp\<close> show ?thesis
          proof
            assume "x = NaN"
            then show ?thesis by (simp add: flt_lt_nan)
          next
            assume "flt_lt x mp"
            with n flt_lt_trans [of "pre ! j" x mp] True Cons.prems(1) show ?thesis
              by (auto simp: nth_append)
          qed
        next
          case False
          with j Cons.prems(1) have "j = length pre" by simp
          then show ?thesis by (simp add: flt_lt_irrefl)
        qed
      qed
      have "(pre @ [x]) ! i = x" using Cons.prems(1) by (auto simp: nth_append)
      with Cons.IH [of "pre @ [x]" "Suc i" i x] Cons.prems(1) inv
      have "argmin_loop xs (Suc i) i x < Suc i + length xs \<and>
            (\<forall>j<Suc i + length xs.
               \<not> flt_lt (((pre @ [x]) @ xs) ! j) (((pre @ [x]) @ xs) ! argmin_loop xs (Suc i) i x))"
        by simp
      with True mp show ?thesis unfolding app by simp
    next
      case False
      have inv: "\<forall>j<Suc i. \<not> flt_lt ((pre @ [x]) ! j) mp"
      proof (intro allI impI)
        fix j assume j: "j < Suc i"
        show "\<not> flt_lt ((pre @ [x]) ! j) mp"
        proof (cases "j < i")
          case True
          with Cons.prems show ?thesis by (simp add: nth_append)
        next
          case nj: False
          with j Cons.prems(1) have "j = length pre" by simp
          with False show ?thesis by simp
        qed
      qed
      from Cons.IH [of "pre @ [x]" "Suc i" bi mp] Cons.prems inv
      have "argmin_loop xs (Suc i) bi mp < Suc i + length xs \<and>
            (\<forall>j<Suc i + length xs.
               \<not> flt_lt (((pre @ [x]) @ xs) ! j) (((pre @ [x]) @ xs) ! argmin_loop xs (Suc i) bi mp))"
        by (simp add: nth_append)
      with False mp show ?thesis unfolding app by simp
    qed
  qed
qed

lemma argmin_min:
  assumes "argmin cp = Inr iz"
  shows "iz < length cp" and "\<forall>j<length cp. \<not> flt_lt (cp ! j) (cp ! iz)"
proof -
  from assms obtain x r where cp: "cp = x # r" and iz: "iz = argmin_loop r 1 0 x"
    by (auto simp: argmin_def split: list.splits)
  from argmin_loop_min [of "[x]" 1 0 x r] have
    "argmin_loop r 1 0 x < 1 + length r \<and>
     (\<forall>j<1 + length r. \<not> flt_lt (([x] @ r) ! j) (([x] @ r) ! argmin_loop r 1 0 x))"
    by (simp add: flt_lt_irrefl)
  with cp iz show "iz < length cp" and "\<forall>j<length cp. \<not> flt_lt (cp ! j) (cp ! iz)"
    by simp_all
qed

lemma argmin_returns: "cp \<noteq> [] \<Longrightarrow> \<exists>iz. argmin cp = Inr iz"
  by (cases cp) (simp_all add: argmin_def)

lemma refine_round_eq:
  "refine_round G X S dz0 fitter prior ts (int i) ((zi, ci), (z, chi2)) =
   ebind (zoom_round G X S dz0 fitter prior ts i (zi, ci))
     (\<lambda>cur. Inr (cur, (z @ fst cur, chi2 @ snd cur)))"
  by (auto simp: refine_round_def zoom_round_def zoom_centre_def with_prior_def zoom_step_def
      ebind_def Let_def split: sum.splits option.splits)

lemma efold_rounds:
  "efold (refine_round G X S dz0 fitter prior ts) (map int [i..<i + n]) ((zi, ci), (z, chi2)) =
   ebind (zoom_rounds G X S dz0 fitter prior ts n i (zi, ci))
     (\<lambda>rs. Inr (last ((zi, ci) # rs), (z @ concat (map fst rs), chi2 @ concat (map snd rs))))"
proof (induction n arbitrary: i zi ci z chi2)
  case 0
  then show ?case by simp
next
  case (Suc n)
  have l: "map int [i..<i + Suc n] = int i # map int [Suc i..<Suc i + n]"
    by (simp add: upt_conv_Cons)
  show ?case
  proof (cases "zoom_round G X S dz0 fitter prior ts i (zi, ci)")
    case (Inl e)
    then show ?thesis unfolding l by (simp add: refine_round_eq ebind_def)
  next
    case (Inr cur)
    obtain g c where cur: "cur = (g, c)" by (cases cur)
    from Inr cur Suc.IH [of "Suc i" g c "z @ g" "chi2 @ c"] show ?thesis
      unfolding l by (simp add: refine_round_eq ebind_def split: sum.splits)
  qed
qed

lemma py_range_1_7: "py_range 1 7 = map int [1..<1 + 6]"
  by (simp add: py_range_def upt_conv_Cons upto_rec1)

lemma scan_eq_zoom:
  "fit_zgrid_scan G X S dz0 zr fitter prior ts = zoom_scan G X S dz0 zr fitter prior ts"
  unfolding fit_zgrid_scan_def zoom_scan_def py_range_1_7 efold_rounds
  by (simp add: ebind_def split: sum.splits)

lemma zoom_rounds_length:
  "zoom_rounds G X S dz0 fitter prior ts n i prev = Inr rs \<Longrightarrow> length rs = n"
  by (induction n arbitrary: i prev rs) (auto simp: ebind_eq_Inr)

lemma chi2_on_grid_returns:
  assumes "fits_everywhere X S ts fitter" and "\<forall>x\<in>set g. \<exists>v. x = Fin v"
  shows "\<exists>c. chi2_on_grid X S ts fitter g = Inr c \<and> length c = length g"
  using assms(2)
proof (induction g)
  case Nil
  then show ?case by (simp add: chi2_on_grid_def)
next
  case (Cons x g)
  then obtain v where x: "x = Fin v" by auto
  from assms(1) obtain out where o: "fit_at_z X S (Fin v) ts fitter False = Inr out"
    unfolding fits_everywhere_def by blast
  from Cons obtain c where "chi2_on_grid X S ts fitter g = Inr c" "length c = length g"
    by auto
  with x o show ?case by (simp add: chi2_on_grid_def)
qed

lemma with_prior_returns:
  assumes "prior_ok G prior" and "length ci = length zi"
  shows "\<exists>cp. with_prior G prior (zi, ci) = Inr cp \<and> length cp = length zi"
proof (cases prior)
  case None
  with assms(2) show ?thesis by (simp add: with_prior_def)
next
  case (Some p)
  with assms(1) have l: "2 \<le> length p" and
    i: "\<exists>pz. np_interp G zi (p ! 0) (p ! 1) = Inr pz \<and> length pz = length zi"
    by (simp_all add: prior_ok_def)
  from i obtain pz where "np_interp G zi (p ! 0) (p ! 1) = Inr pz" "length pz = length zi"
    by blast
  with Some l assms(2) show ?thesis by (simp add: with_prior_def np_add_def)
qed

lemma zoom_round_returns:
  assumes G: "grid_routine_ok G" and P: "prior_ok G prior" and F: "fits_everywhere X S ts fitter"
    and d0: "0 < d0" and i: "zi \<noteq> []" and l: "length ci = length zi"
    and lo: "\<forall>x\<in>set zi. \<exists>v. x = Fin v \<and> - 1 + 8 * (d0 / (202 / 100) ^ i) \<le> v"
  shows "\<exists>g c. zoom_round G X S (Fin d0) fitter prior ts i (zi, ci) = Inr (g, c) \<and>
           g \<noteq> [] \<and> length c = length g \<and>
           (\<forall>x\<in>set g. \<exists>v. x = Fin v \<and> - 1 + 8 * (d0 / (202 / 100) ^ Suc i) \<le> v)"
proof -
  define d where "d = d0 / (202 / 100) ^ i"
  define d' where "d' = d0 / (202 / 100) ^ Suc i"
  have dpos: "0 < d" using d0 by (simp add: d_def)
  have "d' = d * (100 / 202)" by (simp add: d_def d'_def)
  with dpos have step: "8 * d' \<le> 4 * d" by simp
  from with_prior_returns [OF P l] obtain cp where
    cp: "with_prior G prior (zi, ci) = Inr cp" and lcp: "length cp = length zi" by blast
  from lcp i have "cp \<noteq> []" by auto
  from argmin_returns [OF this] obtain iz where iz: "argmin cp = Inr iz" by blast
  from argmin_min(1) [OF iz] lcp have izl: "iz < length zi" by simp
  with lo obtain v where v: "zi ! iz = Fin v" and vlo: "- 1 + 8 * d \<le> v"
    unfolding d_def by (metis nth_mem)
  from cp iz izl v have c: "zoom_centre G prior (zi, ci) = Inr (Fin v)"
    by (simp add: zoom_centre_def)
  have st: "zoom_step (Fin d0) i = Fin d" by (simp add: zoom_step_def d_def)
  have a: "- 1 < v - d * 4" using vlo dpos by linarith
  have b: "v - d * 4 < v + d * 4" using dpos by linarith
  from G a b dpos obtain g where
    g: "log_zgrid G [Fin (v - d * 4), Fin (v + d * 4)] (Fin d) = Inr g" and
    gne: "g \<noteq> []" and glo: "\<forall>x\<in>set g. \<exists>w. x = Fin w \<and> v - d * 4 \<le> w"
    unfolding grid_routine_ok_def by blast
  have glo': "\<forall>x\<in>set g. \<exists>w. x = Fin w \<and> - 1 + 8 * d' \<le> w"
  proof
    fix x assume "x \<in> set g"
    with glo obtain w where "x = Fin w" "v - d * 4 \<le> w" by blast
    with vlo step show "\<exists>w. x = Fin w \<and> - 1 + 8 * d' \<le> w"
      by (intro exI [of _ w]) linarith
  qed
  from glo have "\<forall>x\<in>set g. \<exists>w. x = Fin w" by blast
  from chi2_on_grid_returns [OF F this] obtain c' where
    c': "chi2_on_grid X S ts fitter g = Inr c'" "length c' = length g" by blast
  from c g c' have "zoom_round G X S (Fin d0) fitter prior ts i (zi, ci) = Inr (g, c')"
    unfolding zoom_round_def st by (simp add: fsub_def)
  with gne c'(2) glo' show ?thesis unfolding d'_def by blast
qed

lemma zoom_rounds_return:
  assumes G: "grid_routine_ok G" and P: "prior_ok G prior" and F: "fits_everywhere X S ts fitter"
    and d0: "0 < d0"
  shows "zi \<noteq> [] \<Longrightarrow> length ci = length zi \<Longrightarrow>
         \<forall>x\<in>set zi. \<exists>v. x = Fin v \<and> - 1 + 8 * (d0 / (202 / 100) ^ i) \<le> v \<Longrightarrow>
         \<exists>rs. zoom_rounds G X S (Fin d0) fitter prior ts n i (zi, ci) = Inr rs"
proof (induction n arbitrary: i zi ci)
  case 0
  then show ?case by simp
next
  case (Suc n)
  from zoom_round_returns [OF G P F d0 Suc.prems] obtain g c where
    r: "zoom_round G X S (Fin d0) fitter prior ts i (zi, ci) = Inr (g, c)" and
    inv: "g \<noteq> []" "length c = length g"
      "\<forall>x\<in>set g. \<exists>v. x = Fin v \<and> - 1 + 8 * (d0 / (202 / 100) ^ Suc i) \<le> v"
    by blast
  from Suc.IH [OF inv] obtain rs where
    "zoom_rounds G X S (Fin d0) fitter prior ts n (Suc i) (g, c) = Inr rs" by blast
  with r show ?case by simp
qed

lemma zoom_scan_returns:
  assumes G: "grid_routine_ok G" and P: "prior_ok G prior"
    and F0: "fits_everywhere X S ts ''nnls''" and F: "fits_everywhere X S ts fitter"
    and d0: "0 < d0" and a: "- 1 + 4 * d0 \<le> a" and ab: "a < b"
  shows "\<exists>g0 c0 rs.
           log_zgrid G [Fin a, Fin b] (Fin d0) = Inr g0 \<and>
           chi2_on_grid X S ts ''nnls'' g0 = Inr c0 \<and>
           zoom_rounds G X S (Fin d0) fitter prior ts 6 1 (g0, c0) = Inr rs \<and>
           zoom_scan G X S (Fin d0) [Fin a, Fin b] fitter prior ts =
             Inr (concat (map fst ((g0, c0) # rs)), concat (map snd ((g0, c0) # rs)))"
proof -
  from a d0 have a1: "- 1 < a" by linarith
  from G a1 ab d0 obtain g0 where
    g0: "log_zgrid G [Fin a, Fin b] (Fin d0) = Inr g0" and ne: "g0 \<noteq> []" and
    lo: "\<forall>x\<in>set g0. \<exists>v. x = Fin v \<and> a \<le> v"
    unfolding grid_routine_ok_def by blast
  from lo have "\<forall>x\<in>set g0. \<exists>v. x = Fin v" by blast
  from chi2_on_grid_returns [OF F0 this] obtain c0 where
    c0: "chi2_on_grid X S ts ''nnls'' g0 = Inr c0" and l: "length c0 = length g0" by blast
  have "8 * (d0 / (202 / 100) ^ 1) \<le> 4 * d0" using d0 by simp
  with a have a': "- 1 + 8 * (d0 / (202 / 100) ^ 1) \<le> a" by linarith
  have lo': "\<forall>x\<in>set g0. \<exists>v. x = Fin v \<and> - 1 + 8 * (d0 / (202 / 100) ^ 1) \<le> v"
  proof
    fix x assume "x \<in> set g0"
    with lo obtain v where "x = Fin v" "a \<le> v" by blast
    with a' show "\<exists>v. x = Fin v \<and> - 1 + 8 * (d0 / (202 / 100) ^ 1) \<le> v"
      by (intro exI [of _ v]) linarith
  qed
  from zoom_rounds_return [OF G P F d0 ne l lo', of 6] obtain rs where
    rs: "zoom_rounds G X S (Fin d0) fitter prior ts 6 1 (g0, c0) = Inr rs" by blast
  from g0 c0 rs show ?thesis by (simp add: zoom_scan_def)
qed

lemma log_zgrid_spec_ok: "grid_routine_ok G_spec"
  unfolding grid_routine_ok_def
proof (intro allI impI)
  fix a b d :: real
  assume h: "- 1 < a \<and> a < b \<and> 0 < d"
  let ?n = "nat \<lceil>(ln (1 + b) - ln (1 + a)) / d\<rceil>"
  let ?g = "map (\<lambda>k. Fin (exp (ln (1 + a) + real k * d) - 1)) [0..<?n]"
  from h have g: "log_zgrid G_spec [Fin a, Fin b] (Fin d) = Inr ?g"
    by (simp add: G_spec_def log_zgrid_spec_def)
  from h have "ln (1 + a) < ln (1 + b)" by simp
  with h have "0 < (ln (1 + b) - ln (1 + a)) / d" by simp
  then have "0 < ?n" by simp
  then have ne: "?g \<noteq> []" by simp
  have lo: "\<forall>x\<in>set ?g. \<exists>v. x = Fin v \<and> a \<le> v"
  proof
    fix x assume "x \<in> set ?g"
    then obtain k where x: "x = Fin (exp (ln (1 + a) + real k * d) - 1)" by auto
    from h have "ln (1 + a) \<le> ln (1 + a) + real k * d" by simp
    then have "exp (ln (1 + a)) \<le> exp (ln (1 + a) + real k * d)" by (simp only: exp_le_cancel_iff)
    with h have "a \<le> exp (ln (1 + a) + real k * d) - 1" by simp
    with x show "\<exists>v. x = Fin v \<and> a \<le> v" by blast
  qed
  from g ne lo show "\<exists>g. log_zgrid G_spec [Fin a, Fin b] (Fin d) = Inr g \<and> g \<noteq> [] \<and>
      (\<forall>x\<in>set g. \<exists>v. x = Fin v \<and> a \<le> v)" by blast
qed

lemma fit_u_none:
  "fit_at_z (X_ex [Fin (4 / 100)]) fitter_u z [] ''nnls'' False =
     Inr (Fin 0, [Fin 0, Fin 0, Fin 0, Fin 0, Fin 0, Fin 0, Fin 0, Fin 0],
          [Fin 0, Fin 0, Fin 0, Fin 0, Fin 0, Fin 0, Fin 0, Fin 0], [], [])"
  unfolding fit_at_z_def
  by (simp add: design_eval fit_eval fitter_u_def X_ex_def)

lemma fits_everywhere_u: "fits_everywhere (X_ex [Fin (4 / 100)]) fitter_u [] ''nnls''"
  unfolding fits_everywhere_def by (intro allI exI) (rule fit_u_none)

lemma chi2_on_grid_u:
  "chi2_on_grid (X_ex [Fin (4 / 100)]) fitter_u [] ''nnls'' g = Inr (map (\<lambda>z. Fin 0) g)"
proof (induction g)
  case Nil
  then show ?case by (simp add: chi2_on_grid_def)
next
  case (Cons x g)
  then show ?case
    unfolding chi2_on_grid_def emap.simps fit_u_none by simp
qed

lemma ln_between:
  assumes "0 < (y::real)" and "exp a < y" and "y \<le> exp b"
  shows "a < ln y" and "ln y \<le> b"
proof -
  from assms(1,2) show "a < ln y" by (metis exp_less_cancel_iff exp_ln)
  from assms(1,3) show "ln y \<le> b" by (metis exp_le_cancel_iff exp_ln)
qed

lemma ceil_coarse: "\<lceil>(ln (8 / 5) * 2000 - ln (3 / 2 :: real) * 2000) / 101\<rceil> = 2"
proof -
  have e: "ln (8 / 5) - ln (3 / 2 :: real) = ln (16 / 15)"
    using ln_div [of "8 / 5 :: real" "3 / 2"] by simp
  have "exp (101 / 2000 :: real) \<le> 1 + 101 / 2000 + (101 / 2000)\<^sup>2"
    by (rule exp_bound) simp_all
  then have lo: "exp (101 / 2000 :: real) < 16 / 15" by (simp add: power2_eq_square)
  have "1 + 202 / 2000 \<le> exp (202 / 2000 :: real)" by (rule exp_ge_add_one_self)
  then have hi: "(16 / 15 :: real) \<le> exp (202 / 2000)" by simp
  from ln_between [OF _ lo hi] have "101 / 2000 < ln (16 / 15 :: real)" "ln (16 / 15 :: real) \<le> 202 / 2000"
    by simp_all
  with e have "101 / 2000 < ln (8 / 5) - ln (3 / 2 :: real)" "ln (8 / 5) - ln (3 / 2 :: real) \<le> 202 / 2000"
    by simp_all
  then show ?thesis by (simp add: ceiling_eq_iff field_simps)
qed

lemma ceil_round1: "\<lceil>ln (8 / 5) * 40 - ln (7 / 5 :: real) * 40\<rceil> = 6"
proof -
  have e: "ln (8 / 5) - ln (7 / 5 :: real) = ln (8 / 7)"
    using ln_div [of "8 / 5 :: real" "7 / 5"] by simp
  have "exp (1 / 8 :: real) \<le> 1 + 1 / 8 + (1 / 8)\<^sup>2"
    by (rule exp_bound) simp_all
  then have lo: "exp (1 / 8 :: real) < 8 / 7" by (simp add: power2_eq_square)
  have "1 + 3 / 20 \<le> exp (3 / 20 :: real)" by (rule exp_ge_add_one_self)
  then have hi: "(8 / 7 :: real) \<le> exp (3 / 20)" by simp
  from ln_between [OF _ lo hi] have "1 / 8 < ln (8 / 7 :: real)" "ln (8 / 7 :: real) \<le> 3 / 20"
    by simp_all
  with e have "1 / 8 < ln (8 / 5) - ln (7 / 5 :: real)" "ln (8 / 5) - ln (7 / 5 :: real) \<le> 3 / 20"
    by simp_all
  then show ?thesis by (simp add: ceiling_eq_iff field_simps)
qed

lemma grid_coarse:
  "log_zgrid G_spec [Fin (1 / 2), Fin (3 / 5)] (Fin (101 / 2000)) =
     Inr [Fin (1 / 2), Fin (exp (ln (3 / 2) + 101 / 2000) - 1)]"
  by (simp add: G_spec_def log_zgrid_spec_def ceil_coarse upt_conv_Cons)

lemma round1:
  "refine_round G_spec (X_ex [Fin (4 / 100)]) fitter_u (Fin (101 / 2000)) ''nnls'' None [] 1
     (([Fin (1 / 2), Fin (exp (ln (3 / 2) + 101 / 2000) - 1)], [Fin 0, Fin 0]),
      ([Fin (1 / 2), Fin (exp (ln (3 / 2) + 101 / 2000) - 1)], [Fin 0, Fin 0])) =
   Inr (([Fin (2 / 5), Fin (exp (ln (7 / 5) + 1 / 40) - 1),
          Fin (exp (ln (7 / 5) + 1 / 20) - 1), Fin (exp (ln (7 / 5) + 3 / 40) - 1),
          Fin (exp (ln (7 / 5) + 1 / 10) - 1), Fin (exp (ln (7 / 5) + 1 / 8) - 1)],
         [Fin 0, Fin 0, Fin 0, Fin 0, Fin 0, Fin 0]),
        ([Fin (1 / 2), Fin (exp (ln (3 / 2) + 101 / 2000) - 1),
          Fin (2 / 5), Fin (exp (ln (7 / 5) + 1 / 40) - 1),
          Fin (exp (ln (7 / 5) + 1 / 20) - 1), Fin (exp (ln (7 / 5) + 3 / 40) - 1),
          Fin (exp (ln (7 / 5) + 1 / 10) - 1), Fin (exp (ln (7 / 5) + 1 / 8) - 1)],
         [Fin 0, Fin 0, Fin 0, Fin 0, Fin 0, Fin 0, Fin 0, Fin 0]))"
  unfolding refine_round_def chi2_on_grid_u
  by (simp add: argmin_def G_spec_def log_zgrid_spec_def fsub_def ceil_round1 upt_conv_Cons
      flt_lt_def)

subsection \<open>The exposure with a pixel of zero weight, evaluated\<close>

lemma sqrt_4: "sqrt 4 = 2"
  using real_sqrt_abs [of 2] by simp

lemma init_w:
  "StackedSpectrum_init (X_ex cs) ext_w (Fin 0) (Fin (1 / 10)) (Fin (- 1)) (Fin 1) = Inr sp_w"
  by (simp add: StackedSpectrum_init_def ext_w_def ext_u_def sp_w_def sp_u_def fit_data_u_def
      get_wavelength_from_header_def
      fsub_def reshape_def mask_positive_def mask_finite_def mask_amplitude_def fsum_def
      build_model_def build_data_u compute_model_def np_dot_def dot_rows_def amax_def fmax2_def
      count_true_def replicate_numeral upt_conv_Cons Let_def inf_of_def sqrt_4)

lemma compute_model_w_flat: "compute_model X sp_w None = Inr (sp_flat sp_w)"
  by (simp add: compute_model_def sp_w_def sp_u_def fit_data_u_def np_dot_def dot_rows_def replicate_numeral)

lemma fitter_w_init:
  "StackFitter_init (X_ex cs) [ext_w] (Fin 0) (Fin (1 / 10)) (Fin 1) = Inr fitter_w"
  unfolding StackFitter_init_def
  apply (simp only: emap.simps init_w compute_model_w_flat ebind_Inr)
  apply (simp add: sp_w_def sp_u_def fitter_w_def fsum_def of_bool_flt_def init_background_def
      upt_conv_Cons Let_def sqrt_4)
  done

lemma wf_fitter_w: "wf_fitter fitter_w"
  by (simp add: wf_fitter_def fitter_w_def)

lemma design_w:
  "design_matrix (X_ex cs) fitter_w (Fin 0)
     [(''flat'', tmpl_flat), (''pm'', tmpl_pm), (''red'', tmpl_red)] =
     Inr [[Fin 1, Fin 1, Fin 1, Fin 1, Fin 1, Fin 1, Fin 1, Fin 1],
          [Fin (1 / 2), Fin (1 / 2), Fin (1 / 2), Fin (1 / 4),
           Fin (1 / 2), Fin (1 / 2), Fin (1 / 2), Fin (1 / 4)],
          [Fin (1 / 4), Fin (- (1 / 4)), Fin 0, Fin 0, Fin (1 / 4), Fin (- (1 / 4)), Fin 0, Fin 0],
          [Fin 0, Fin 0, Fin 1, Fin 1, Fin 0, Fin 0, Fin 1, Fin 1]]"
  by (simp add: design_eval fitter_w_def tmpl_flat_def tmpl_pm_def tmpl_red_def
      sp_w_def sp_u_def fit_data_u_def X_ex_def)

lemma oktemp_w:
  "oktemp_of [[Fin 1, Fin 1, Fin 1, Fin 1, Fin 1, Fin 1, Fin 1, Fin 1],
          [Fin (1 / 2), Fin (1 / 2), Fin (1 / 2), Fin (1 / 4),
           Fin (1 / 2), Fin (1 / 2), Fin (1 / 2), Fin (1 / 4)],
          [Fin (1 / 4), Fin (- (1 / 4)), Fin 0, Fin 0, Fin (1 / 4), Fin (- (1 / 4)), Fin 0, Fin 0],
          [Fin 0, Fin 0, Fin 1, Fin 1, Fin 0, Fin 0, Fin 1, Fin 1]] (fit_mask fitter_w) =
   [True, True, False, True]"
  by (simp add: oktemp_of_def fitter_w_def fsum_def of_bool_flt_def fne_def feq_def)

lemma fit_w:
  "fit_at_z (X_ex [Fin (4 / 100), Fin 2, Fin 1]) fitter_w (Fin 0)
     [(''flat'', tmpl_flat), (''pm'', tmpl_pm), (''red'', tmpl_red)] ''nnls'' False =
   Inr (Fin 0,
        [Fin 0, Fin 0, Fin 0, Fin 0, Fin 0, Fin 0, Fin 0, Fin 0],
        [Fin 1, Fin 1, NaN, Fin (3 / 2), Fin 1, Fin 1, Fin 2, Fin (3 / 2)],
        [Fin 2, Fin 0, Fin 1], [Fin 0, Fin 0, Fin 0])"
  unfolding fit_at_z_def
  by (simp only: design_w ebind_Inr) (simp add: fit_eval fitter_w_def X_ex_def)

lemma solver_w:
  "solver_call (X_ex [Fin (4 / 100), Fin 2, Fin 1]) fitter_w ''nnls'' A =
     Inr [Fin (4 / 100), Fin 2, Fin 1]"
  by (simp add: solver_call_def X_ex_def)

subsection \<open>The coefficients of the dropped templates in a linear combination\<close>

lemma fadd_zero_right: "fadd x (Fin 0) = x"
  by (cases x) simp_all

lemma select_Cons: "select (b # m) (r # rows) = (if b then r # select m rows else select m rows)"
  by (simp add: select_def)

lemma foldl_mask_put:
  "length m = length rows \<Longrightarrow> length vs = count_true m \<Longrightarrow>
   \<forall>i<length rows. \<not> m ! i \<longrightarrow> isfinite (rows ! i ! p) \<Longrightarrow>
   foldl fadd acc (map2 (\<lambda>c row. fmul c (row ! p))
      (mask_put (replicate (length rows) (Fin 0)) m vs) rows) =
   foldl fadd acc (map2 (\<lambda>c row. fmul c (row ! p)) vs (select m rows))"
proof (induction m rows arbitrary: vs acc rule: list_induct2)
  case Nil
  then show ?case by (simp add: select_def)
next
  case (Cons b m r rows)
  from Cons.prems(2) have tl: "\<forall>i<length rows. \<not> m ! i \<longrightarrow> isfinite (rows ! i ! p)"
    by auto
  show ?case
  proof (cases b)
    case True
    with Cons.prems(1) obtain v vs' where vs: "vs = v # vs'" and l: "length vs' = count_true m"
      by (cases vs) (auto simp: count_true_Cons)
    from Cons.IH [OF l tl] True vs show ?thesis by (simp add: select_Cons)
  next
    case False
    with Cons.prems(1) have l: "length vs = count_true m" by (simp add: count_true_Cons)
    from False Cons.prems(2) have "isfinite (r ! p)" by auto
    then obtain x where "r ! p = Fin x" by (auto simp: isfinite_iff)
    with Cons.IH [OF l tl] False show ?thesis
      by (simp add: select_Cons fadd_zero_right)
  qed
qed

lemma lincomb_mask_put:
  "length m = length rows \<Longrightarrow> length vs = count_true m \<Longrightarrow>
   \<forall>i<length rows. \<not> m ! i \<longrightarrow> isfinite (rows ! i ! p) \<Longrightarrow>
   lincomb (mask_put (replicate (length rows) (Fin 0)) m vs) rows p = lincomb vs (select m rows) p"
  unfolding lincomb_def fsum_def by (rule foldl_mask_put)

lemma foldl_fadd_nan: "foldl fadd NaN xs = NaN"
  by (induction xs) simp_all

lemma fadd_nan_right: "fadd x NaN = NaN"
  by (cases x) simp_all

lemma fsum_all_nan: "xs \<noteq> [] \<Longrightarrow> \<forall>x\<in>set xs. x = NaN \<Longrightarrow> fsum xs = NaN"
  by (cases xs) (simp_all add: fsum_def fadd_nan_right foldl_fadd_nan)

lemma unwhiten_zero: "fdiv (fmul a (Fin 0)) (Fin 0) = NaN"
  by (cases a) simp_all

lemma fmul_nan_right: "fmul c NaN = NaN"
  by (cases c) simp_all


subsection \<open>The rows and the data given to the solver\<close>

lemma select_as_filter:
  assumes "length ok = length A"
  shows "select ok A = map (\<lambda>i. A ! i) (filter (\<lambda>i. ok ! i) [0..<length A])"
proof -
  have z: "zip A ok = map (\<lambda>i. (A ! i, ok ! i)) [0..<length A]"
    using assms by (intro nth_equalityI) simp_all
  show ?thesis
    unfolding select_def z by (simp add: filter_map comp_def)
qed

lemma oktemp_total:
  assumes "i < length A" and "list_all isfinite (A ! i)"
  shows "oktemp_of A msk ! i \<longleftrightarrow> mask_total msk (A ! i) \<noteq> 0"
  using assms(1) masked_sum [OF assms(2), of msk]
  by (simp add: oktemp_of_def fne_def feq_def mask_total_def)

lemma solver_input:
  assumes fin: "\<forall>row\<in>set A. list_all isfinite row"
  shows "map (select (fit_mask S))
           (map (\<lambda>row. map2 fmul row (sivarf S)) (select (oktemp_of A (fit_mask S)) A)) =
         solve_rows S A"
proof -
  have l: "length (oktemp_of A (fit_mask S)) = length A" by (simp add: oktemp_of_def)
  have f: "filter (\<lambda>i. oktemp_of A (fit_mask S) ! i) [0..<length A] =
           filter (\<lambda>i. mask_total (fit_mask S) (A ! i) \<noteq> 0) [0..<length A]"
    using fin by (intro filter_cong) (auto simp: oktemp_total)
  show ?thesis
    unfolding select_as_filter [OF l] f solve_rows_def by (simp add: comp_def)
qed

lemma fit_design_solver:
  assumes fin: "\<forall>row\<in>set A. list_all isfinite row"
  shows "the_solver X fitter (solve_rows S A) (solve_data S) = Inl e \<Longrightarrow>
           fit_design X S n fitter gu A = Inl e"
    and "matrix_inv X' = matrix_inv X \<Longrightarrow>
         the_solver X' fitter (solve_rows S A) (solve_data S) =
           the_solver X fitter (solve_rows S A) (solve_data S) \<Longrightarrow>
         fit_design X' S n fitter gu A = fit_design X S n fitter gu A"
  unfolding fit_design_def Let_def solver_input [OF fin] the_solver_def solve_data_def
  by (simp_all split: if_splits)

lemma design_matrix_interp:
  assumes "interp_conserve_c X' = interp_conserve_c X"
  shows "design_matrix X' S z templates = design_matrix X S z templates"
proof -
  have "compute_model X' = compute_model X"
    using assms by (intro ext) (simp add: compute_model_def split: option.splits)
  then show ?thesis by (simp only: design_matrix_def template_row_def)
qed


subsection \<open>The values returned by the fit\<close>




subsection \<open>The examples of the inversion, evaluated\<close>

lemma init_r:
  "StackedSpectrum_init X ext_r (Fin 0) (Fin (1 / 10)) (Fin (- 1)) (Fin 1) = Inr sp_r"
  by (simp add: StackedSpectrum_init_def ext_r_def ext_u_def sp_r_def sp_u_def fit_data_u_def
      get_wavelength_from_header_def
      fsub_def reshape_def mask_positive_def mask_finite_def mask_amplitude_def fsum_def
      build_model_def build_data_u compute_model_def np_dot_def dot_rows_def amax_def fmax2_def
      count_true_def replicate_numeral upt_conv_Cons Let_def inf_of_def)

lemma compute_model_r_flat: "compute_model X sp_r None = Inr (sp_flat sp_r)"
  by (simp add: compute_model_def sp_r_def sp_u_def fit_data_u_def np_dot_def dot_rows_def replicate_numeral)

lemma fitter_r_init:
  "StackFitter_init X [ext_r] (Fin 0) (Fin (1 / 10)) (Fin 1) = Inr fitter_r"
  unfolding StackFitter_init_def
  apply (simp only: emap.simps init_r compute_model_r_flat ebind_Inr)
  apply (simp add: sp_r_def sp_u_def fitter_r_def fitter_u_def fsum_def of_bool_flt_def
      init_background_def upt_conv_Cons Let_def)
  done


lemma X_inv_interp: "interp_conserve_c (X_inv cs) = interp_conserve_c (X_ex cs)"
  by (simp add: X_inv_def)















subsection \<open>Columns with a value that is not finite\<close>







section \<open>Which rows of the design matrix enter the solve\<close>

text \<open>
  C1, as amended. \<open>fit_at_z\<close> gives to the solver the rows of the design matrix (of
  finite entries) whose sum over the mask-true pixels is not zero, whitened and restricted
  to the mask-true pixels, and no other row: an error of the solver on these rows is the
  error of the call, and the call depends on the solver only through what it returns on
  these rows. A row in the solve has a nonzero entry on a mask-true pixel, and a row whose
  entries on the mask are all non-negative, as for non-negative templates and kernels, is
  in the solve exactly when one of them is nonzero.
\<close>

theorem rows_in_the_solve:
  assumes dm: "design_matrix X S z templates = Inr A"
    and fin: "\<forall>row\<in>set A. list_all isfinite row"
  shows "(\<forall>e. the_solver X fitter (solve_rows S A) (solve_data S) = Inl e \<longrightarrow>
            fit_at_z X S z templates fitter gu = Inl e) \<and>
         (\<forall>X'. interp_conserve_c X' = interp_conserve_c X \<and> matrix_inv X' = matrix_inv X \<and>
               the_solver X' fitter (solve_rows S A) (solve_data S) =
                 the_solver X fitter (solve_rows S A) (solve_data S) \<longrightarrow>
               fit_at_z X' S z templates fitter gu = fit_at_z X S z templates fitter gu) \<and>
         (\<forall>i<length A.
            (mask_total (fit_mask S) (A ! i) \<noteq> 0 \<longrightarrow>
               (\<exists>a\<in>set (select (fit_mask S) (A ! i)). a \<noteq> Fin 0)) \<and>
            ((\<forall>a\<in>set (select (fit_mask S) (A ! i)). 0 \<le> rv a) \<longrightarrow>
               (mask_total (fit_mask S) (A ! i) \<noteq> 0 \<longleftrightarrow>
                  (\<exists>a\<in>set (select (fit_mask S) (A ! i)). a \<noteq> Fin 0))))"
proof (intro conjI allI impI)
  fix e
  assume "the_solver X fitter (solve_rows S A) (solve_data S) = Inl e"
  from fit_design_solver(1) [OF fin this] dm
  show "fit_at_z X S z templates fitter gu = Inl e" by (simp add: fit_at_z_def)
next
  fix X'
  assume h: "interp_conserve_c X' = interp_conserve_c X \<and> matrix_inv X' = matrix_inv X \<and>
    the_solver X' fitter (solve_rows S A) (solve_data S) =
      the_solver X fitter (solve_rows S A) (solve_data S)"
  then have "design_matrix X' S z templates = Inr A"
    using dm design_matrix_interp [of X' X S z templates] by simp
  with dm h fit_design_solver(2) [OF fin, of X' X fitter S "length templates" gu]
  show "fit_at_z X' S z templates fitter gu = fit_at_z X S z templates fitter gu"
    by (simp add: fit_at_z_def)
next
  fix i assume i: "i < length A"
  let ?sel = "select (fit_mask S) (A ! i)"
  from fin i have fi: "list_all isfinite (A ! i)" by simp
  then have fs: "list_all isfinite ?sel" by (rule select_finite)
  have nz: "a \<noteq> Fin 0 \<longleftrightarrow> rv a \<noteq> 0" if "a \<in> set ?sel" for a
  proof -
    from that fs obtain x where "a = Fin x" by (auto simp: list_all_iff isfinite_iff)
    then show ?thesis by (simp add: rv_def)
  qed
  {
    assume "mask_total (fit_mask S) (A ! i) \<noteq> 0"
    then have "\<exists>a\<in>set ?sel. rv a \<noteq> 0"
      unfolding mask_total_def using sum_list_all_zero [of ?sel rv] by blast
    with nz show "\<exists>a\<in>set ?sel. a \<noteq> Fin 0" by blast
  }
  {
    assume "\<forall>a\<in>set ?sel. 0 \<le> rv a"
    then have "sum_list (map rv ?sel) \<noteq> 0 \<longleftrightarrow> (\<exists>a\<in>set ?sel. rv a \<noteq> 0)"
      by (subst sum_list_nonneg_eq_0_iff) auto
    with nz show "mask_total (fit_mask S) (A ! i) \<noteq> 0 \<longleftrightarrow> (\<exists>a\<in>set ?sel. a \<noteq> Fin 0)"
      unfolding mask_total_def by blast
  }
qed

text \<open>
  The claim as stated fails for a template whose flux changes sign. On the fitter of the
  uniform exposure, at redshift 0, the row of \<open>tmpl_pm\<close> is 1/4 and -1/4 on mask-true
  pixels and sums to zero there: the row is not zero on the mask, and the solver is called
  on the background row alone; the coefficient returned for the template is 0.
\<close>

theorem rows_in_the_solve_counterexample:
  "StackFitter_init (X_ex []) [ext_u] (Fin (2 / 100)) (Fin (1 / 10)) (Fin 1) = Inr fitter_u \<and>
   design_matrix (X_ex [Fin (4 / 100)]) fitter_u (Fin 0) [(''pm'', tmpl_pm)] =
     Inr [[Fin 1, Fin 1, Fin 1, Fin 1, Fin 1, Fin 1, Fin 1, Fin 1],
          [Fin (1 / 4), Fin (- (1 / 4)), Fin 0, Fin 0, Fin (1 / 4), Fin (- (1 / 4)), Fin 0, Fin 0]] \<and>
   fit_mask fitter_u ! 0 \<and>
   [Fin (1 / 4), Fin (- (1 / 4)), Fin 0, Fin 0, Fin (1 / 4), Fin (- (1 / 4)), Fin 0, Fin 0] ! 0
     \<noteq> Fin 0 \<and>
   oktemp_of [[Fin 1, Fin 1, Fin 1, Fin 1, Fin 1, Fin 1, Fin 1, Fin 1],
          [Fin (1 / 4), Fin (- (1 / 4)), Fin 0, Fin 0, Fin (1 / 4), Fin (- (1 / 4)), Fin 0, Fin 0]]
     (fit_mask fitter_u) = [True, False] \<and>
   solve_rows fitter_u [[Fin 1, Fin 1, Fin 1, Fin 1, Fin 1, Fin 1, Fin 1, Fin 1],
          [Fin (1 / 4), Fin (- (1 / 4)), Fin 0, Fin 0, Fin (1 / 4), Fin (- (1 / 4)), Fin 0, Fin 0]] =
     [[Fin 1, Fin 1, Fin 1, Fin 1, Fin 1, Fin 1, Fin 1, Fin 1]] \<and>
   fit_at_z (X_ex [Fin (4 / 100)]) fitter_u (Fin 0) [(''pm'', tmpl_pm)] ''nnls'' False =
     Inr (Fin 0, replicate 8 (Fin 0), replicate 8 (Fin 0), [Fin 0], [Fin 0])"
proof -
  have ok: "oktemp_of [[Fin 1, Fin 1, Fin 1, Fin 1, Fin 1, Fin 1, Fin 1, Fin 1],
          [Fin (1 / 4), Fin (- (1 / 4)), Fin 0, Fin 0, Fin (1 / 4), Fin (- (1 / 4)), Fin 0, Fin 0]]
     (fit_mask fitter_u) = [True, False]"
    by (simp add: oktemp_of_def fitter_u_def fsum_def of_bool_flt_def fne_def feq_def)
  have sr: "solve_rows fitter_u [[Fin 1, Fin 1, Fin 1, Fin 1, Fin 1, Fin 1, Fin 1, Fin 1],
          [Fin (1 / 4), Fin (- (1 / 4)), Fin 0, Fin 0, Fin (1 / 4), Fin (- (1 / 4)), Fin 0, Fin 0]] =
     [[Fin 1, Fin 1, Fin 1, Fin 1, Fin 1, Fin 1, Fin 1, Fin 1]]"
    by (simp add: solve_rows_def mask_total_def fitter_u_def select_def rv_def upt_conv_Cons)
  have fit: "fit_at_z (X_ex [Fin (4 / 100)]) fitter_u (Fin 0) [(''pm'', tmpl_pm)] ''nnls'' False =
     Inr (Fin 0, replicate 8 (Fin 0), replicate 8 (Fin 0), [Fin 0], [Fin 0])"
    unfolding fit_at_z_def
    by (simp only: design_u_pm ebind_Inr) (simp add: fit_eval fitter_u_def X_ex_def)
  from fitter_u_init [of "[]"] design_u_pm [of "[Fin (4 / 100)]"] ok sr fit
  show ?thesis by (simp add: fitter_u_def)
qed

text \<open>
  The theorem on the same fitter with the flat template and the solver \<open>lstsq\<close>, which
  raises in the example: both rows are in the solve and the error is the error of the call.
\<close>

theorem rows_in_the_solve_witness:
  "design_matrix (X_ex []) fitter_u (Fin 0) [(''flat'', tmpl_flat)] =
     Inr [[Fin 1, Fin 1, Fin 1, Fin 1, Fin 1, Fin 1, Fin 1, Fin 1],
          [Fin (1 / 2), Fin (1 / 2), Fin (1 / 2), Fin (1 / 4),
           Fin (1 / 2), Fin (1 / 2), Fin (1 / 2), Fin (1 / 4)]] \<and>
   solve_rows fitter_u [[Fin 1, Fin 1, Fin 1, Fin 1, Fin 1, Fin 1, Fin 1, Fin 1],
          [Fin (1 / 2), Fin (1 / 2), Fin (1 / 2), Fin (1 / 4),
           Fin (1 / 2), Fin (1 / 2), Fin (1 / 2), Fin (1 / 4)]] =
     [[Fin 1, Fin 1, Fin 1, Fin 1, Fin 1, Fin 1, Fin 1, Fin 1],
      [Fin (1 / 2), Fin (1 / 2), Fin (1 / 2), Fin (1 / 4),
       Fin (1 / 2), Fin (1 / 2), Fin (1 / 2), Fin (1 / 4)]] \<and>
   the_solver (X_ex []) ''lstsq''
     [[Fin 1, Fin 1, Fin 1, Fin 1, Fin 1, Fin 1, Fin 1, Fin 1],
      [Fin (1 / 2), Fin (1 / 2), Fin (1 / 2), Fin (1 / 4),
       Fin (1 / 2), Fin (1 / 2), Fin (1 / 2), Fin (1 / 4)]] (solve_data fitter_u) = Inl SolverError \<and>
   fit_at_z (X_ex []) fitter_u (Fin 0) [(''flat'', tmpl_flat)] ''lstsq'' True = Inl SolverError \<and>
   mask_total (fit_mask fitter_u)
      [Fin (1 / 2), Fin (1 / 2), Fin (1 / 2), Fin (1 / 4),
       Fin (1 / 2), Fin (1 / 2), Fin (1 / 2), Fin (1 / 4)] = 7 / 2"
proof -
  let ?A = "[[Fin 1, Fin 1, Fin 1, Fin 1, Fin 1, Fin 1, Fin 1, Fin 1],
          [Fin (1 / 2), Fin (1 / 2), Fin (1 / 2), Fin (1 / 4),
           Fin (1 / 2), Fin (1 / 2), Fin (1 / 2), Fin (1 / 4)]]"
  have fin: "\<forall>row\<in>set ?A. list_all isfinite row" by simp
  have sr: "solve_rows fitter_u ?A = ?A"
    by (simp add: solve_rows_def mask_total_def fitter_u_def select_def rv_def upt_conv_Cons)
  have sv: "the_solver (X_ex []) ''lstsq'' (solve_rows fitter_u ?A) (solve_data fitter_u) =
              Inl SolverError"
    by (simp add: the_solver_def X_ex_def)
  have mt: "mask_total (fit_mask fitter_u)
      [Fin (1 / 2), Fin (1 / 2), Fin (1 / 2), Fin (1 / 4),
       Fin (1 / 2), Fin (1 / 2), Fin (1 / 2), Fin (1 / 4)] = 7 / 2"
    by (simp add: mask_total_def fitter_u_def select_def rv_def)
  from rows_in_the_solve [OF design_u_flat [of "[]"] fin, of "''lstsq''" True,
      THEN conjunct1, rule_format, OF sv]
    design_u_flat [of "[]"] sr sv mt
  show ?thesis by simp
qed

section \<open>Chi-squared\<close>

text \<open>
  C2, as amended. The chi-squared that \<open>fit_at_z\<close> returns is the sum, over the mask-true
  pixels of the concatenated data vector, of (science data - full model - background)
  squared times the inverse variance of the fitter, and that inverse variance is
  \<open>1/(1/ivar_raw + (sys_err*flux)^2)\<close> times the contamination weight of the pixel.
\<close>

theorem chi2_weighted:
  assumes "StackFitter_init X exts sys_err mask_min fcontam = Inr S"
    and "fit_at_z X S z templates fitter gu = Inr (chi2, background, full, coeffs, err)"
  shows "chi2 = chi2_sum (fit_mask S) (scif S) full background
                  (map2 fmul (concat (map (ext_ivar sys_err) exts))
                             (concat (map (ext_weight fcontam) exts)))"
proof -
  from assms(2) obtain A where
    "fit_design X S (length templates) fitter gu A = Inr (chi2, background, full, coeffs, err)"
    by (auto simp: fit_at_z_def ebind_eq_Inr)
  from fit_design_Inr [OF this] have
    "chi2 = fsum (map2 fmul
              (map (\<lambda>r. fmul r r)
                 (select (fit_mask S) (map2 fsub (map2 fsub (scif S) full) background)))
              (select (fit_mask S) (ivarf S)))"
    by blast
  then show ?thesis
    using StackFitter_init_fields [OF assms(1)]
    by (simp only: chi2_sum_code chi2_sum_def)
qed

text \<open>
  The claim as stated leaves the weight out. On the exposure with a contamination image
  the weight is \<open>exp (-1)\<close> at every pixel; the solution of the system with the
  background alone is the pedestal, the residual is the science image, and the
  chi-squared returned is \<open>exp (-1)\<close> times the sum the claim describes.
\<close>

theorem chi2_weighted_counterexample:
  "StackFitter_init (X_ex [Fin (4 / 100)]) [ext_c] (Fin (2 / 100)) (Fin (1 / 10)) (Fin 1) =
     Inr fitter_c \<and>
   fit_at_z (X_ex [Fin (4 / 100)]) fitter_c (Fin 0) [] ''nnls'' False =
     Inr (Fin (20000 * exp (- 1) / 2501),
          [Fin 0, Fin 0, Fin 0, Fin 0, Fin 0, Fin 0, Fin 0, Fin 0],
          [Fin 0, Fin 0, Fin 0, Fin 0, Fin 0, Fin 0, Fin 0, Fin 0], [], []) \<and>
   chi2_sum (fit_mask fitter_c) (scif fitter_c)
     [Fin 0, Fin 0, Fin 0, Fin 0, Fin 0, Fin 0, Fin 0, Fin 0]
     [Fin 0, Fin 0, Fin 0, Fin 0, Fin 0, Fin 0, Fin 0, Fin 0]
     (concat (map (ext_ivar (Fin (2 / 100))) [ext_c])) = Fin (20000 / 2501) \<and>
   Fin (20000 * exp (- 1) / 2501) \<noteq> Fin (20000 / 2501)"
proof -
  have "chi2_sum (fit_mask fitter_c) (scif fitter_c)
     [Fin 0, Fin 0, Fin 0, Fin 0, Fin 0, Fin 0, Fin 0, Fin 0]
     [Fin 0, Fin 0, Fin 0, Fin 0, Fin 0, Fin 0, Fin 0, Fin 0]
     (concat (map (ext_ivar (Fin (2 / 100))) [ext_c])) = Fin (20000 / 2501)"
    by (simp add: chi2_sum_def ext_ivar_def ext_c_def fitter_c_def select_def fsum_def fsub_def)
  then show ?thesis
    using fitter_c_init [of "[Fin (4 / 100)]"] fit_c by simp
qed

theorem chi2_weighted_witness:
  "Fin (20000 * exp (- 1) / 2501) =
   chi2_sum (fit_mask fitter_c) (scif fitter_c)
     [Fin 0, Fin 0, Fin 0, Fin 0, Fin 0, Fin 0, Fin 0, Fin 0]
     [Fin 0, Fin 0, Fin 0, Fin 0, Fin 0, Fin 0, Fin 0, Fin 0]
     (map2 fmul (concat (map (ext_ivar (Fin (2 / 100))) [ext_c]))
                (concat (map (ext_weight (Fin 1)) [ext_c])))"
  using chi2_weighted [OF fitter_c_init fit_c] .

section \<open>The background and the full model as linear combinations\<close>

text \<open>
  C3, as amended. When every background row is in the solve and the solver returns one
  coefficient per row, a call of \<open>fit_at_z\<close> that returns gives, at every pixel of the data
  vector: the background, equal to the background coefficients times the background rows
  minus the pedestal 0.04; and the full model, which at a pixel where the square root of
  the inverse variance is finite and not zero equals the linear combination of the returned
  template coefficients (zero for a dropped template, whose row is finite there) with the
  original rows of the templates, and which is NaN at a pixel where that square root is
  zero, when a template is in the solve.
\<close>

theorem model_reconstruction:
  assumes dm: "design_matrix X S z templates = Inr A"
    and wf: "wf_fitter S"
    and kept: "\<forall>j<Next S. oktemp_of A (fit_mask S) ! j"
    and sc: "solver_call X S fitter A = Inr cs"
    and len: "length cs = count_true (oktemp_of A (fit_mask S))"
    and fit: "fit_at_z X S z templates fitter gu = Inr (chi2, background, full, coeffs, err)"
    and p: "p < Ndata S"
  shows "p < length background \<and> p < length full \<and>
         emap (\<lambda>t. template_row X S z (snd t)) templates = Inr (drop (Next S) A) \<and>
         background ! p = fsub (lincomb (take (Next S) cs) (Abg S) p) (Fin (4 / 100)) \<and>
         (\<forall>x. sivarf S ! p = Fin x \<and> x \<noteq> 0 \<and>
              (\<forall>i<length templates. \<not> oktemp_of A (fit_mask S) ! (Next S + i) \<longrightarrow>
                   isfinite (A ! (Next S + i) ! p)) \<longrightarrow>
            full ! p = lincomb coeffs (drop (Next S) A) p) \<and>
         (sivarf S ! p = Fin 0 \<and> (\<exists>i<length templates. oktemp_of A (fit_mask S) ! (Next S + i)) \<longrightarrow>
            full ! p = NaN)"
proof -
  let ?ok = "oktemp_of A (fit_mask S)"
  let ?m = "drop (Next S) ?ok"
  let ?T = "drop (Next S) A"
  let ?R = "select ?m ?T"
  let ?n = "length templates"
  note rows = design_matrix_rows [OF dm wf]
  from wf have lenbg: "length (Abg S) = Next S"
    and bgrows: "\<forall>row\<in>set (Abg S). length row = Ndata S"
    and siv: "length (sivarf S) = Ndata S"
    by (simp_all add: wf_fitter_def)
  have lA: "length A = Next S + ?n" using design_matrix_length [OF dm] lenbg by simp
  have lok: "length ?ok = Next S + ?n" using lA by (simp add: oktemp_of_def)
  have lm: "length ?m = ?n" "length ?T = ?n" using lok lA by simp_all
  have kR: "drop (Next S) (select ?ok A) = ?R"
  proof -
    have "length ?ok = length A" "Next S \<le> length A" using lok lA by simp_all
    from select_kept_prefix [OF this kept] lA show ?thesis by simp
  qed
  from fit dm have "fit_design X S ?n fitter gu A = Inr (chi2, background, full, coeffs, err)"
    by (simp add: fit_at_z_def)
  from fit_design_Inr [OF this] sc obtain bg where
    bg: "np_dot (take (Next S) cs) (take (Next S) A) (Ndata S) = Inr bg" and
    bk: "background = map (\<lambda>b. fsub b (Fin (4 / 100))) bg" and
    fl: "np_dot (drop (Next S) cs)
           (map (\<lambda>row. map2 fdiv row (sivarf S)) (drop (Next S) (Ax_of S A))) (Ndata S) = Inr full" and
    co: "mask_assign (replicate ?n (Fin 0)) ?m (drop (Next S) cs) = Inr coeffs"
    by auto
  from bg rows(1) have bg': "bg = dot_rows (take (Next S) cs) (Abg S) (Ndata S)"
    by (simp add: np_dot_def split: if_splits)
  from bgrows p have "\<forall>row\<in>set (Abg S). p < length row" by simp
  from dot_rows_nth [OF p this, of "take (Next S) cs"] bg' have
    b1: "p < length bg" and b2: "bg ! p = lincomb (take (Next S) cs) (Abg S) p"
    by (simp_all add: lincomb_def)
  have Rrows: "\<forall>row\<in>set ?R. length row = Ndata S"
    using rows(3) set_select [of ?m ?T] by (auto dest: in_set_dropD)
  let ?f = "\<lambda>row. map2 fdiv (map2 fmul row (sivarf S)) (sivarf S)"
  have M: "map (\<lambda>row. map2 fdiv row (sivarf S)) (drop (Next S) (Ax_of S A)) = map ?f ?R"
    by (simp add: Ax_of_def drop_map kR)
  from fl have fu: "full = dot_rows (drop (Next S) cs) (map ?f ?R) (Ndata S)"
    and lcs: "length (drop (Next S) cs) = length ?R"
    unfolding M by (simp_all add: np_dot_def split: if_splits)
  have "\<forall>row\<in>set (map ?f ?R). p < length row"
    using Rrows siv p by simp
  from dot_rows_nth [OF p this, of "drop (Next S) cs"] fu have
    f1: "p < length full" and f2: "full ! p = lincomb (drop (Next S) cs) (map ?f ?R) p"
    by (simp_all add: lincomb_def)
  have cnt: "length (drop (Next S) cs) = count_true ?m"
  proof -
    have "Next S \<le> length ?ok" using lok by simp
    from kept_prefix_count(2) [OF kept this] len show ?thesis by simp
  qed
  from co cnt have coeffs: "coeffs = mask_put (replicate ?n (Fin 0)) ?m (drop (Next S) cs)"
    by (simp add: mask_assign_def)
  have f3: "full ! p = lincomb coeffs ?T p"
    if x: "sivarf S ! p = Fin x" "x \<noteq> 0"
      and fin: "\<forall>i<?n. \<not> ?ok ! (Next S + i) \<longrightarrow> isfinite (A ! (Next S + i) ! p)" for x
  proof -
    have "\<forall>row\<in>set ?R. ?f row ! p = row ! p"
      using Rrows siv p x by (simp add: whiten_cancel)
    from lincomb_cong [OF this] f2 have a: "full ! p = lincomb (drop (Next S) cs) ?R p" by simp
    have "\<forall>i<length ?T. \<not> ?m ! i \<longrightarrow> isfinite (?T ! i ! p)"
      using fin lm lok lA by simp
    from lincomb_mask_put [OF _ cnt this] lm have
      "lincomb (mask_put (replicate ?n (Fin 0)) ?m (drop (Next S) cs)) ?T p =
       lincomb (drop (Next S) cs) ?R p" by simp
    with a coeffs show ?thesis by simp
  qed
  have f4: "full ! p = NaN" if z: "sivarf S ! p = Fin 0" and r: "\<exists>i<?n. ?ok ! (Next S + i)"
  proof -
    from r obtain i where i: "i < ?n" "?m ! i" using lok by auto
    then have "0 < count_true ?m"
      using count_true_take_less [of i ?m] lm by simp
    with cnt lcs have ne: "?R \<noteq> []" "drop (Next S) cs \<noteq> []" by auto
    let ?terms = "map2 (\<lambda>c row. fmul c (row ! p)) (drop (Next S) cs) (map ?f ?R)"
    have "\<forall>row\<in>set (map ?f ?R). row ! p = NaN"
      using Rrows siv p z by (simp add: unwhiten_zero)
    then have "\<forall>t\<in>set ?terms. t = NaN"
      by (auto simp: fmul_nan_right dest!: set_zip_rightD)
    moreover have "?terms \<noteq> []" using ne lcs by (cases "drop (Next S) cs"; cases ?R) simp_all
    ultimately have "fsum ?terms = NaN" by (intro fsum_all_nan) simp_all
    with f2 show ?thesis by (simp add: lincomb_def)
  qed
  from b1 b2 bk f1 f3 f4 rows(2) show ?thesis by simp
qed

text \<open>
  The claim as stated covers every pixel. The whitening is undone by a division by the
  square root of the inverse variance, which is zero at a pixel of zero weight: there the
  full model is not a number, while the linear combination of the coefficients 2, 0 and 1
  with the rows of the templates is 2. The exposure has zero weight at pixel 2.
\<close>

theorem model_reconstruction_counterexample:
  "StackFitter_init (X_ex [Fin (4 / 100), Fin 2, Fin 1]) [ext_w] (Fin 0) (Fin (1 / 10)) (Fin 1) =
     Inr fitter_w \<and>
   design_matrix (X_ex [Fin (4 / 100), Fin 2, Fin 1]) fitter_w (Fin 0)
       [(''flat'', tmpl_flat), (''pm'', tmpl_pm), (''red'', tmpl_red)] =
     Inr [[Fin 1, Fin 1, Fin 1, Fin 1, Fin 1, Fin 1, Fin 1, Fin 1],
          [Fin (1 / 2), Fin (1 / 2), Fin (1 / 2), Fin (1 / 4),
           Fin (1 / 2), Fin (1 / 2), Fin (1 / 2), Fin (1 / 4)],
          [Fin (1 / 4), Fin (- (1 / 4)), Fin 0, Fin 0, Fin (1 / 4), Fin (- (1 / 4)), Fin 0, Fin 0],
          [Fin 0, Fin 0, Fin 1, Fin 1, Fin 0, Fin 0, Fin 1, Fin 1]] \<and>
   fit_at_z (X_ex [Fin (4 / 100), Fin 2, Fin 1]) fitter_w (Fin 0)
       [(''flat'', tmpl_flat), (''pm'', tmpl_pm), (''red'', tmpl_red)] ''nnls'' False =
     Inr (Fin 0, [Fin 0, Fin 0, Fin 0, Fin 0, Fin 0, Fin 0, Fin 0, Fin 0],
          [Fin 1, Fin 1, NaN, Fin (3 / 2), Fin 1, Fin 1, Fin 2, Fin (3 / 2)],
          [Fin 2, Fin 0, Fin 1], [Fin 0, Fin 0, Fin 0]) \<and>
   sivarf fitter_w ! 2 = Fin 0 \<and>
   lincomb [Fin 2, Fin 0, Fin 1]
     [[Fin (1 / 2), Fin (1 / 2), Fin (1 / 2), Fin (1 / 4),
       Fin (1 / 2), Fin (1 / 2), Fin (1 / 2), Fin (1 / 4)],
      [Fin (1 / 4), Fin (- (1 / 4)), Fin 0, Fin 0, Fin (1 / 4), Fin (- (1 / 4)), Fin 0, Fin 0],
      [Fin 0, Fin 0, Fin 1, Fin 1, Fin 0, Fin 0, Fin 1, Fin 1]] 2 = Fin 2 \<and>
   [Fin 1, Fin 1, NaN, Fin (3 / 2), Fin 1, Fin 1, Fin 2, Fin (3 / 2)] ! 2 \<noteq> Fin 2"
  using fitter_w_init [of "[Fin (4 / 100), Fin 2, Fin 1]"] design_w [of "[Fin (4 / 100), Fin 2, Fin 1]"]
    fit_w
  by (simp add: lincomb_def fsum_def fitter_w_def)

text \<open>
  The theorem on the same call, at pixel 3, where the square root of the inverse variance
  is 2 and the full model is 2 * 1/4 + 0 * 0 + 1 * 1, and at pixel 2.
\<close>

theorem model_reconstruction_witness:
  "fit_at_z (X_ex [Fin (4 / 100), Fin 2, Fin 1]) fitter_w (Fin 0)
       [(''flat'', tmpl_flat), (''pm'', tmpl_pm), (''red'', tmpl_red)] ''nnls'' False =
     Inr (Fin 0, [Fin 0, Fin 0, Fin 0, Fin 0, Fin 0, Fin 0, Fin 0, Fin 0],
          [Fin 1, Fin 1, NaN, Fin (3 / 2), Fin 1, Fin 1, Fin 2, Fin (3 / 2)],
          [Fin 2, Fin 0, Fin 1], [Fin 0, Fin 0, Fin 0]) \<and>
   sivarf fitter_w ! 3 = Fin 2 \<and>
   [Fin 0, Fin 0, Fin 0, Fin 0, Fin 0, Fin 0, Fin 0, Fin 0] ! 3 =
     fsub (lincomb (take (Next fitter_w) [Fin (4 / 100), Fin 2, Fin 1]) (Abg fitter_w) 3)
       (Fin (4 / 100)) \<and>
   [Fin 1, Fin 1, NaN, Fin (3 / 2), Fin 1, Fin 1, Fin 2, Fin (3 / 2)] ! 3 =
     lincomb [Fin 2, Fin 0, Fin 1]
       [[Fin (1 / 2), Fin (1 / 2), Fin (1 / 2), Fin (1 / 4),
         Fin (1 / 2), Fin (1 / 2), Fin (1 / 2), Fin (1 / 4)],
        [Fin (1 / 4), Fin (- (1 / 4)), Fin 0, Fin 0, Fin (1 / 4), Fin (- (1 / 4)), Fin 0, Fin 0],
        [Fin 0, Fin 0, Fin 1, Fin 1, Fin 0, Fin 0, Fin 1, Fin 1]] 3 \<and>
   lincomb [Fin 2, Fin 0, Fin 1]
       [[Fin (1 / 2), Fin (1 / 2), Fin (1 / 2), Fin (1 / 4),
         Fin (1 / 2), Fin (1 / 2), Fin (1 / 2), Fin (1 / 4)],
        [Fin (1 / 4), Fin (- (1 / 4)), Fin 0, Fin 0, Fin (1 / 4), Fin (- (1 / 4)), Fin 0, Fin 0],
        [Fin 0, Fin 0, Fin 1, Fin 1, Fin 0, Fin 0, Fin 1, Fin 1]] 3 = Fin (3 / 2) \<and>
   sivarf fitter_w ! 2 = Fin 0 \<and>
   [Fin 1, Fin 1, NaN, Fin (3 / 2), Fin 1, Fin 1, Fin 2, Fin (3 / 2)] ! 2 = NaN"
proof -
  let ?A = "[[Fin 1, Fin 1, Fin 1, Fin 1, Fin 1, Fin 1, Fin 1, Fin 1],
          [Fin (1 / 2), Fin (1 / 2), Fin (1 / 2), Fin (1 / 4),
           Fin (1 / 2), Fin (1 / 2), Fin (1 / 2), Fin (1 / 4)],
          [Fin (1 / 4), Fin (- (1 / 4)), Fin 0, Fin 0, Fin (1 / 4), Fin (- (1 / 4)), Fin 0, Fin 0],
          [Fin 0, Fin 0, Fin 1, Fin 1, Fin 0, Fin 0, Fin 1, Fin 1]]"
  have kept: "\<forall>j<Next fitter_w. oktemp_of ?A (fit_mask fitter_w) ! j"
    unfolding oktemp_w by (simp add: fitter_w_def)
  have len: "length [Fin (4 / 100), Fin 2, Fin 1] = count_true (oktemp_of ?A (fit_mask fitter_w))"
    unfolding oktemp_w by (simp add: count_true_def)
  have p3: "(3::nat) < Ndata fitter_w" and p2: "(2::nat) < Ndata fitter_w"
    by (simp_all add: fitter_w_def)
  note at3 = model_reconstruction [OF design_w wf_fitter_w kept solver_w len fit_w p3]
  note at2 = model_reconstruction [OF design_w wf_fitter_w kept solver_w len fit_w p2]
  from at3 at2 fit_w show ?thesis
    by (simp add: fitter_w_def lincomb_def fsum_def fsub_def)
qed

section \<open>Coefficients in the order of the templates\<close>

text \<open>
  C4. For a call of \<open>fit_at_z\<close> that returns, with design matrix \<open>A\<close> and solver result
  \<open>cs\<close>: the coefficient vector and the uncertainty vector have one entry per template
  and are zero at every dropped template. When every background row is retained and the
  solver returns one coefficient per retained row, the entry of a retained template is
  the coefficient the solver gave to its row, which is the retained row number
  \<open>count_true (take (Next + i) oktemp)\<close>; likewise for the uncertainties.
\<close>

theorem coefficients_original_order:
  assumes dm: "design_matrix X S z templates = Inr A"
    and wf: "wf_fitter S"
    and sc: "solver_call X S fitter A = Inr cs"
    and fit: "fit_at_z X S z templates fitter gu = Inr (chi2, background, full, coeffs, err)"
    and i: "i < length templates"
  shows "length coeffs = length templates \<and> length err = length templates \<and>
         (\<not> oktemp_of A (fit_mask S) ! (Next S + i) \<longrightarrow> coeffs ! i = Fin 0 \<and> err ! i = Fin 0) \<and>
         ((\<forall>j<Next S. oktemp_of A (fit_mask S) ! j) \<and> oktemp_of A (fit_mask S) ! (Next S + i) \<longrightarrow>
            (length cs = count_true (oktemp_of A (fit_mask S)) \<longrightarrow>
               coeffs ! i = cs ! count_true (take (Next S + i) (oktemp_of A (fit_mask S)))) \<and>
            (length (covard_of X S gu A) = count_true (oktemp_of A (fit_mask S)) \<longrightarrow>
               err ! i = covard_of X S gu A !
                           count_true (take (Next S + i) (oktemp_of A (fit_mask S)))))"
proof -
  let ?ok = "oktemp_of A (fit_mask S)"
  let ?m = "drop (Next S) ?ok"
  let ?n = "length templates"
  from wf have lenbg: "length (Abg S) = Next S" by (simp add: wf_fitter_def)
  have lok: "length ?ok = Next S + ?n"
    using design_matrix_length [OF dm] lenbg by (simp add: oktemp_of_def)
  then have lm: "length ?m = ?n" by simp
  from fit dm have "fit_design X S ?n fitter gu A = Inr (chi2, background, full, coeffs, err)"
    by (simp add: fit_at_z_def)
  from fit_design_Inr [OF this] sc have
    c: "mask_assign (replicate ?n (Fin 0)) ?m (drop (Next S) cs) = Inr coeffs" and
    e: "mask_assign (replicate ?n (Fin 0)) ?m (drop (Next S) (covard_of X S gu A)) = Inr err"
    by (auto simp: covard_of_def)
  note cs = mask_assign_shape [OF c lm] and es = mask_assign_shape [OF e lm]
  have mi: "?m ! i = ?ok ! (Next S + i)" using lok i by simp
  have kept: "r ! i = v ! count_true (take (Next S + i) ?ok)"
    if a: "mask_assign (replicate ?n (Fin 0)) ?m (drop (Next S) v) = Inr r"
      and k: "\<forall>j<Next S. ?ok ! j" and ki: "?ok ! (Next S + i)"
      and l: "length v = count_true ?ok" for v r
  proof -
    from lok have le: "Next S \<le> length ?ok" by simp
    note cnt = kept_prefix_count [OF k le]
    from l cnt(2) have lv: "length (drop (Next S) v) = count_true ?m" by simp
    have "count_true (take i ?m) < count_true ?m"
      using count_true_take_less [of i ?m] lm i mi ki by simp
    with lv l cnt(2) have "Next S + count_true (take i ?m) \<le> length v" by simp
    with mask_assign_kept [OF a _ lv, of i] lm i mi ki cnt(1) [of i] show ?thesis
      by simp
  qed
  from cs(1) es(1) cs(2) [OF i] es(2) [OF i] mi kept [OF c] kept [OF e] show ?thesis
    by simp
qed

text \<open>
  With a background row dropped the property fails. The second exposure has no pixel in
  the fit mask, so its background row is dropped and the solver returns three
  coefficients for the rows 0, 2 and 3; \<open>coeffs[Next:]\<close> is then the single coefficient of
  the red template, which the assignment broadcasts to both templates: the flat template
  is reported with 1 where the solver found 2. With the flat template alone
  \<open>coeffs[Next:]\<close> is empty and the assignment raises.
\<close>

theorem coefficients_original_order_counterexample:
  "StackFitter_init (X_ex [Fin (4 / 100), Fin 2, Fin 1]) [ext_u2, ext_m]
     (Fin 0) (Fin (1 / 10)) (Fin 1) = Inr fitter_um \<and>
   design_matrix (X_ex [Fin (4 / 100), Fin 2, Fin 1]) fitter_um (Fin 0)
       [(''flat'', tmpl_flat), (''red'', tmpl_red)] =
     Inr [[Fin 1, Fin 1, Fin 1, Fin 1, Fin 1, Fin 1, Fin 1, Fin 1,
           Fin 0, Fin 0, Fin 0, Fin 0, Fin 0, Fin 0, Fin 0, Fin 0],
          [Fin 0, Fin 0, Fin 0, Fin 0, Fin 0, Fin 0, Fin 0, Fin 0,
           Fin 1, Fin 1, Fin 1, Fin 1, Fin 1, Fin 1, Fin 1, Fin 1],
          [Fin (1 / 2), Fin (1 / 2), Fin (1 / 2), Fin (1 / 4),
           Fin (1 / 2), Fin (1 / 2), Fin (1 / 2), Fin (1 / 4),
           Fin (1 / 2), Fin (1 / 2), Fin (1 / 2), Fin (1 / 4),
           Fin (1 / 2), Fin (1 / 2), Fin (1 / 2), Fin (1 / 4)],
          [Fin 0, Fin 0, Fin 1, Fin 1, Fin 0, Fin 0, Fin 1, Fin 1,
           Fin 0, Fin 0, Fin 1, Fin 1, Fin 0, Fin 0, Fin 1, Fin 1]] \<and>
   oktemp_of [[Fin 1, Fin 1, Fin 1, Fin 1, Fin 1, Fin 1, Fin 1, Fin 1,
           Fin 0, Fin 0, Fin 0, Fin 0, Fin 0, Fin 0, Fin 0, Fin 0],
          [Fin 0, Fin 0, Fin 0, Fin 0, Fin 0, Fin 0, Fin 0, Fin 0,
           Fin 1, Fin 1, Fin 1, Fin 1, Fin 1, Fin 1, Fin 1, Fin 1],
          [Fin (1 / 2), Fin (1 / 2), Fin (1 / 2), Fin (1 / 4),
           Fin (1 / 2), Fin (1 / 2), Fin (1 / 2), Fin (1 / 4),
           Fin (1 / 2), Fin (1 / 2), Fin (1 / 2), Fin (1 / 4),
           Fin (1 / 2), Fin (1 / 2), Fin (1 / 2), Fin (1 / 4)],
          [Fin 0, Fin 0, Fin 1, Fin 1, Fin 0, Fin 0, Fin 1, Fin 1,
           Fin 0, Fin 0, Fin 1, Fin 1, Fin 0, Fin 0, Fin 1, Fin 1]] (fit_mask fitter_um) =
     [True, False, True, True] \<and>
   fit_at_z (X_ex [Fin (4 / 100), Fin 2, Fin 1]) fitter_um (Fin 0)
       [(''flat'', tmpl_flat), (''red'', tmpl_red)] ''nnls'' False =
     Inr (Fin (13 / 2),
        [Fin 0, Fin 0, Fin 0, Fin 0, Fin 0, Fin 0, Fin 0, Fin 0,
         Fin (49 / 25), Fin (49 / 25), Fin (49 / 25), Fin (49 / 25),
         Fin (49 / 25), Fin (49 / 25), Fin (49 / 25), Fin (49 / 25)],
        [Fin 0, Fin 0, Fin 1, Fin 1, Fin 0, Fin 0, Fin 1, Fin 1,
         NaN, NaN, NaN, NaN, NaN, NaN, NaN, NaN],
        [Fin 1, Fin 1], [Fin 0, Fin 0]) \<and>
   [Fin 1, Fin 1] ! 0 \<noteq>
     [Fin (4 / 100), Fin 2, Fin 1] ! count_true (take (Next fitter_um + 0) [True, False, True, True]) \<and>
   fit_at_z (X_ex [Fin (4 / 100), Fin 2]) fitter_um (Fin 0) [(''flat'', tmpl_flat)] ''nnls'' False =
     Inl ValueError"
  using fitter_um_init [of "[Fin (4 / 100), Fin 2, Fin 1]"]
    design_um [of "[Fin (4 / 100), Fin 2, Fin 1]"] oktemp_um fit_um
    fit_um_one [of "Fin (4 / 100)" "Fin 2"]
  by (simp add: fitter_um_def count_true_def)

text \<open>
  The theorem on the first exposure alone with three templates, the second of which is
  dropped: the red template, at position 2, is reported with the third coefficient.
\<close>

theorem coefficients_original_order_witness:
  "oktemp_of [[Fin 1, Fin 1, Fin 1, Fin 1, Fin 1, Fin 1, Fin 1, Fin 1],
          [Fin (1 / 2), Fin (1 / 2), Fin (1 / 2), Fin (1 / 4),
           Fin (1 / 2), Fin (1 / 2), Fin (1 / 2), Fin (1 / 4)],
          [Fin (1 / 4), Fin (- (1 / 4)), Fin 0, Fin 0, Fin (1 / 4), Fin (- (1 / 4)), Fin 0, Fin 0],
          [Fin 0, Fin 0, Fin 1, Fin 1, Fin 0, Fin 0, Fin 1, Fin 1]] (fit_mask fitter_u2) =
     [True, True, False, True] \<and>
   length [Fin 2, Fin 0, Fin (1::real)] =
     length [(''flat'', tmpl_flat), (''pm'', tmpl_pm), (''red'', tmpl_red)] \<and>
   length [Fin (4 / 100), Fin 2, Fin (1::real)] = count_true [True, True, False, True] \<and>
   [Fin 2, Fin 0, Fin 1] ! 2 =
     [Fin (4 / 100), Fin 2, Fin 1] ! count_true (take (Next fitter_u2 + 2) [True, True, False, True]) \<and>
   [Fin 0, Fin 0, Fin 0] ! 2 =
     covard_of (X_ex [Fin (4 / 100), Fin 2, Fin 1]) fitter_u2 False
       [[Fin 1, Fin 1, Fin 1, Fin 1, Fin 1, Fin 1, Fin 1, Fin 1],
          [Fin (1 / 2), Fin (1 / 2), Fin (1 / 2), Fin (1 / 4),
           Fin (1 / 2), Fin (1 / 2), Fin (1 / 2), Fin (1 / 4)],
          [Fin (1 / 4), Fin (- (1 / 4)), Fin 0, Fin 0, Fin (1 / 4), Fin (- (1 / 4)), Fin 0, Fin 0],
          [Fin 0, Fin 0, Fin 1, Fin 1, Fin 0, Fin 0, Fin 1, Fin 1]] !
       count_true (take (Next fitter_u2 + 2) [True, True, False, True])"
  using coefficients_original_order [OF design_u2 wf_fitter_u2 solver_u2 fit_u2, of 2]
  unfolding covard_of_def oktemp_u2
  by (simp add: count_true_def fitter_u2_def fitter_u_def)

section \<open>A failure of the inversion is absorbed\<close>




section \<open>Optimal extraction of the flat model\<close>




section \<open>The fit mask of an exposure only narrows\<close>

text \<open>
  C7. In the construction of a \<open>StackedSpectrum\<close> the fit mask is set from the positive
  inverse variance and then narrowed twice by conjunction: with the finiteness of the
  science and inverse-variance arrays, and with the amplitude of the flat model above
  \<open>mask_min\<close> times its maximum. The mask of the finished object is the result of these
  three steps; after each step the set of mask-true pixels is a subset of the set before
  it, and the number of mask-true pixels does not increase.
\<close>

theorem fit_mask_narrowed:
  assumes "StackedSpectrum_init X h sys_err mask_min mask_threshold fcontam = Inr sp"
  shows "\<exists>m1 m2 elec elec_max.
           m1 = mask_positive (sp_ivarf sp) \<and>
           m2 = mask_finite m1 (sp_scif sp) (sp_ivarf sp) \<and>
           elec_of sp = Inr elec \<and> amax elec = Inr elec_max \<and>
           sp_fit_mask sp = mask_amplitude m2 elec mask_min elec_max \<and>
           true_set m2 \<subseteq> true_set m1 \<and> true_set (sp_fit_mask sp) \<subseteq> true_set m2 \<and>
           count_true m2 \<le> count_true m1 \<and> count_true (sp_fit_mask sp) \<le> count_true m2"
proof -
  from init_fit_mask [OF assms] obtain elec elec_max where
    e: "elec_of sp = Inr elec" "amax elec = Inr elec_max" and
    m: "sp_fit_mask sp =
          mask_amplitude (mask_finite (mask_positive (sp_ivarf sp)) (sp_scif sp) (sp_ivarf sp))
            elec mask_min elec_max"
    by blast
  have s2: "true_set (mask_finite m (sp_scif sp) (sp_ivarf sp)) \<subseteq> true_set m" for m
    unfolding mask_finite_def by (rule true_set_conj)
  have c2: "count_true (mask_finite m (sp_scif sp) (sp_ivarf sp)) \<le> count_true m" for m
    unfolding mask_finite_def by (rule count_true_conj)
  have s3: "true_set (mask_amplitude m elec mask_min elec_max) \<subseteq> true_set m" for m
    unfolding mask_amplitude_def by (rule true_set_conj)
  have c3: "count_true (mask_amplitude m elec mask_min elec_max) \<le> count_true m" for m
    unfolding mask_amplitude_def by (rule count_true_conj)
  show ?thesis
    using e m s2 c2 s3 c3 by simp
qed

text \<open>
  On the example exposure the three masks have 7, 6 and 4 true pixels: the pixel of zero
  weight fails the first test, the pixel of infinite weight the second, the last column
  the third.
\<close>

theorem fit_mask_narrowed_witness:
  "StackedSpectrum_init (X_ex []) ext_a (Fin (2 / 100)) (Fin (1 / 10)) (Fin (- 1)) (Fin 1) = Inr sp_a \<and>
   (\<exists>m1 m2 elec elec_max.
      m1 = mask_positive (sp_ivarf sp_a) \<and>
      m2 = mask_finite m1 (sp_scif sp_a) (sp_ivarf sp_a) \<and>
      elec_of sp_a = Inr elec \<and> amax elec = Inr elec_max \<and>
      sp_fit_mask sp_a = mask_amplitude m2 elec (Fin (1 / 10)) elec_max \<and>
      true_set m2 \<subseteq> true_set m1 \<and> true_set (sp_fit_mask sp_a) \<subseteq> true_set m2 \<and>
      count_true m2 \<le> count_true m1 \<and> count_true (sp_fit_mask sp_a) \<le> count_true m2) \<and>
   count_true (mask_positive (sp_ivarf sp_a)) = 7 \<and>
   count_true (mask_finite (mask_positive (sp_ivarf sp_a)) (sp_scif sp_a) (sp_ivarf sp_a)) = 6 \<and>
   count_true (sp_fit_mask sp_a) = 4"
  using fit_mask_narrowed [OF init_a] init_a
  by (simp add: sp_a_def mask_positive_def mask_finite_def count_true_def)

section \<open>The six refinement rounds of the scan\<close>

text \<open>
  C8, as amended. The scan of \<open>fit_zgrid\<close> is the coarse grid followed by the rounds
  1 to 6 of \<open>zoom_round\<close>, with no other exit than an exception of one of its calls:
  whenever it returns it has made exactly six rounds, each on the grid that the grid
  routine gives for the range \<open>[z0 - 4*dz, z0 + 4*dz]\<close> and the step
  \<open>dz = dz0 / 2.02^i\<close>, where \<open>z0\<close> is the point of the previous grid at which
  \<open>np.argmin\<close> finds chi-squared plus the interpolated prior least, and the accumulated
  arrays are the grids and their chi-squared appended in order, nothing removed. It
  returns whenever the grid routine gives a non-empty finite grid on every increasing
  range above -1, the interpolation gives one value per point, \<open>fit_at_z\<close> returns at
  every finite redshift, and the coarse range \<open>[a, b]\<close> and step \<open>d0\<close> satisfy
  \<open>0 < d0\<close>, \<open>-1 + 4*d0 \<le> a < b\<close>. The position that \<open>np.argmin\<close> returns is in the
  array, and no entry is less than the one there. The number of points of a grid is not
  part of the statement: the scan passes the range and the step to the grid routine, and
  no count.
\<close>

theorem six_zoom_rounds:
  "fit_zgrid_scan G X S dz0 zr fitter prior ts = zoom_scan G X S dz0 zr fitter prior ts \<and>
   (\<forall>z chi2. fit_zgrid_scan G X S dz0 zr fitter prior ts = Inr (z, chi2) \<longrightarrow>
      (\<exists>g0 c0 rs.
         log_zgrid G zr dz0 = Inr g0 \<and> chi2_on_grid X S ts ''nnls'' g0 = Inr c0 \<and>
         zoom_rounds G X S dz0 fitter prior ts 6 1 (g0, c0) = Inr rs \<and> length rs = 6 \<and>
         z = concat (map fst ((g0, c0) # rs)) \<and> chi2 = concat (map snd ((g0, c0) # rs)))) \<and>
   (grid_routine_ok G \<and> prior_ok G prior \<and> fits_everywhere X S ts ''nnls'' \<and>
    fits_everywhere X S ts fitter \<and> dz0 = Fin d0 \<and> zr = [Fin a, Fin b] \<and>
    0 < d0 \<and> - 1 + 4 * d0 \<le> a \<and> a < b \<longrightarrow>
      (\<exists>z chi2. fit_zgrid_scan G X S dz0 zr fitter prior ts = Inr (z, chi2))) \<and>
   (\<forall>cp iz. argmin cp = Inr iz \<longrightarrow>
      iz < length cp \<and> (\<forall>j<length cp. \<not> flt_lt (cp ! j) (cp ! iz)))"
proof (intro conjI allI impI)
  show eq: "fit_zgrid_scan G X S dz0 zr fitter prior ts = zoom_scan G X S dz0 zr fitter prior ts"
    by (rule scan_eq_zoom)
  {
    fix z chi2
    assume "fit_zgrid_scan G X S dz0 zr fitter prior ts = Inr (z, chi2)"
    with eq have "zoom_scan G X S dz0 zr fitter prior ts = Inr (z, chi2)" by simp
    then obtain g0 c0 rs where
      r: "log_zgrid G zr dz0 = Inr g0" "chi2_on_grid X S ts ''nnls'' g0 = Inr c0"
        "zoom_rounds G X S dz0 fitter prior ts 6 1 (g0, c0) = Inr rs"
        "z = concat (map fst ((g0, c0) # rs))" "chi2 = concat (map snd ((g0, c0) # rs))"
      unfolding zoom_scan_def by (auto simp: ebind_eq_Inr)
    from zoom_rounds_length [OF r(3)] r
    show "\<exists>g0 c0 rs.
         log_zgrid G zr dz0 = Inr g0 \<and> chi2_on_grid X S ts ''nnls'' g0 = Inr c0 \<and>
         zoom_rounds G X S dz0 fitter prior ts 6 1 (g0, c0) = Inr rs \<and> length rs = 6 \<and>
         z = concat (map fst ((g0, c0) # rs)) \<and> chi2 = concat (map snd ((g0, c0) # rs))"
      by blast
  }
  {
    assume h: "grid_routine_ok G \<and> prior_ok G prior \<and> fits_everywhere X S ts ''nnls'' \<and>
      fits_everywhere X S ts fitter \<and> dz0 = Fin d0 \<and> zr = [Fin a, Fin b] \<and>
      0 < d0 \<and> - 1 + 4 * d0 \<le> a \<and> a < b"
    then have "\<exists>g0 c0 rs.
           log_zgrid G [Fin a, Fin b] (Fin d0) = Inr g0 \<and>
           chi2_on_grid X S ts ''nnls'' g0 = Inr c0 \<and>
           zoom_rounds G X S (Fin d0) fitter prior ts 6 1 (g0, c0) = Inr rs \<and>
           zoom_scan G X S (Fin d0) [Fin a, Fin b] fitter prior ts =
             Inr (concat (map fst ((g0, c0) # rs)), concat (map snd ((g0, c0) # rs)))"
      by (intro zoom_scan_returns) simp_all
    with h eq show "\<exists>z chi2. fit_zgrid_scan G X S dz0 zr fitter prior ts = Inr (z, chi2)"
      by auto
  }
  {
    fix cp iz
    assume a: "argmin cp = Inr iz"
    from argmin_min(1) [OF a] show "iz < length cp" .
    fix j assume "j < length cp"
    with argmin_min(2) [OF a] show "\<not> flt_lt (cp ! j) (cp ! iz)" by simp
  }
qed

text \<open>
  The claim as stated has every round build a grid of the same point count. With the grid
  of the description, uniform in \<open>log(1+z)\<close> from the start of the range and below its
  end, the coarse grid over \<open>[0.5, 0.6]\<close> with step 0.0505 has 2 points; chi-squared is 0
  at both (no template, zero science image), the minimum is found at the first, 0.5, and
  round 1 builds the grid over \<open>[0.4, 0.6]\<close> with step \<open>0.0505 / 2.02 = 0.025\<close>, which has
  6 points.
\<close>

theorem six_zoom_rounds_counterexample:
  "log_zgrid G_spec [Fin (1 / 2), Fin (3 / 5)] (Fin (101 / 2000)) =
     Inr [Fin (1 / 2), Fin (exp (ln (3 / 2) + 101 / 2000) - 1)] \<and>
   chi2_on_grid (X_ex [Fin (4 / 100)]) fitter_u [] ''nnls''
       [Fin (1 / 2), Fin (exp (ln (3 / 2) + 101 / 2000) - 1)] = Inr [Fin 0, Fin 0] \<and>
   refine_round G_spec (X_ex [Fin (4 / 100)]) fitter_u (Fin (101 / 2000)) ''nnls'' None [] 1
     (([Fin (1 / 2), Fin (exp (ln (3 / 2) + 101 / 2000) - 1)], [Fin 0, Fin 0]),
      ([Fin (1 / 2), Fin (exp (ln (3 / 2) + 101 / 2000) - 1)], [Fin 0, Fin 0])) =
   Inr (([Fin (2 / 5), Fin (exp (ln (7 / 5) + 1 / 40) - 1),
          Fin (exp (ln (7 / 5) + 1 / 20) - 1), Fin (exp (ln (7 / 5) + 3 / 40) - 1),
          Fin (exp (ln (7 / 5) + 1 / 10) - 1), Fin (exp (ln (7 / 5) + 1 / 8) - 1)],
         [Fin 0, Fin 0, Fin 0, Fin 0, Fin 0, Fin 0]),
        ([Fin (1 / 2), Fin (exp (ln (3 / 2) + 101 / 2000) - 1),
          Fin (2 / 5), Fin (exp (ln (7 / 5) + 1 / 40) - 1),
          Fin (exp (ln (7 / 5) + 1 / 20) - 1), Fin (exp (ln (7 / 5) + 3 / 40) - 1),
          Fin (exp (ln (7 / 5) + 1 / 10) - 1), Fin (exp (ln (7 / 5) + 1 / 8) - 1)],
         [Fin 0, Fin 0, Fin 0, Fin 0, Fin 0, Fin 0, Fin 0, Fin 0])) \<and>
   length [Fin (2 / 5), Fin (exp (ln (7 / 5) + 1 / 40) - 1),
          Fin (exp (ln (7 / 5) + 1 / 20) - 1), Fin (exp (ln (7 / 5) + 3 / 40) - 1),
          Fin (exp (ln (7 / 5) + 1 / 10) - 1), Fin (exp (ln (7 / 5) + 1 / 8) - 1)] \<noteq>
   length [Fin (1 / 2), Fin (exp (ln (3 / 2) + 101 / 2000) - 1)]"
  using grid_coarse round1
    chi2_on_grid_u [of "[Fin (1 / 2), Fin (exp (ln (3 / 2) + 101 / 2000) - 1)]"]
  by simp

text \<open>The conditions of the theorem hold on the same scan, which returns.\<close>

theorem six_zoom_rounds_witness:
  "grid_routine_ok G_spec \<and> prior_ok G_spec None \<and>
   fits_everywhere (X_ex [Fin (4 / 100)]) fitter_u [] ''nnls'' \<and>
   (0 :: real) < 101 / 2000 \<and> - 1 + 4 * (101 / 2000) \<le> (1 / 2 :: real) \<and> (1 / 2 :: real) < 3 / 5 \<and>
   (\<exists>z chi2. fit_zgrid_scan G_spec (X_ex [Fin (4 / 100)]) fitter_u (Fin (101 / 2000))
               [Fin (1 / 2), Fin (3 / 5)] ''nnls'' None [] = Inr (z, chi2))"
proof -
  have p: "prior_ok G_spec None" by (simp add: prior_ok_def)
  from six_zoom_rounds [where G = G_spec and X = "X_ex [Fin (4 / 100)]" and S = fitter_u
      and ?dz0.0 = "Fin (101 / 2000)" and zr = "[Fin (1 / 2), Fin (3 / 5)]" and fitter = "''nnls''"
      and prior = None and ts = "[]" and ?d0.0 = "101 / 2000" and a = "1 / 2" and b = "3 / 5",
      THEN conjunct2, THEN conjunct2, THEN conjunct1]
    log_zgrid_spec_ok p fits_everywhere_u
  show ?thesis by simp
qed

section \<open>fit_at_z leaves the fitter unchanged\<close>



section \<open>A line with zero coefficient has zero equivalent width\<close>

text \<open>
  C10. In the line measurements of \<open>fit_zgrid\<close>, a line template whose fitted coefficient
  compares equal to zero is written with an equivalent width of exactly 0 under its key
  \<open>LINEnnnW\<close>: the integration is skipped, and the value is neither the sentinel -1000
  nor \<open>nan\<close>.
\<close>

theorem zero_coefficient_zero_EW:
  assumes "line_measurements ew t_i coeffs err meta = Inr m"
    and "i < length t_i"
    and "startswith_line (t_i ! i)"
    and "feq (coeffs ! i) (Fin 0)"
  shows "map_of m (line_number t_i i, CHR ''W'') =
           Some (Fin 0, drop 5 (t_i ! i) @ '' line rest EQW'')"
  using line_loop_zero [of ew coeffs err t_i 0 0 meta m i] assms
  by (simp add: line_measurements_def)

text \<open>
  Three templates, the second a line with coefficient 0 and the third a line whose
  integral is not finite: the first line gets the width 0, the second the sentinel.
\<close>

theorem zero_coefficient_zero_EW_witness:
  "line_measurements (\<lambda>te c. NaN) [''cont'', ''line Ha'', ''line OIII'']
     [Fin 1, Fin 0, Fin 2] [Fin 1, Fin 0, Fin 3] [] =
     Inr [((1, CHR ''F''), (Fin 0, ''Ha line flux'')),
          ((1, CHR ''E''), (Fin 0, ''Ha line flux uncertainty'')),
          ((1, CHR ''W''), (Fin 0, ''Ha line rest EQW'')),
          ((2, CHR ''F''), (Fin 2, ''OIII line flux'')),
          ((2, CHR ''E''), (Fin 3, ''OIII line flux uncertainty'')),
          ((2, CHR ''W''), (Fin (- 1000), ''OIII line rest EQW''))] \<and>
   map_of [((1, CHR ''F''), (Fin 0, ''Ha line flux'')),
          ((1, CHR ''E''), (Fin 0, ''Ha line flux uncertainty'')),
          ((1, CHR ''W''), (Fin 0, ''Ha line rest EQW'')),
          ((2, CHR ''F''), (Fin 2, ''OIII line flux'')),
          ((2, CHR ''E''), (Fin 3, ''OIII line flux uncertainty'')),
          ((2, CHR ''W''), (Fin (- 1000), ''OIII line rest EQW''))]
     (line_number [''cont'', ''line Ha'', ''line OIII''] 1, CHR ''W'') =
     Some (Fin 0, ''Ha line rest EQW'')"
proof -
  have r: "line_measurements (\<lambda>te c. NaN) [''cont'', ''line Ha'', ''line OIII'']
     [Fin 1, Fin 0, Fin 2] [Fin 1, Fin 0, Fin 3] [] =
     Inr [((1, CHR ''F''), (Fin 0, ''Ha line flux'')),
          ((1, CHR ''E''), (Fin 0, ''Ha line flux uncertainty'')),
          ((1, CHR ''W''), (Fin 0, ''Ha line rest EQW'')),
          ((2, CHR ''F''), (Fin 2, ''OIII line flux'')),
          ((2, CHR ''E''), (Fin 3, ''OIII line flux uncertainty'')),
          ((2, CHR ''W''), (Fin (- 1000), ''OIII line rest EQW''))]"
    by (simp add: line_measurements_def startswith_line_def feq_def)
  have "startswith_line ([''cont'', ''line Ha'', ''line OIII''] ! 1)"
    by (simp add: startswith_line_def)
  from zero_coefficient_zero_EW [OF r _ this] r show ?thesis
    by (simp add: feq_def)
qed

end
